theory Spec2Isabelle
  imports Main "HOL-Library.Word"
begin

chapter \<open>wsidicom: instance level objects (\<^verbatim>\<open>wsidicom/instance.py\<close>)\<close>

text \<open>
  A shallow embedding of the tile index, the frame offset table codec, the tile data
  engine and the offset table writer of \<^verbatim>\<open>wsidicom/instance.py\<close>.
  Python integers are \<^typ>\<open>int\<close>, every \<^verbatim>\<open>raise\<close> is a value \<open>Inl e\<close> of a
  sum type, loops are recursive functions, and the binary file object is a record of
  its bytes and its position.
\<close>

section \<open>Errors\<close>

text \<open>
  The exceptions the modelled code can raise. \<open>WsiDicomFileError\<close> carries the message
  the source gives it; the others are told apart by their class only.
\<close>

datatype error =
    WsiDicomFileError string
  | WsiDicomNotFoundError
  | WsiDicomOutOfBoundsError
  | ValueError
  | NotImplementedError
  | IndexError
  | AttributeError
  | ZeroDivisionError
  | StructError
  | EOFError
  | OSError

section \<open>Geometry\<close>

text \<open>
  The module \<^verbatim>\<open>wsidicom.geometry\<close> (\<open>Point\<close>, \<open>Size\<close>, \<open>Region\<close>) is imported by
  \<^verbatim>\<open>instance.py\<close> but is not among the sources. Its types are integer pairs; the
  operators used by the modelled code are given below, each from the specification.
\<close>

datatype point = Point (pt_x: int) (pt_y: int)

datatype wsize = Size (width: int) (height: int)

datatype region = Region (position: point) (region_size: wsize)

text \<open>Modelled from the spec: \<open>Size.area\<close> of the absent geometry module, the number of
  cells of a size (\<open>tiles_per_plane\<close> is \<open>W*H\<close>).\<close>

definition area :: "wsize \<Rightarrow> int" where
  "area s = width s * height s"

text \<open>Modelled from the spec: \<open>Region.start\<close> and \<open>Region.end\<close> of the absent geometry
  module (Region = position + size with derived start/end/box).\<close>

definition region_start :: "region \<Rightarrow> point" where
  "region_start r = position r"

definition region_end :: "region \<Rightarrow> point" where
  "region_end r =
     Point (pt_x (position r) + width (region_size r))
           (pt_y (position r) + height (region_size r))"

text \<open>Modelled from the spec: \<open>Region.box\<close> of the absent geometry module, the tuple
  (left, upper, right, lower) of start and end; and \<open>Region.box_from_origin\<close>, the box
  of the region's size placed at the origin.\<close>

definition box :: "region \<Rightarrow> int \<times> int \<times> int \<times> int" where
  "box r = (pt_x (region_start r), pt_y (region_start r),
            pt_x (region_end r), pt_y (region_end r))"

definition box_from_origin :: "region \<Rightarrow> int \<times> int \<times> int \<times> int" where
  "box_from_origin r = (0, 0, width (region_size r), height (region_size r))"

text \<open>Modelled from the spec: \<open>Region.from_points\<close> of the absent geometry module, the
  region that starts at the first point and ends at the second.\<close>

definition from_points :: "point \<Rightarrow> point \<Rightarrow> region" where
  "from_points s e = Region s (Size (pt_x e - pt_x s) (pt_y e - pt_y s))"

text \<open>Modelled from the spec: \<open>Point.__floordiv__\<close> by a \<open>Size\<close> of the absent
  geometry module (floor-division by a size performs per-axis integer division).
  Python raises \<open>ZeroDivisionError\<close> on a zero divisor.\<close>

definition point_floordiv :: "point \<Rightarrow> wsize \<Rightarrow> error + point" where
  "point_floordiv p s =
     (if width s = 0 \<or> height s = 0 then Inl ZeroDivisionError
      else Inr (Point (pt_x p div width s) (pt_y p div height s)))"

text \<open>Modelled from the spec: the operator \<open>/\<close> of \<open>Point\<close> and \<open>Size\<close> by a \<open>Size\<close>
  of the absent geometry module. It is component-wise and yields integers; it rounds
  the quotient up: the tiled size of a 154 by 290 image in 1024 by 1024 tiles is 1 by 1,
  and \<^verbatim>\<open>test_get_tiles\<close> expects \<^verbatim>\<open>end / tile_size - 1\<close> to be 0 for the end 100.\<close>

definition ceil_div :: "int \<Rightarrow> int \<Rightarrow> int" where
  "ceil_div a b = - ((- a) div b)"

definition point_truediv :: "point \<Rightarrow> wsize \<Rightarrow> error + point" where
  "point_truediv p s =
     (if width s = 0 \<or> height s = 0 then Inl ZeroDivisionError
      else Inr (Point (ceil_div (pt_x p) (width s)) (ceil_div (pt_y p) (height s))))"

definition size_truediv :: "wsize \<Rightarrow> wsize \<Rightarrow> error + wsize" where
  "size_truediv a s =
     (if width s = 0 \<or> height s = 0 then Inl ZeroDivisionError
      else Inr (Size (ceil_div (width a) (width s)) (ceil_div (height a) (height s))))"

text \<open>Modelled from the spec: subtraction of a scalar from a \<open>Point\<close> and from a
  \<open>Size\<close> of the absent geometry module (arithmetic is component-wise and mixed with
  scalars).\<close>

definition point_sub_int :: "point \<Rightarrow> int \<Rightarrow> point" where
  "point_sub_int p n = Point (pt_x p - n) (pt_y p - n)"

definition size_sub_int :: "wsize \<Rightarrow> int \<Rightarrow> wsize" where
  "size_sub_int s n = Size (width s - n) (height s - n)"

text \<open>Modelled from the spec: \<open>Region.is_inside\<close> of the absent geometry module: the
  region starts at or after the start of the other and ends at or before its end, on
  both axes (\<^verbatim>\<open>test_valid_tiles\<close>: in a 1 by 1 tiling the tile region of size (0, 0) at
  (0, 0) is inside the plane region, the one of size (0, 2) is not).\<close>

definition is_inside :: "region \<Rightarrow> region \<Rightarrow> bool" where
  "is_inside r t \<longleftrightarrow>
     pt_x (region_start t) \<le> pt_x (region_start r) \<and>
     pt_y (region_start t) \<le> pt_y (region_start r) \<and>
     pt_x (region_end r) \<le> pt_x (region_end t) \<and>
     pt_y (region_end r) \<le> pt_y (region_end t)"

text \<open>Modelled from the spec: \<open>Region.iterate_all\<close> of the absent geometry module: the
  points of the region row by row, x fastest; with \<open>include_end\<close> the end column and
  the end row are visited too.\<close>

definition iterate_all :: "region \<Rightarrow> bool \<Rightarrow> point list" where
  "iterate_all r include_end =
     (let off = (if include_end then 1 else 0) in
      concat (map (\<lambda>yy. map (\<lambda>xx. Point xx yy)
                          [pt_x (region_start r) .. pt_x (region_end r) + off - 1])
                  [pt_y (region_start r) .. pt_y (region_end r) + off - 1]))"

text \<open>Modelled from the spec: \<open>Region.inside_crop\<close> of the absent geometry module: the
  intersection of the region with the tile at a tile coordinate, relative to the
  origin of the tile; an empty intersection has size 0 (\<^verbatim>\<open>test_crop_tile\<close>: the region
  of size 300 at (1200, 1200) and the tile (1, 1) of size 1024 give the region of size
  300 at (176, 176)).\<close>

definition inside_crop :: "region \<Rightarrow> point \<Rightarrow> wsize \<Rightarrow> region" where
  "inside_crop r tile sz =
     (let ox = pt_x tile * width sz;
          oy = pt_y tile * height sz;
          sx = max (pt_x (region_start r)) ox;
          sy = max (pt_y (region_start r)) oy;
          ex = min (pt_x (region_end r)) (ox + width sz);
          ey = min (pt_y (region_end r)) (oy + height sz)
      in Region (Point (sx - ox) (sy - oy)) (Size (max 0 (ex - sx)) (max 0 (ey - sy))))"

section \<open>Python containers\<close>

text \<open>
  A Python \<open>set\<close> is modelled as a list without repetitions, \<open>set.add\<close> as \<open>set_add\<close>
  and \<open>list(s)\<close> as the list itself. Python leaves the iteration order of a set
  unspecified; the model lists the elements in the order of their first insertion, and
  the theorems about such lists speak of their elements only.
\<close>

definition set_add :: "'a \<Rightarrow> 'a list \<Rightarrow> 'a list" where
  "set_add v s = (if v \<in> set s then s else s @ [v])"

definition set_update :: "'a list \<Rightarrow> 'a list \<Rightarrow> 'a list" where
  "set_update vs s = fold set_add vs s"

text \<open>\<^verbatim>\<open>next(index for index, v in enumerate(xs) if P(v))\<close>: the first index whose
  element satisfies \<open>P\<close>, \<open>None\<close> for \<open>StopIteration\<close>.\<close>

fun index_where :: "('a \<Rightarrow> bool) \<Rightarrow> 'a list \<Rightarrow> nat option" where
  "index_where P [] = None"
| "index_where P (v # vs) =
     (if P v then Some 0 else map_option Suc (index_where P vs))"

text \<open>\<^verbatim>\<open>xs[i]\<close>: a negative index counts from the end, an index out of range raises
  \<open>IndexError\<close>.\<close>

definition py_index :: "'a list \<Rightarrow> int \<Rightarrow> error + 'a" where
  "py_index xs i =
     (if 0 \<le> i \<and> i < int (length xs) then Inr (xs ! nat i)
      else if - int (length xs) \<le> i \<and> i < 0 then Inr (xs ! nat (int (length xs) + i))
      else Inl IndexError)"

text \<open>A dictionary that keeps insertion order is an association list; assigning to a
  key that is present replaces its value in place.\<close>

fun dict_set :: "'k \<Rightarrow> 'v \<Rightarrow> ('k \<times> 'v) list \<Rightarrow> ('k \<times> 'v) list" where
  "dict_set k v [] = [(k, v)]"
| "dict_set k v ((k', v') # d) =
     (if k' = k then (k, v) # d else (k', v') # dict_set k v d)"

section \<open>Binary files\<close>

type_synonym byte = "8 word"

text \<open>pydicom's \<open>DicomFile\<close>: the bytes of the file, the position of the file pointer
  and the two flags of the transfer syntax.\<close>

record dicom_fp =
  fp_content :: "byte list"
  fp_pos :: nat
  is_little_endian :: bool
  is_implicit_VR :: bool

text \<open>\<open>fp.tell()\<close>, \<open>fp.seek(offset)\<close> and \<open>fp.seek(offset, 1)\<close>. A position before the
  start of the file is refused by the operating system; a position after the end is
  not.\<close>

definition fp_tell :: "dicom_fp \<Rightarrow> int" where
  "fp_tell f = int (fp_pos f)"

definition fp_seek :: "dicom_fp \<Rightarrow> int \<Rightarrow> error + dicom_fp" where
  "fp_seek f offset =
     (if offset < 0 then Inl OSError else Inr (f \<lparr> fp_pos := nat offset \<rparr>))"

definition fp_seek_cur :: "dicom_fp \<Rightarrow> int \<Rightarrow> error + dicom_fp" where
  "fp_seek_cur f offset = fp_seek f (fp_tell f + offset)"

text \<open>\<open>fp.read(n)\<close>: the bytes from the position on, at most \<open>n\<close> of them (all of them
  when \<open>n\<close> is negative); the position moves past the bytes read.\<close>

definition fp_read :: "dicom_fp \<Rightarrow> int \<Rightarrow> byte list \<times> dicom_fp" where
  "fp_read f n =
     (let rest = drop (fp_pos f) (fp_content f);
          data = (if n < 0 then rest else take (nat n) rest)
      in (data, f \<lparr> fp_pos := fp_pos f + length data \<rparr>))"

text \<open>\<open>fp.write(data)\<close>: the bytes replace those at the position and extend the file
  at its end; a gap between the end of the file and the position is filled with zero
  bytes.\<close>

definition fp_write :: "dicom_fp \<Rightarrow> byte list \<Rightarrow> dicom_fp" where
  "fp_write f data =
     f \<lparr> fp_content :=
           (if fp_pos f \<le> length (fp_content f)
            then take (fp_pos f) (fp_content f) @ data
                 @ drop (fp_pos f + length data) (fp_content f)
            else fp_content f @ replicate (fp_pos f - length (fp_content f)) 0 @ data),
         fp_pos := fp_pos f + length data \<rparr>"

subsection \<open>Packing and unpacking integers\<close>

fun le_nat :: "byte list \<Rightarrow> nat" where
  "le_nat [] = 0"
| "le_nat (b # bs) = unat b + 256 * le_nat bs"

fun le_bytes :: "nat \<Rightarrow> nat \<Rightarrow> byte list" where
  "le_bytes 0 v = []"
| "le_bytes (Suc n) v = of_nat (v mod 256) # le_bytes n (v div 256)"

text \<open>
  \<open>struct.unpack(mode, data)[0]\<close> and \<open>struct.pack(mode, value)\<close> for the formats the
  source uses: \<open>H\<close> (2 bytes), \<open>L\<close> (4 bytes) and \<open>Q\<close> (8 bytes), unsigned, with the
  byte order \<open><\<close> (little endian), \<open>>\<close> (big endian) or none (the byte order of the
  machine, which the parameter \<open>native_le\<close> gives). Data of another length, a value
  out of the range of the format and any other format raise \<open>struct.error\<close>.
\<close>

definition format_of :: "bool \<Rightarrow> string \<Rightarrow> (bool \<times> nat) option" where
  "format_of native_le mode =
     (if mode = ''<H'' then Some (True, 2)
      else if mode = ''>H'' then Some (False, 2)
      else if mode = ''<L'' then Some (True, 4)
      else if mode = ''>L'' then Some (False, 4)
      else if mode = ''<Q'' then Some (True, 8)
      else if mode = ''>Q'' then Some (False, 8)
      else if mode = ''Q'' then Some (native_le, 8)
      else None)"

definition unpack :: "bool \<Rightarrow> string \<Rightarrow> byte list \<Rightarrow> error + int" where
  "unpack native_le mode data =
     (case format_of native_le mode of
        None \<Rightarrow> Inl StructError
      | Some (le, n) \<Rightarrow>
          if length data \<noteq> n then Inl StructError
          else Inr (int (le_nat (if le then data else rev data))))"

definition pack :: "bool \<Rightarrow> string \<Rightarrow> int \<Rightarrow> error + byte list" where
  "pack native_le mode v =
     (case format_of native_le mode of
        None \<Rightarrow> Inl StructError
      | Some (le, n) \<Rightarrow>
          if v < 0 \<or> 2 ^ (8 * n) \<le> v then Inl StructError
          else Inr (if le then le_bytes n (nat v) else rev (le_bytes n (nat v))))"

subsection \<open>Tags and lengths\<close>

type_synonym tag = "int \<times> int"

definition ItemTag :: tag where "ItemTag = (0xFFFE, 0xE000)"
definition SequenceDelimiterTag :: tag where "SequenceDelimiterTag = (0xFFFE, 0xE0DD)"
definition PixelDataTag :: tag where "PixelDataTag = (0x7FE0, 0x0010)"
definition ExtendedOffsetTableTag :: tag where "ExtendedOffsetTableTag = (0x7FE0, 0x0001)"
definition ExtendedOffsetTableLengthsTag :: tag where
  "ExtendedOffsetTableLengthsTag = (0x7FE0, 0x0002)"

definition endian_chr :: "dicom_fp \<Rightarrow> string" where
  "endian_chr f = (if is_little_endian f then ''<'' else ''>'')"

text \<open>pydicom's \<open>read_tag\<close>: group and element, two bytes each, in the byte order of
  the file; it needs all four bytes and raises \<open>EOFError\<close> at the end of the file.\<close>

definition read_tag :: "dicom_fp \<Rightarrow> error + (tag \<times> dicom_fp)" where
  "read_tag f =
     (case fp_read f 4 of (data, f') \<Rightarrow>
        if length data < 4 then Inl EOFError
        else (case unpack True (endian_chr f @ ''H'') (take 2 data) of
                Inl e \<Rightarrow> Inl e
              | Inr g \<Rightarrow>
                  (case unpack True (endian_chr f @ ''H'') (drop 2 data) of
                     Inl e \<Rightarrow> Inl e
                   | Inr el \<Rightarrow> Inr ((g, el), f'))))"

text \<open>pydicom's \<open>read_UL\<close>: four bytes as an unsigned integer in the byte order of the
  file.\<close>

definition read_UL :: "dicom_fp \<Rightarrow> error + (int \<times> dicom_fp)" where
  "read_UL f =
     (case fp_read f 4 of (data, f') \<Rightarrow>
        (case unpack True (endian_chr f @ ''L'') data of
           Inl e \<Rightarrow> Inl e
         | Inr v \<Rightarrow> Inr (v, f')))"

text \<open>pydicom's \<open>write_US\<close>, \<open>write_UL\<close> and \<open>write_tag\<close>.\<close>

definition write_US :: "dicom_fp \<Rightarrow> int \<Rightarrow> error + dicom_fp" where
  "write_US f v =
     (case pack True (endian_chr f @ ''H'') v of
        Inl e \<Rightarrow> Inl e
      | Inr data \<Rightarrow> Inr (fp_write f data))"

definition write_UL :: "dicom_fp \<Rightarrow> int \<Rightarrow> error + dicom_fp" where
  "write_UL f v =
     (case pack True (endian_chr f @ ''L'') v of
        Inl e \<Rightarrow> Inl e
      | Inr data \<Rightarrow> Inr (fp_write f data))"

definition write_tag :: "dicom_fp \<Rightarrow> tag \<Rightarrow> error + dicom_fp" where
  "write_tag f t =
     (case write_US f (fst t) of
        Inl e \<Rightarrow> Inl e
      | Inr f' \<Rightarrow> write_US f' (snd t))"

text \<open>\<open>MetaWsiDicomFile._read_tag_length\<close>\<close>

definition read_tag_length :: "dicom_fp \<Rightarrow> bool \<Rightarrow> error + (int \<times> dicom_fp)" where
  "read_tag_length f with_vr =
     (if \<not> is_implicit_VR f \<and> with_vr
      then (case read_UL f of
              Inl e \<Rightarrow> Inl e
            | Inr (VR, f') \<Rightarrow> read_UL f')
      else read_UL f)"

text \<open>\<open>MetaWsiDicomFile._check_tag_and_length\<close>\<close>

definition check_tag_and_length ::
  "dicom_fp \<Rightarrow> tag \<Rightarrow> int \<Rightarrow> bool \<Rightarrow> error + dicom_fp" where
  "check_tag_and_length f t len with_vr =
     (case read_tag f of
        Inl e \<Rightarrow> Inl e
      | Inr (read_t, f') \<Rightarrow>
          if t \<noteq> read_t then Inl ValueError
          else (case read_tag_length f' with_vr of
                  Inl e \<Rightarrow> Inl e
                | Inr (read_length, f'') \<Rightarrow>
                    if len \<noteq> read_length then Inl ValueError else Inr f''))"

section \<open>Frame offset table codec\<close>

text \<open>\<^verbatim>\<open>range(start, stop, step)\<close> for a positive step.\<close>

definition py_range :: "nat \<Rightarrow> nat \<Rightarrow> nat \<Rightarrow> nat list" where
  "py_range start stop step =
     map (\<lambda>k. start + k * step) [0 ..< (stop - start + step - 1) div step]"

text \<open>\<open>WsiDicomFile._read_bot\<close>: the basic offset table, \<open>None\<close> when it is empty.\<close>

definition read_bot :: "dicom_fp \<Rightarrow> error + (byte list option \<times> dicom_fp)" where
  "read_bot f =
     (case read_tag f of
        Inl e \<Rightarrow> Inl e
      | Inr (t, f1) \<Rightarrow>
          if t \<noteq> ItemTag
          then Inl (WsiDicomFileError ''Basic offset table did not start with an ItemTag'')
          else (case read_UL f1 of
                  Inl e \<Rightarrow> Inl e
                | Inr (bot_length, f2) \<Rightarrow>
                    if bot_length = 0 then Inr (None, f2)
                    else if bot_length mod 4 \<noteq> 0
                    then Inl (WsiDicomFileError
                                ''Basic offset table should be a multiple of 4 bytes'')
                    else (case fp_read f2 bot_length of
                            (bot_table, f3) \<Rightarrow> Inr (Some bot_table, f3))))"

text \<open>\<open>WsiDicomFile._read_eot\<close>: the extended offset table; the table of lengths
  that follows it is skipped.\<close>

definition read_eot :: "dicom_fp \<Rightarrow> error + (byte list \<times> dicom_fp)" where
  "read_eot f =
     (case read_tag_length f True of
        Inl e \<Rightarrow> Inl e
      | Inr (eot_length, f1) \<Rightarrow>
          if eot_length = 0
          then Inl (WsiDicomFileError ''Expected Extended offset table present but empty'')
          else if eot_length mod 8 \<noteq> 0
          then Inl (WsiDicomFileError
                      ''Extended offset table should be a multiple of 8 bytes'')
          else (case fp_read f1 eot_length of
                  (eot, f2) \<Rightarrow>
                    (case read_tag f2 of
                       Inl e \<Rightarrow> Inl e
                     | Inr (t, f3) \<Rightarrow>
                         if t \<noteq> ExtendedOffsetTableLengthsTag
                         then Inl (WsiDicomFileError
                                     ''Expected Extended offset table lengths tag'')
                         else (case read_tag_length f3 True of
                                 Inl e \<Rightarrow> Inl e
                               | Inr (len, f4) \<Rightarrow>
                                   (case fp_seek_cur f4 len of
                                      Inl e \<Rightarrow> Inl e
                                    | Inr f5 \<Rightarrow> Inr (eot, f5))))))"

text \<open>
  \<open>WsiDicomFile._parse_table\<close>. The loop over the entries after the first one:
  \<open>this_offset\<close> is the entry before \<open>index\<close>, \<open>positions\<close> the frames found so far.
  The result is the list of positions and the last entry read.
\<close>

fun parse_table_loop ::
  "bool \<Rightarrow> string \<Rightarrow> nat \<Rightarrow> byte list \<Rightarrow> int \<Rightarrow> nat list \<Rightarrow> int \<Rightarrow> (int \<times> int) list
     \<Rightarrow> error + ((int \<times> int) list \<times> int)" where
  "parse_table_loop native_le mode bytes_per_item table pixels_start [] this_offset positions =
     Inr (positions, this_offset)"
| "parse_table_loop native_le mode bytes_per_item table pixels_start (index # rest)
     this_offset positions =
     (case unpack native_le mode (take bytes_per_item (drop index table)) of
        Inl e \<Rightarrow> Inl e
      | Inr next_offset \<Rightarrow>
          (let offset = this_offset + 4 + 4;
               frame_length = next_offset - offset
           in if frame_length = 0 \<or> frame_length mod 2 \<noteq> 0
              then Inl (WsiDicomFileError ''Invalid frame length'')
              else parse_table_loop native_le mode bytes_per_item table pixels_start rest
                     next_offset (positions @ [(pixels_start + offset, frame_length)])))"

text \<open>The end of \<open>_parse_table\<close>: go to the item of the last frame, at the last entry
  after the start of the pixels, and read its length from the item header.\<close>

definition read_item_length :: "dicom_fp \<Rightarrow> int \<Rightarrow> error + (int \<times> dicom_fp)" where
  "read_item_length f item_position =
     (case fp_seek f item_position of
        Inl e \<Rightarrow> Inl e
      | Inr f1 \<Rightarrow>
          (case read_tag f1 of
             Inl e \<Rightarrow> Inl e
           | Inr (t, f2) \<Rightarrow>
               if t \<noteq> ItemTag
               then Inl (WsiDicomFileError ''Excepcted ItemTag in PixelData'')
               else read_UL f2))"

definition parse_table_items ::
  "bool \<Rightarrow> dicom_fp \<Rightarrow> byte list \<Rightarrow> string \<Rightarrow> nat \<Rightarrow> int
     \<Rightarrow> error + ((int \<times> int) list \<times> dicom_fp)" where
  "parse_table_items native_le f table mode bytes_per_item pixels_start =
     (case unpack native_le mode (take bytes_per_item table) of
        Inl e \<Rightarrow> Inl e
      | Inr first_offset \<Rightarrow>
          (case parse_table_loop native_le mode bytes_per_item table pixels_start
                  (py_range bytes_per_item (length table) bytes_per_item) first_offset [] of
             Inl e \<Rightarrow> Inl e
           | Inr (positions, this_offset) \<Rightarrow>
               (case read_item_length f (pixels_start + this_offset) of
                  Inl e \<Rightarrow> Inl e
                | Inr (frame_length, f3) \<Rightarrow>
                    if frame_length = 0 \<or> frame_length mod 2 \<noteq> 0
                    then Inl (WsiDicomFileError ''Invalid frame length'')
                    else (let offset = this_offset + 4 + 4
                          in Inr (positions @ [(pixels_start + offset, frame_length)], f3)))))"

text \<open>The entry \<open>i\<close> of an offset table of entries of \<open>bytes_per_item\<close> bytes, in little
  endian byte order when \<open>le\<close> holds and in big endian byte order otherwise.\<close>

definition table_entry :: "bool \<Rightarrow> nat \<Rightarrow> byte list \<Rightarrow> nat \<Rightarrow> int" where
  "table_entry le bytes_per_item table i =
     (let chunk = take bytes_per_item (drop (i * bytes_per_item) table)
      in int (le_nat (if le then chunk else rev chunk)))"

text \<open>The format of the entries: for a basic table \<open>L\<close> in the byte order of the file;
  for an extended table the source assigns \<open>'Q'\<close>, which drops the byte order of the
  file.\<close>

definition parse_table ::
  "bool \<Rightarrow> dicom_fp \<Rightarrow> byte list \<Rightarrow> string \<Rightarrow> int
     \<Rightarrow> error + ((int \<times> int) list \<times> dicom_fp)" where
  "parse_table native_le f table table_type pixels_start =
     (let mode = endian_chr f in
      if table_type = ''bot''
      then parse_table_items native_le f table (mode @ ''L'') 4 pixels_start
      else if table_type = ''eot''
      then parse_table_items native_le f table ''Q'' 8 pixels_start
      else Inl ValueError)"

text \<open>\<open>WsiDicomFile._read_sequence_delimiter\<close>\<close>

definition read_sequence_delimiter :: "dicom_fp \<Rightarrow> error + dicom_fp" where
  "read_sequence_delimiter f =
     (case fp_seek_cur f (- 4) of
        Inl e \<Rightarrow> Inl e
      | Inr f1 \<Rightarrow>
          (case read_tag f1 of
             Inl e \<Rightarrow> Inl e
           | Inr (t, f2) \<Rightarrow>
               if t \<noteq> SequenceDelimiterTag
               then Inl (WsiDicomFileError ''No sequence delimeter tag'')
               else Inr f2))"

text \<open>
  \<open>WsiDicomFile._read_positions_from_pixeldata\<close>: the linear scan of the items. The
  loop reads a tag at each round and stops at the first tag that is not an item tag;
  a round moves the position forward, and no tag can be read at the end of the file.
\<close>

function read_positions_loop ::
  "dicom_fp \<Rightarrow> int \<Rightarrow> (int \<times> int) list \<Rightarrow> error + ((int \<times> int) list \<times> dicom_fp)" where
  "read_positions_loop f frame_position positions =
     (case read_tag f of
        Inl e \<Rightarrow> Inl e
      | Inr (t, f1) \<Rightarrow>
          if t \<noteq> ItemTag then Inr (positions, f1)
          else (case read_UL f1 of
                  Inl e \<Rightarrow> Inl e
                | Inr (frame_length, f2) \<Rightarrow>
                    if frame_length = 0 \<or> frame_length mod 2 \<noteq> 0
                    then Inl (WsiDicomFileError ''Invalid frame length'')
                    else (case fp_seek_cur f2 frame_length of
                            Inl e \<Rightarrow> Inl e
                          | Inr f3 \<Rightarrow>
                              read_positions_loop f3 (fp_tell f3)
                                (positions @ [(frame_position + 4 + 4, frame_length)]))))"
  by pat_completeness auto
termination
proof (relation "measure (\<lambda>(f, frame_position, positions). length (fp_content f) - fp_pos f)")
  show "wf (measure (\<lambda>(f, frame_position, positions). length (fp_content f) - fp_pos f))"
    by simp
next
  fix f :: dicom_fp and frame_position :: int and positions :: "(int \<times> int) list"
    and x2 t f1 x2a len f2 f3
  assume rt: "read_tag f = Inr x2" "(t, f1) = x2" and "\<not> t \<noteq> ItemTag"
    and ru: "read_UL f1 = Inr x2a" "(len, f2) = x2a"
    and ok: "\<not> (len = 0 \<or> len mod 2 \<noteq> 0)"
    and sk: "fp_seek_cur f2 len = Inr f3"
  from rt have f1: "fp_pos f + 4 \<le> length (fp_content f)" "fp_pos f1 = fp_pos f + 4"
    "fp_content f1 = fp_content f"
    by (auto simp: read_tag_def fp_read_def Let_def split: if_splits sum.splits)
  from ru have len: "0 \<le> len" "fp_pos f \<le> fp_pos f2" "fp_content f2 = fp_content f1"
    using f1
    by (auto simp: read_UL_def fp_read_def Let_def unpack_def
        split: if_splits sum.splits option.splits prod.splits)
  from sk len have "fp_pos f2 \<le> fp_pos f3" "fp_content f3 = fp_content f2"
    by (auto simp: fp_seek_cur_def fp_seek_def fp_tell_def split: if_splits)
  moreover from ru f1 have "fp_pos f < fp_pos f2"
    by (auto simp: read_UL_def fp_read_def Let_def unpack_def format_of_def
        split: if_splits sum.splits option.splits prod.splits)
  ultimately show "((f3, fp_tell f3, positions @ [(frame_position + 4 + 4, len)]),
            f, frame_position, positions)
           \<in> measure (\<lambda>(f, frame_position, positions). length (fp_content f) - fp_pos f)"
    using f1 len by simp
qed

definition read_positions_from_pixeldata ::
  "dicom_fp \<Rightarrow> error + ((int \<times> int) list \<times> dicom_fp)" where
  "read_positions_from_pixeldata f =
     (case read_positions_loop f (fp_tell f) [] of
        Inl e \<Rightarrow> Inl e
      | Inr (positions, f1) \<Rightarrow>
          (case read_sequence_delimiter f1 of
             Inl e \<Rightarrow> Inl e
           | Inr f2 \<Rightarrow> Inr (positions, f2)))"

text \<open>
  \<open>WsiDicomFile._parse_pixel_data\<close>. When the tag read is not the pixel data tag the
  source builds a \<open>WsiDicomFileError\<close> and does not raise it, which leaves no trace.
\<close>

definition parse_pixel_data ::
  "bool \<Rightarrow> dicom_fp \<Rightarrow> int \<Rightarrow> error + ((int \<times> int) list \<times> dicom_fp)" where
  "parse_pixel_data native_le f frame_count =
     (case read_tag f of
        Inl e \<Rightarrow> Inl e
      | Inr (pixel_data_or_eot_tag, f1) \<Rightarrow>
          (case (if pixel_data_or_eot_tag = ExtendedOffsetTableTag
                 then (case read_eot f1 of
                         Inl e \<Rightarrow> Inl e
                       | Inr (eot, f2) \<Rightarrow>
                           (case read_tag f2 of
                              Inl e \<Rightarrow> Inl e
                            | Inr (pixel_data_tag, f3) \<Rightarrow>
                                Inr (Some eot, ''eot'', pixel_data_tag, f3)))
                 else Inr (None, ''bot'', pixel_data_or_eot_tag, f1)) of
             Inl e \<Rightarrow> Inl e
           | Inr (table, table_type, pixel_data_tag, f3) \<Rightarrow>
               (case read_tag_length f3 True of
                  Inl e \<Rightarrow> Inl e
                | Inr (length_read, f4) \<Rightarrow>
                    if length_read \<noteq> 0xFFFFFFFF
                    then Inl (WsiDicomFileError
                                ''Expected undefined length when reading Pixel data'')
                    else (case read_bot f4 of
                            Inl e \<Rightarrow> Inl e
                          | Inr (bot_table, f5) \<Rightarrow>
                              if bot_table \<noteq> None \<and> table \<noteq> None
                              then Inl (WsiDicomFileError ''Both BOT and EOT present'')
                              else (case (case (if bot_table \<noteq> None then bot_table else table) of
                                            None \<Rightarrow> read_positions_from_pixeldata f5
                                          | Some tbl \<Rightarrow>
                                              parse_table native_le f5 tbl table_type
                                                (fp_tell f5)) of
                                      Inl e \<Rightarrow> Inl e
                                    | Inr (frame_positions, f6) \<Rightarrow>
                                        if frame_count \<noteq> int (length frame_positions)
                                        then Inl (WsiDicomFileError
                                                    ''Fragmented frames are not supported'')
                                        else Inr (frame_positions, f6))))))"

section \<open>Metadata record\<close>

text \<open>
  One frame of the per-frame functional group sequence: the position of the frame in
  the total pixel matrix (1-based), its z offset, and the optical path identification
  sequence when the frame has one (each item with its identifier, when it has one).
  The field \<open>ZOffsetInSlideCoordinateSystem\<close> holds the value the source computes
  from the attribute, \<^verbatim>\<open>round(float(...), 3)\<close>: floating point rounding is not
  modelled, and the type of z values is a parameter.
\<close>

record 'z frame =
  RowPositionInTotalImagePixelMatrix :: int
  ColumnPositionInTotalImagePixelMatrix :: int
  ZOffsetInSlideCoordinateSystem :: 'z
  OpticalPathIdentificationSequence :: "string option list option"

text \<open>The attributes of \<open>WsiDataset\<close> that the tile index reads. The spacing between
  slices is a float in the source; its type is a parameter here.\<close>

record ('f, 'z) wsi_dataset =
  ds_image_size :: wsize
  ds_tile_size :: wsize
  ds_frame_count :: int
  ds_frame_offset :: int
  ds_tile_type :: string
  ds_photometric_interpretation :: string
  ds_samples_per_pixel :: int
  ds_optical_path_sequence :: "string option list"
  ds_spacing_between_slices :: 'f
  ds_number_of_focal_planes :: int
  ds_frame_sequence :: "'z frame list"

text \<open>\<open>WsiDataset.read_optical_path_identifier\<close>\<close>

definition read_optical_path_identifier ::
  "('f, 'z) wsi_dataset \<Rightarrow> 'z frame \<Rightarrow> error + string" where
  "read_optical_path_identifier ds fr =
     (let optical_sequence =
        (case OpticalPathIdentificationSequence fr of
           None \<Rightarrow> ds_optical_path_sequence ds
         | Some sq \<Rightarrow> sq)
      in case optical_sequence of
           [] \<Rightarrow> Inl IndexError
         | item # _ \<Rightarrow> Inr (case item of None \<Rightarrow> ''0'' | Some ident \<Rightarrow> ident))"

section \<open>Tile index\<close>

record tile_index =
  ti_image_size :: wsize
  ti_tile_size :: wsize
  ti_frame_count :: int
  ti_optical_paths :: "string list"
  ti_tiled_size :: wsize

text \<open>\<open>TileIndex._read_frame_count_from_datasets\<close>\<close>

fun read_frame_count_from_datasets_loop :: "('f, 'z) wsi_dataset list \<Rightarrow> int \<Rightarrow> int" where
  "read_frame_count_from_datasets_loop [] count = count"
| "read_frame_count_from_datasets_loop (d # ds) count =
     read_frame_count_from_datasets_loop ds (count + ds_frame_count d)"

definition read_frame_count_from_datasets :: "('f, 'z) wsi_dataset list \<Rightarrow> int" where
  "read_frame_count_from_datasets datasets = read_frame_count_from_datasets_loop datasets 0"

text \<open>\<open>TileIndex._get_path_identifers\<close>: the set of the identifiers of the items;
  an item without identifier raises \<open>AttributeError\<close>.\<close>

fun get_path_identifers_loop :: "string option list \<Rightarrow> string list \<Rightarrow> error + string list" where
  "get_path_identifers_loop [] acc = Inr acc"
| "get_path_identifers_loop (None # items) acc = Inl AttributeError"
| "get_path_identifers_loop (Some ident # items) acc =
     get_path_identifers_loop items (set_add ident acc)"

definition get_path_identifers :: "string option list \<Rightarrow> error + string list" where
  "get_path_identifers optical_path_sequence =
     get_path_identifers_loop optical_path_sequence []"

text \<open>\<open>TileIndex._read_optical_paths_from_datasets\<close>\<close>

fun read_optical_paths_from_datasets_loop ::
  "('f, 'z) wsi_dataset list \<Rightarrow> string list \<Rightarrow> error + string list" where
  "read_optical_paths_from_datasets_loop [] paths = Inr paths"
| "read_optical_paths_from_datasets_loop (d # ds) paths =
     (case get_path_identifers (ds_optical_path_sequence d) of
        Inl e \<Rightarrow> Inl e
      | Inr ids \<Rightarrow> read_optical_paths_from_datasets_loop ds (set_update ids paths))"

definition read_optical_paths_from_datasets ::
  "('f, 'z) wsi_dataset list \<Rightarrow> error + string list" where
  "read_optical_paths_from_datasets datasets =
     read_optical_paths_from_datasets_loop datasets []"

text \<open>\<open>TileIndex.__init__\<close>\<close>

definition TileIndex_init :: "('f, 'z) wsi_dataset list \<Rightarrow> error + tile_index" where
  "TileIndex_init datasets =
     (case datasets of
        [] \<Rightarrow> Inl IndexError
      | base_dataset # _ \<Rightarrow>
          (case read_optical_paths_from_datasets datasets of
             Inl e \<Rightarrow> Inl e
           | Inr paths \<Rightarrow>
               (case size_truediv (ds_image_size base_dataset) (ds_tile_size base_dataset) of
                  Inl e \<Rightarrow> Inl e
                | Inr ts \<Rightarrow>
                    Inr \<lparr> ti_image_size = ds_image_size base_dataset,
                          ti_tile_size = ds_tile_size base_dataset,
                          ti_frame_count = read_frame_count_from_datasets datasets,
                          ti_optical_paths = paths,
                          ti_tiled_size = ts \<rparr>)))"

subsection \<open>Full tile index\<close>

record 'z full_tile_index = tile_index +
  full_focal_planes :: "'z list"

text \<open>
  \<open>FullTileIndex._read_focal_planes_from_datasets\<close>. The parameter \<open>is_zero\<close> stands
  for the float comparison \<^verbatim>\<open>slice_spacing == 0\<close> and \<open>round_um plane spacing\<close> for the
  float expression \<^verbatim>\<open>round(plane * slice_spacing * MM_TO_MICRON, DECIMALS)\<close>.
\<close>

fun read_focal_planes_from_datasets_loop ::
  "('f \<Rightarrow> bool) \<Rightarrow> (int \<Rightarrow> 'f \<Rightarrow> 'z) \<Rightarrow> ('f, 'y) wsi_dataset list \<Rightarrow> 'z list
     \<Rightarrow> error + 'z list" where
  "read_focal_planes_from_datasets_loop is_zero round_um [] focal_planes = Inr focal_planes"
| "read_focal_planes_from_datasets_loop is_zero round_um (d # ds) focal_planes =
     (let slice_spacing = ds_spacing_between_slices d;
          number_of_focal_planes = ds_number_of_focal_planes d
      in if is_zero slice_spacing \<and> number_of_focal_planes \<noteq> 1 then Inl ValueError
         else read_focal_planes_from_datasets_loop is_zero round_um ds
                (fold (\<lambda>plane. set_add (round_um plane slice_spacing))
                      [0 .. number_of_focal_planes - 1] focal_planes))"

definition read_focal_planes_from_datasets ::
  "('f \<Rightarrow> bool) \<Rightarrow> (int \<Rightarrow> 'f \<Rightarrow> 'z) \<Rightarrow> ('f, 'y) wsi_dataset list \<Rightarrow> error + 'z list" where
  "read_focal_planes_from_datasets is_zero round_um datasets =
     read_focal_planes_from_datasets_loop is_zero round_um datasets []"

text \<open>\<open>FullTileIndex.__init__\<close>\<close>

definition FullTileIndex_init ::
  "('f \<Rightarrow> bool) \<Rightarrow> (int \<Rightarrow> 'f \<Rightarrow> 'z) \<Rightarrow> ('f, 'y) wsi_dataset list
     \<Rightarrow> error + 'z full_tile_index" where
  "FullTileIndex_init is_zero round_um datasets =
     (case TileIndex_init datasets of
        Inl e \<Rightarrow> Inl e
      | Inr base \<Rightarrow>
          (case read_focal_planes_from_datasets is_zero round_um datasets of
             Inl e \<Rightarrow> Inl e
           | Inr fps \<Rightarrow> Inr (tile_index.extend base \<lparr> full_focal_planes = fps \<rparr>)))"

text \<open>\<open>FullTileIndex._get_optical_path_index\<close> and \<open>FullTileIndex._get_focal_plane_index\<close>\<close>

definition get_optical_path_index :: "'z full_tile_index \<Rightarrow> string \<Rightarrow> error + int" where
  "get_optical_path_index idx path =
     (case index_where (\<lambda>plane_path. plane_path = path) (ti_optical_paths idx) of
        None \<Rightarrow> Inl WsiDicomNotFoundError
      | Some i \<Rightarrow> Inr (int i))"

definition get_focal_plane_index :: "'z full_tile_index \<Rightarrow> 'z \<Rightarrow> error + int" where
  "get_focal_plane_index idx z =
     (case index_where (\<lambda>plane. plane = z) (full_focal_planes idx) of
        None \<Rightarrow> Inl WsiDicomNotFoundError
      | Some i \<Rightarrow> Inr (int i))"

text \<open>\<open>FullTileIndex.get_frame_index\<close>\<close>

definition FullTileIndex_get_frame_index ::
  "'z full_tile_index \<Rightarrow> point \<Rightarrow> 'z \<Rightarrow> string \<Rightarrow> error + int" where
  "FullTileIndex_get_frame_index idx tile z path =
     (let plane_offset = pt_x tile + width (ti_tiled_size idx) * pt_y tile in
      case get_focal_plane_index idx z of
        Inl e \<Rightarrow> Inl e
      | Inr zi \<Rightarrow>
          (let z_offset = zi * area (ti_tiled_size idx) in
           case get_optical_path_index idx path of
             Inl e \<Rightarrow> Inl e
           | Inr pi \<Rightarrow>
               (let path_offset =
                      pi * int (length (full_focal_planes idx)) * area (ti_tiled_size idx)
                in Inr (plane_offset + z_offset + path_offset))))"

subsection \<open>Sparse tile index\<close>

text \<open>
  \<open>SparseTilePlane\<close>: a numpy array of the shape of the tiling, filled with -1. An index
  of the array (the field \<open>plane\<close> of the source) counts from the end when it is negative and raises \<open>IndexError\<close> out
  of range, on each axis; a negative dimension raises \<open>ValueError\<close>. The frame indices
  are taken to fit the integer type of the array.
\<close>

record sparse_tile_plane =
  plane_shape :: wsize
  plane_array :: "int list list"

definition SparseTilePlane_init :: "wsize \<Rightarrow> error + sparse_tile_plane" where
  "SparseTilePlane_init tiled_size =
     (if width tiled_size < 0 \<or> height tiled_size < 0 then Inl ValueError
      else Inr \<lparr> plane_shape = tiled_size,
                 plane_array = replicate (nat (width tiled_size))
                           (replicate (nat (height tiled_size)) (- 1)) \<rparr>)"

definition np_axis :: "nat \<Rightarrow> int \<Rightarrow> error + nat" where
  "np_axis n i =
     (if 0 \<le> i \<and> i < int n then Inr (nat i)
      else if - int n \<le> i \<and> i < 0 then Inr (nat (int n + i))
      else Inl IndexError)"

text \<open>\<open>SparseTilePlane.__getitem__\<close> and \<open>SparseTilePlane.__setitem__\<close>\<close>

definition plane_getitem :: "sparse_tile_plane \<Rightarrow> point \<Rightarrow> error + int" where
  "plane_getitem p pos =
     (case np_axis (nat (width (plane_shape p))) (pt_x pos) of
        Inl e \<Rightarrow> Inl e
      | Inr i \<Rightarrow>
          (case np_axis (nat (height (plane_shape p))) (pt_y pos) of
             Inl e \<Rightarrow> Inl e
           | Inr j \<Rightarrow> Inr (plane_array p ! i ! j)))"

definition plane_setitem ::
  "sparse_tile_plane \<Rightarrow> point \<Rightarrow> int \<Rightarrow> error + sparse_tile_plane" where
  "plane_setitem p pos frame_index =
     (case np_axis (nat (width (plane_shape p))) (pt_x pos) of
        Inl e \<Rightarrow> Inl e
      | Inr i \<Rightarrow>
          (case np_axis (nat (height (plane_shape p))) (pt_y pos) of
             Inl e \<Rightarrow> Inl e
           | Inr j \<Rightarrow>
               Inr (p \<lparr> plane_array :=
                      (plane_array p) [i := (plane_array p ! i) [j := frame_index]] \<rparr>)))"

record 'z sparse_tile_index = tile_index +
  sparse_planes :: "(('z \<times> string) \<times> sparse_tile_plane) list"
  sparse_focal_planes :: "'z list"

text \<open>\<open>SparseTileIndex._read_frame_coordinates\<close>\<close>

definition read_frame_coordinates :: "wsize \<Rightarrow> 'z frame \<Rightarrow> error + (point \<times> 'z)" where
  "read_frame_coordinates tile_size fr =
     (let yy = RowPositionInTotalImagePixelMatrix fr - 1;
          xx = ColumnPositionInTotalImagePixelMatrix fr - 1;
          z = ZOffsetInSlideCoordinateSystem fr
      in case point_floordiv (Point xx yy) tile_size of
           Inl e \<Rightarrow> Inl e
         | Inr tile \<Rightarrow> Inr (tile, z))"

text \<open>\<open>SparseTileIndex._read_planes_from_datasets\<close>: the inner loop over the frames
  of one dataset, with the running index \<open>i\<close>, and the outer loop over the datasets.\<close>

fun read_planes_frames ::
  "wsize \<Rightarrow> wsize \<Rightarrow> ('f, 'z) wsi_dataset \<Rightarrow> int \<Rightarrow> 'z frame list
     \<Rightarrow> (('z \<times> string) \<times> sparse_tile_plane) list
     \<Rightarrow> error + (('z \<times> string) \<times> sparse_tile_plane) list" where
  "read_planes_frames tile_size tiled_size dataset i [] planes = Inr planes"
| "read_planes_frames tile_size tiled_size dataset i (fr # frs) planes =
     (case read_frame_coordinates tile_size fr of
        Inl e \<Rightarrow> Inl e
      | Inr (tile, z) \<Rightarrow>
          (case read_optical_path_identifier dataset fr of
             Inl e \<Rightarrow> Inl e
           | Inr identifier \<Rightarrow>
               (case (case map_of planes (z, identifier) of
                        Some p \<Rightarrow> Inr p
                      | None \<Rightarrow> SparseTilePlane_init tiled_size) of
                  Inl e \<Rightarrow> Inl e
                | Inr p \<Rightarrow>
                    (case plane_setitem p tile (i + ds_frame_offset dataset) of
                       Inl e \<Rightarrow>
                         Inl e
                     | Inr p' \<Rightarrow>
                         read_planes_frames tile_size tiled_size dataset (i + 1) frs
                           (dict_set (z, identifier) p' planes)))))"

fun read_planes_from_datasets ::
  "wsize \<Rightarrow> wsize \<Rightarrow> ('f, 'z) wsi_dataset list
     \<Rightarrow> (('z \<times> string) \<times> sparse_tile_plane) list
     \<Rightarrow> error + (('z \<times> string) \<times> sparse_tile_plane) list" where
  "read_planes_from_datasets tile_size tiled_size [] planes = Inr planes"
| "read_planes_from_datasets tile_size tiled_size (d # ds) planes =
     (case read_planes_frames tile_size tiled_size d 0 (ds_frame_sequence d) planes of
        Inl e \<Rightarrow> Inl e
      | Inr planes' \<Rightarrow> read_planes_from_datasets tile_size tiled_size ds planes')"

text \<open>
  A frame assigns the cell \<open>tile\<close> of the plane \<open>(z, path)\<close> when its coordinates and
  its optical path identifier are read without error, its z and identifier are \<open>z\<close>
  and \<open>path\<close>, and its tile coordinate addresses that cell of the array, on each axis.
\<close>

definition frame_assigns ::
  "wsize \<Rightarrow> wsize \<Rightarrow> ('f, 'z) wsi_dataset \<Rightarrow> 'z frame \<Rightarrow> point \<Rightarrow> 'z \<Rightarrow> string \<Rightarrow> bool" where
  "frame_assigns tile_sz tiled_sz dataset fr tile z path =
     (case read_frame_coordinates tile_sz fr of
        Inl e \<Rightarrow> False
      | Inr (t, z') \<Rightarrow>
          z' = z \<and> read_optical_path_identifier dataset fr = Inr path \<and>
          np_axis (nat (width tiled_sz)) (pt_x t) = Inr (nat (pt_x tile)) \<and>
          np_axis (nat (height tiled_sz)) (pt_y t) = Inr (nat (pt_y tile)))"

text \<open>
  Two invariants of the planes that \<open>_read_planes_from_datasets\<close> builds: a plane has
  the shape of the tiling, in its array too; and every plane has this shape while the
  cell \<open>(i, j)\<close> of the plane of one key, when there is such a plane, holds -1.
\<close>

definition wf_plane :: "wsize \<Rightarrow> sparse_tile_plane \<Rightarrow> bool" where
  "wf_plane tiled p \<longleftrightarrow>
     plane_shape p = tiled \<and> length (plane_array p) = nat (width tiled) \<and>
     (\<forall>i < nat (width tiled). length (plane_array p ! i) = nat (height tiled))"

definition planes_ok ::
  "wsize \<Rightarrow> (('z \<times> string) \<times> sparse_tile_plane) list \<Rightarrow> ('z \<times> string) \<Rightarrow> nat \<Rightarrow> nat \<Rightarrow> bool" where
  "planes_ok tiled planes key i j \<longleftrightarrow>
     (\<forall>k p. map_of planes k = Some p \<longrightarrow> wf_plane tiled p) \<and>
     (\<forall>p. map_of planes key = Some p \<longrightarrow> plane_array p ! i ! j = - 1)"

text \<open>\<open>SparseTileIndex._get_focal_planes\<close>\<close>

definition get_focal_planes :: "(('z \<times> string) \<times> sparse_tile_plane) list \<Rightarrow> 'z list" where
  "get_focal_planes planes = fold (\<lambda>((z, _), _). set_add z) planes []"

text \<open>\<open>SparseTileIndex.__init__\<close>\<close>

definition SparseTileIndex_init ::
  "('f, 'z) wsi_dataset list \<Rightarrow> error + 'z sparse_tile_index" where
  "SparseTileIndex_init datasets =
     (case TileIndex_init datasets of
        Inl e \<Rightarrow> Inl e
      | Inr base \<Rightarrow>
          (case read_planes_from_datasets (ti_tile_size base) (ti_tiled_size base)
                  datasets [] of
             Inl e \<Rightarrow> Inl e
           | Inr planes \<Rightarrow>
               Inr (tile_index.extend base
                      \<lparr> sparse_planes = planes,
                        sparse_focal_planes = get_focal_planes planes \<rparr>)))"

text \<open>\<open>SparseTileIndex.get_frame_index\<close>\<close>

definition SparseTileIndex_get_frame_index ::
  "'z sparse_tile_index \<Rightarrow> point \<Rightarrow> 'z \<Rightarrow> string \<Rightarrow> error + int" where
  "SparseTileIndex_get_frame_index idx tile z path =
     (case map_of (sparse_planes idx) (z, path) of
        None \<Rightarrow> Inl WsiDicomNotFoundError
      | Some p \<Rightarrow> plane_getitem p tile)"

section \<open>Images\<close>

text \<open>
  The image library (PIL) is outside the repository. An image is its mode, its size and
  its pixels, a pixel being the list of its channel values; the codec is a parameter:
  \<open>pil_open\<close> stands for \<^verbatim>\<open>Image.open(io.BytesIO(frame))\<close> and \<open>pil_save\<close> for
  \<^verbatim>\<open>image.save(buffer, format, **options)\<close> followed by \<^verbatim>\<open>buffer.getvalue()\<close>.
\<close>

record image =
  im_mode :: string
  im_size :: wsize
  im_pixel :: "int \<Rightarrow> int \<Rightarrow> int list"

record pil_codec =
  pil_open :: "byte list \<Rightarrow> error + image"
  pil_save :: "image \<Rightarrow> string \<Rightarrow> (string \<times> (bool + int)) list \<Rightarrow> byte list"

text \<open>\<^verbatim>\<open>Image.new(mode, size, color)\<close>: every pixel has the colour; a negative width or
  height is refused.\<close>

definition Image_new :: "string \<Rightarrow> wsize \<Rightarrow> int list \<Rightarrow> error + image" where
  "Image_new mode sz color =
     (if width sz < 0 \<or> height sz < 0 then Inl ValueError
      else Inr \<lparr> im_mode = mode, im_size = sz, im_pixel = (\<lambda>i j. color) \<rparr>)"

definition inside_image :: "image \<Rightarrow> int \<Rightarrow> int \<Rightarrow> bool" where
  "inside_image im i j \<longleftrightarrow>
     0 \<le> i \<and> i < width (im_size im) \<and> 0 \<le> j \<and> j < height (im_size im)"

text \<open>\<^verbatim>\<open>image.crop(box)\<close> returns a new image: the rectangle of the box, its pixels taken
  from the image and zero outside of it. The image itself is left as it is.\<close>

definition image_crop :: "image \<Rightarrow> int \<times> int \<times> int \<times> int \<Rightarrow> image" where
  "image_crop im bx =
     (case bx of (left, upper, right, lower) \<Rightarrow>
        \<lparr> im_mode = im_mode im,
          im_size = Size (right - left) (lower - upper),
          im_pixel = (\<lambda>i j. if inside_image im (left + i) (upper + j)
                               then im_pixel im (left + i) (upper + j)
                               else map (\<lambda>_. 0) (im_pixel im 0 0)) \<rparr>)"

text \<open>\<^verbatim>\<open>image.paste(tile, position)\<close>: the pixels of the tile replace those of the image
  from the position on, inside the image.\<close>

definition image_paste :: "image \<Rightarrow> image \<Rightarrow> point \<Rightarrow> image" where
  "image_paste im tile_image pos =
     im \<lparr> im_pixel :=
            (\<lambda>i j. if inside_image tile_image (i - pt_x pos) (j - pt_y pos)
                    then im_pixel tile_image (i - pt_x pos) (j - pt_y pos)
                    else im_pixel im i j) \<rparr>"

section \<open>Files of an instance\<close>

datatype uid = JPEGBaseline8Bit | JPEG2000 | JPEG2000Lossless | OtherUID string

text \<open>A \<open>WsiDicomFile\<close> after \<open>__init__\<close>: its dataset, its transfer syntax, the frame
  offset and frame count of the dataset, the frame positions parsed from the pixel
  data, and the file object.\<close>

record ('f, 'z) wsi_dicom_file =
  file_filepath :: string
  file_dataset :: "('f, 'z) wsi_dataset"
  file_transfer_syntax :: uid
  file_frame_offset :: int
  file_frame_count :: int
  file_frame_positions :: "(int \<times> int) list"
  file_fp :: dicom_fp

text \<open>\<open>WsiDicomFile.get_filepointer\<close>: position and length of a frame (the file object
  it also returns is the one of the file).\<close>

definition get_filepointer :: "('f, 'z) wsi_dicom_file \<Rightarrow> int \<Rightarrow> error + (int \<times> int)" where
  "get_filepointer file frame_index =
     py_index (file_frame_positions file) (frame_index - file_frame_offset file)"

text \<open>\<open>WsiDicomFile.read_frame\<close>. Every read starts with an absolute seek, so the
  position left behind by a read is never observed; the model returns the bytes only.\<close>

definition read_frame :: "('f, 'z) wsi_dicom_file \<Rightarrow> int \<Rightarrow> error + byte list" where
  "read_frame file frame_index =
     (case get_filepointer file frame_index of
        Inl e \<Rightarrow> Inl e
      | Inr (frame_position, frame_length) \<Rightarrow>
          (case fp_seek (file_fp file) frame_position of
             Inl e \<Rightarrow> Inl e
           | Inr fp \<Rightarrow> Inr (fst (fp_read fp frame_length))))"

section \<open>Tile data engine\<close>

datatype 'z tiles = Full "'z full_tile_index" | Sparse "'z sparse_tile_index"

definition tiles_image_size :: "'z tiles \<Rightarrow> wsize" where
  "tiles_image_size t = (case t of Full i \<Rightarrow> ti_image_size i | Sparse i \<Rightarrow> ti_image_size i)"

definition tiles_tile_size :: "'z tiles \<Rightarrow> wsize" where
  "tiles_tile_size t = (case t of Full i \<Rightarrow> ti_tile_size i | Sparse i \<Rightarrow> ti_tile_size i)"

definition tiles_optical_paths :: "'z tiles \<Rightarrow> string list" where
  "tiles_optical_paths t =
     (case t of Full i \<Rightarrow> ti_optical_paths i | Sparse i \<Rightarrow> ti_optical_paths i)"

definition tiles_focal_planes :: "'z tiles \<Rightarrow> 'z list" where
  "tiles_focal_planes t =
     (case t of Full i \<Rightarrow> full_focal_planes i | Sparse i \<Rightarrow> sparse_focal_planes i)"

definition tiles_get_frame_index :: "'z tiles \<Rightarrow> point \<Rightarrow> 'z \<Rightarrow> string \<Rightarrow> error + int" where
  "tiles_get_frame_index t tile z path =
     (case t of
        Full i \<Rightarrow> FullTileIndex_get_frame_index i tile z path
      | Sparse i \<Rightarrow> SparseTileIndex_get_frame_index i tile z path)"

text \<open>
  \<open>WsiDicomImageData\<close>, with the methods it inherits from \<open>ImageData\<close>: the files by
  frame offset (an ordered dictionary), the tile index, and the two lazily filled
  fields \<open>_blank_tile\<close> and \<open>_encoded_blank_tile\<close>. A method that may fill one of them
  returns the object along with its result.
\<close>

record ('f, 'z) wsi_dicom_image_data =
  idata_files :: "(int \<times> ('f, 'z) wsi_dicom_file) list"
  idata_tiles :: "'z tiles"
  idata_transfer_syntax :: uid
  idata_photometric_interpretation :: string
  idata_samples_per_pixel :: int
  idata_blank_tile :: "image option"
  idata_encoded_blank_tile :: "byte list option"

text \<open>\<open>WsiDicomImageData.__init__\<close> (the pixel spacing, a pair of floats, is left out).\<close>

definition WsiDicomImageData_init ::
  "('f \<Rightarrow> bool) \<Rightarrow> (int \<Rightarrow> 'f \<Rightarrow> 'z) \<Rightarrow> ('f, 'z) wsi_dicom_file list
     \<Rightarrow> error + ('f, 'z) wsi_dicom_image_data" where
  "WsiDicomImageData_init is_zero round_um files =
     (let files_dict = fold (\<lambda>file. dict_set (file_frame_offset file) file)
                         (sort_key file_frame_offset files) []
      in case files of
           [] \<Rightarrow> Inl IndexError
         | base_file # _ \<Rightarrow>
             (let datasets = map (\<lambda>(_, file). file_dataset file) files_dict in
              case (if ds_tile_type (file_dataset base_file) = ''TILED_FULL''
                    then map_sum id Full (FullTileIndex_init is_zero round_um datasets)
                    else map_sum id Sparse (SparseTileIndex_init datasets)) of
                Inl e \<Rightarrow> Inl e
              | Inr index \<Rightarrow>
                  Inr \<lparr> idata_files = files_dict,
                        idata_tiles = index,
                        idata_transfer_syntax = file_transfer_syntax base_file,
                        idata_photometric_interpretation =
                          ds_photometric_interpretation (hd datasets),
                        idata_samples_per_pixel = ds_samples_per_pixel (hd datasets),
                        idata_blank_tile = None,
                        idata_encoded_blank_tile = None \<rparr>))"

definition image_size :: "('f, 'z) wsi_dicom_image_data \<Rightarrow> wsize" where
  "image_size d = tiles_image_size (idata_tiles d)"

definition tile_size :: "('f, 'z) wsi_dicom_image_data \<Rightarrow> wsize" where
  "tile_size d = tiles_tile_size (idata_tiles d)"

definition focal_planes :: "('f, 'z) wsi_dicom_image_data \<Rightarrow> 'z list" where
  "focal_planes d = tiles_focal_planes (idata_tiles d)"

definition optical_paths :: "('f, 'z) wsi_dicom_image_data \<Rightarrow> string list" where
  "optical_paths d = tiles_optical_paths (idata_tiles d)"

text \<open>\<open>ImageData.tiled_size\<close>, \<open>ImageData.image_region\<close>, \<open>ImageData.plane_region\<close>\<close>

definition tiled_size :: "('f, 'z) wsi_dicom_image_data \<Rightarrow> error + wsize" where
  "tiled_size d = size_truediv (image_size d) (tile_size d)"

definition image_region :: "('f, 'z) wsi_dicom_image_data \<Rightarrow> region" where
  "image_region d = Region (Point 0 0) (image_size d)"

definition plane_region :: "('f, 'z) wsi_dicom_image_data \<Rightarrow> error + region" where
  "plane_region d =
     (case tiled_size d of
        Inl e \<Rightarrow> Inl e
      | Inr ts \<Rightarrow> Inr (Region (Point 0 0) (size_sub_int ts 1)))"

text \<open>\<open>ImageData.image_mode\<close>, \<open>ImageData._get_blank_color\<close>, \<open>ImageData.blank_color\<close>\<close>

definition image_mode :: "('f, 'z) wsi_dicom_image_data \<Rightarrow> error + string" where
  "image_mode d =
     (if idata_samples_per_pixel d = 1 then Inr ''L''
      else if idata_samples_per_pixel d = 3 then Inr ''RGB''
      else Inl NotImplementedError)"

definition get_blank_color :: "string \<Rightarrow> int list" where
  "get_blank_color photometric_interpretation =
     (if photometric_interpretation = ''MONOCHROME2'' then [0, 0, 0] else [255, 255, 255])"

definition blank_color :: "('f, 'z) wsi_dicom_image_data \<Rightarrow> int list" where
  "blank_color d = get_blank_color (idata_photometric_interpretation d)"

text \<open>\<open>ImageData._create_blank_tile\<close>\<close>

definition create_blank_tile :: "('f, 'z) wsi_dicom_image_data \<Rightarrow> error + image" where
  "create_blank_tile d =
     (case image_mode d of
        Inl e \<Rightarrow> Inl e
      | Inr mode \<Rightarrow>
          Image_new mode (tile_size d) (take (nat (idata_samples_per_pixel d)) (blank_color d)))"

text \<open>\<open>ImageData.blank_tile\<close>\<close>

definition blank_tile ::
  "('f, 'z) wsi_dicom_image_data \<Rightarrow> (error + image) \<times> ('f, 'z) wsi_dicom_image_data" where
  "blank_tile d =
     (case idata_blank_tile d of
        Some t \<Rightarrow> (Inr t, d)
      | None \<Rightarrow>
          (case create_blank_tile d of
             Inl e \<Rightarrow> (Inl e, d)
           | Inr t \<Rightarrow> (Inr t, d \<lparr> idata_blank_tile := Some t \<rparr>)))"

text \<open>\<open>ImageData._image_settings\<close> and \<open>ImageData.encode\<close>\<close>

definition image_settings :: "uid \<Rightarrow> error + (string \<times> (string \<times> (bool + int)) list)" where
  "image_settings transfer_syntax =
     (if transfer_syntax = JPEGBaseline8Bit then Inr (''jpeg'', [(''quality'', Inr 95)])
      else if transfer_syntax = JPEG2000 then Inr (''jpeg2000'', [(''irreversible'', Inl True)])
      else if transfer_syntax = JPEG2000Lossless
      then Inr (''jpeg2000'', [(''irreversible'', Inl False)])
      else Inl NotImplementedError)"

definition encode ::
  "pil_codec \<Rightarrow> ('f, 'z) wsi_dicom_image_data \<Rightarrow> image \<Rightarrow> error + byte list" where
  "encode codec d im =
     (case image_settings (idata_transfer_syntax d) of
        Inl e \<Rightarrow> Inl e
      | Inr (image_format, image_options) \<Rightarrow>
          Inr (pil_save codec im image_format image_options))"

text \<open>\<open>ImageData.blank_encoded_tile\<close>\<close>

definition blank_encoded_tile ::
  "pil_codec \<Rightarrow> ('f, 'z) wsi_dicom_image_data
     \<Rightarrow> (error + byte list) \<times> ('f, 'z) wsi_dicom_image_data" where
  "blank_encoded_tile codec d =
     (case idata_encoded_blank_tile d of
        Some b \<Rightarrow> (Inr b, d)
      | None \<Rightarrow>
          (case blank_tile d of
             (Inl e, d1) \<Rightarrow> (Inl e, d1)
           | (Inr t, d1) \<Rightarrow>
               (case encode codec d1 t of
                  Inl e \<Rightarrow> (Inl e, d1)
                | Inr b \<Rightarrow> (Inr b, d1 \<lparr> idata_encoded_blank_tile := Some b \<rparr>))))"

text \<open>\<open>ImageData.valid_tiles\<close>\<close>

definition valid_tiles ::
  "('f, 'z) wsi_dicom_image_data \<Rightarrow> region \<Rightarrow> 'z \<Rightarrow> string \<Rightarrow> error + bool" where
  "valid_tiles d r z path =
     (case plane_region d of
        Inl e \<Rightarrow> Inl e
      | Inr pr \<Rightarrow>
          Inr (is_inside r pr \<and> z \<in> set (focal_planes d) \<and> path \<in> set (optical_paths d)))"

text \<open>\<open>WsiDicomImageData._get_file\<close>\<close>

fun get_file :: "(int \<times> ('f, 'z) wsi_dicom_file) list \<Rightarrow> int \<Rightarrow> error + ('f, 'z) wsi_dicom_file" where
  "get_file [] frame_index = Inl WsiDicomNotFoundError"
| "get_file ((frame_offset, file) # files) frame_index =
     (if frame_index < frame_offset + file_frame_count file \<and> frame_index \<ge> frame_offset
      then Inr file
      else get_file files frame_index)"

text \<open>The range of frame numbers of an entry of the files dictionary: from its frame
  offset (the key) up to the frame offset plus the frame count of the file, excluded.\<close>

definition file_contains :: "int \<times> ('f, 'z) wsi_dicom_file \<Rightarrow> int \<Rightarrow> bool" where
  "file_contains entry frame_index \<longleftrightarrow>
     fst entry \<le> frame_index \<and> frame_index < fst entry + file_frame_count (snd entry)"

text \<open>\<open>WsiDicomImageData._get_tile_frame\<close>\<close>

definition get_tile_frame ::
  "('f, 'z) wsi_dicom_image_data \<Rightarrow> int \<Rightarrow> error + byte list" where
  "get_tile_frame d frame_index =
     (case get_file (idata_files d) frame_index of
        Inl e \<Rightarrow> Inl e
      | Inr file \<Rightarrow> read_frame file frame_index)"

text \<open>\<open>WsiDicomImageData._get_frame_index\<close>\<close>

definition WsiDicomImageData_get_frame_index ::
  "('f, 'z) wsi_dicom_image_data \<Rightarrow> point \<Rightarrow> 'z \<Rightarrow> string \<Rightarrow> error + int" where
  "WsiDicomImageData_get_frame_index d tile z path =
     (let tile_region = Region tile (Size 0 0) in
      case valid_tiles d tile_region z path of
        Inl e \<Rightarrow> Inl e
      | Inr valid \<Rightarrow>
          if \<not> valid then Inl WsiDicomOutOfBoundsError
          else tiles_get_frame_index (idata_tiles d) tile z path)"

text \<open>\<open>WsiDicomImageData._get_encoded_tile\<close> and \<open>WsiDicomImageData._get_decoded_tile\<close>\<close>

definition WsiDicomImageData_get_encoded_tile ::
  "pil_codec \<Rightarrow> ('f, 'z) wsi_dicom_image_data \<Rightarrow> point \<Rightarrow> 'z \<Rightarrow> string
     \<Rightarrow> (error + byte list) \<times> ('f, 'z) wsi_dicom_image_data" where
  "WsiDicomImageData_get_encoded_tile codec d tile z path =
     (case WsiDicomImageData_get_frame_index d tile z path of
        Inl e \<Rightarrow> (Inl e, d)
      | Inr frame_index \<Rightarrow>
          if frame_index = - 1 then blank_encoded_tile codec d
          else (get_tile_frame d frame_index, d))"

definition WsiDicomImageData_get_decoded_tile ::
  "pil_codec \<Rightarrow> ('f, 'z) wsi_dicom_image_data \<Rightarrow> point \<Rightarrow> 'z \<Rightarrow> string
     \<Rightarrow> (error + image) \<times> ('f, 'z) wsi_dicom_image_data" where
  "WsiDicomImageData_get_decoded_tile codec d tile_point z path =
     (case WsiDicomImageData_get_frame_index d tile_point z path of
        Inl e \<Rightarrow> (Inl e, d)
      | Inr frame_index \<Rightarrow>
          if frame_index = - 1 then blank_tile d
          else (case get_tile_frame d frame_index of
                  Inl e \<Rightarrow> (Inl e, d)
                | Inr frame_bytes \<Rightarrow> (pil_open codec frame_bytes, d)))"

text \<open>
  The blank tile as the specification words it, to compare the tile data engine with:
  a single-colour placeholder of the tile size, black for the photometric
  interpretation \<open>MONOCHROME2\<close> and white for all others, of one channel (mode \<open>L\<close>) or
  three (mode \<open>RGB\<close>), cached per instance as a decoded image and in its encoded form.
  Another number of samples per pixel has no image mode, a transfer syntax other than
  the three JPEG ones has no encoder settings, and the image library refuses a negative
  size.
\<close>

definition spec_blank_image :: "int \<Rightarrow> string \<Rightarrow> wsize \<Rightarrow> image" where
  "spec_blank_image samples photometric sz =
     \<lparr> im_mode = (if samples = 1 then ''L'' else ''RGB''),
       im_size = sz,
       im_pixel = (\<lambda>i j. replicate (nat samples)
                              (if photometric = ''MONOCHROME2'' then 0 else 255)) \<rparr>"

definition spec_blank_tile ::
  "('f, 'z) wsi_dicom_image_data \<Rightarrow> wsize
     \<Rightarrow> (error + image) \<times> ('f, 'z) wsi_dicom_image_data" where
  "spec_blank_tile d sz =
     (case idata_blank_tile d of
        Some t \<Rightarrow> (Inr t, d)
      | None \<Rightarrow>
          if idata_samples_per_pixel d \<noteq> 1 \<and> idata_samples_per_pixel d \<noteq> 3
          then (Inl NotImplementedError, d)
          else if width sz < 0 \<or> height sz < 0 then (Inl ValueError, d)
          else (Inr (spec_blank_image (idata_samples_per_pixel d)
                       (idata_photometric_interpretation d) sz),
                d \<lparr> idata_blank_tile :=
                      Some (spec_blank_image (idata_samples_per_pixel d)
                              (idata_photometric_interpretation d) sz) \<rparr>))"

definition spec_encoder_settings :: "uid \<Rightarrow> (string \<times> (string \<times> (bool + int)) list) option" where
  "spec_encoder_settings transfer_syntax =
     (case transfer_syntax of
        JPEGBaseline8Bit \<Rightarrow> Some (''jpeg'', [(''quality'', Inr 95)])
      | JPEG2000 \<Rightarrow> Some (''jpeg2000'', [(''irreversible'', Inl True)])
      | JPEG2000Lossless \<Rightarrow> Some (''jpeg2000'', [(''irreversible'', Inl False)])
      | OtherUID _ \<Rightarrow> None)"

definition spec_blank_encoded_tile ::
  "pil_codec \<Rightarrow> ('f, 'z) wsi_dicom_image_data \<Rightarrow> wsize
     \<Rightarrow> (error + byte list) \<times> ('f, 'z) wsi_dicom_image_data" where
  "spec_blank_encoded_tile codec d sz =
     (case idata_encoded_blank_tile d of
        Some b \<Rightarrow> (Inr b, d)
      | None \<Rightarrow>
          (case spec_blank_tile d sz of
             (Inl e, d1) \<Rightarrow> (Inl e, d1)
           | (Inr t, d1) \<Rightarrow>
               (case spec_encoder_settings (idata_transfer_syntax d) of
                  None \<Rightarrow> (Inl NotImplementedError, d1)
                | Some (image_format, image_options) \<Rightarrow>
                    (Inr (pil_save codec t image_format image_options),
                     d1 \<lparr> idata_encoded_blank_tile :=
                            Some (pil_save codec t image_format image_options) \<rparr>))))"

text \<open>The argument \<open>crop\<close> of \<open>get_tile\<close> and \<open>get_encoded_tile\<close>: a boolean or a
  region.\<close>

datatype crop_arg = CropBool bool | CropRegion region

text \<open>\<open>ImageData.get_tile\<close>\<close>

definition get_tile ::
  "pil_codec \<Rightarrow> ('f, 'z) wsi_dicom_image_data \<Rightarrow> point \<Rightarrow> 'z \<Rightarrow> string \<Rightarrow> crop_arg
     \<Rightarrow> (error + image) \<times> ('f, 'z) wsi_dicom_image_data" where
  "get_tile codec d tile z path crop =
     (case WsiDicomImageData_get_decoded_tile codec d tile z path of
        (Inl e, d1) \<Rightarrow> (Inl e, d1)
      | (Inr im, d1) \<Rightarrow>
          if crop = CropBool False then (Inr im, d1)
          else (let crop_region = (case crop of
                                     CropBool _ \<Rightarrow> image_region d1
                                   | CropRegion r \<Rightarrow> r);
                    tile_crop = inside_crop crop_region tile (tile_size d1)
                in if region_size tile_crop = tile_size d1 then (Inr im, d1)
                   else (Inr (image_crop im (box tile_crop)), d1)))"

text \<open>\<open>ImageData.get_encoded_tile\<close>. The source calls \<^verbatim>\<open>image.crop(...)\<close> and drops the
  image it returns, so the image encoded is the one decoded from the frame.\<close>

definition get_encoded_tile ::
  "pil_codec \<Rightarrow> ('f, 'z) wsi_dicom_image_data \<Rightarrow> point \<Rightarrow> 'z \<Rightarrow> string \<Rightarrow> crop_arg
     \<Rightarrow> (error + byte list) \<times> ('f, 'z) wsi_dicom_image_data" where
  "get_encoded_tile codec d tile z path crop =
     (case WsiDicomImageData_get_encoded_tile codec d tile z path of
        (Inl e, d1) \<Rightarrow> (Inl e, d1)
      | (Inr tile_frame, d1) \<Rightarrow>
          if crop = CropBool False then (Inr tile_frame, d1)
          else (let crop_region = (case crop of
                                     CropBool _ \<Rightarrow> image_region d1
                                   | CropRegion r \<Rightarrow> r);
                    cropped_tile_region = inside_crop crop_region tile (tile_size d1)
                in if region_size cropped_tile_region \<noteq> tile_size d1
                   then (case pil_open codec tile_frame of
                           Inl e \<Rightarrow> (Inl e, d1)
                         | Inr im \<Rightarrow>
                             (let dropped = image_crop im (box_from_origin cropped_tile_region)
                              in (encode codec d1 im, d1)))
                   else (Inr tile_frame, d1)))"

text \<open>\<open>ImageData.get_tile_range\<close>\<close>

definition get_tile_range ::
  "('f, 'z) wsi_dicom_image_data \<Rightarrow> region \<Rightarrow> 'z \<Rightarrow> string \<Rightarrow> error + region" where
  "get_tile_range d pixel_region z path =
     (case point_floordiv (region_start pixel_region) (tile_size d) of
        Inl e \<Rightarrow> Inl e
      | Inr start \<Rightarrow>
          (case point_truediv (region_end pixel_region) (tile_size d) of
             Inl e \<Rightarrow> Inl e
           | Inr q \<Rightarrow>
               (let end = point_sub_int q 1;
                    tile_region = from_points start end
                in case valid_tiles d tile_region z path of
                     Inl e \<Rightarrow> Inl e
                   | Inr valid \<Rightarrow>
                       if \<not> valid then Inl WsiDicomOutOfBoundsError
                       else Inr tile_region)))"

text \<open>
  The tile range as the specification words it, to compare \<open>get_tile_range\<close> with:
  the start of the pixel region floor-divided by the tile size, and the end of the
  pixel region minus one floor-divided by the tile size.
\<close>

definition spec_tile_range :: "wsize \<Rightarrow> region \<Rightarrow> region" where
  "spec_tile_range sz pixel_region =
     from_points
       (Point (pt_x (region_start pixel_region) div width sz)
              (pt_y (region_start pixel_region) div height sz))
       (Point ((pt_x (region_end pixel_region) - 1) div width sz)
              ((pt_y (region_end pixel_region) - 1) div height sz))"

text \<open>\<open>ImageData._write_indexer\<close>\<close>

definition write_indexer :: "point \<Rightarrow> wsize \<Rightarrow> wsize \<Rightarrow> point" where
  "write_indexer index previous_size image_sz =
     (let index1 = Point (pt_x index + width previous_size) (pt_y index) in
      if pt_x index1 \<ge> width image_sz
      then Point 0 (pt_y index1 + height previous_size)
      else index1)"

text \<open>
  \<open>ImageData.stitch_tiles\<close>. The loop over the tiles carries the image, the write
  index and the object; \<open>pasted\<close> is a trace added by the model: the position and the
  tile image of every call of \<^verbatim>\<open>image.paste\<close>, in order.
\<close>

fun stitch_tiles_loop ::
  "pil_codec \<Rightarrow> region \<Rightarrow> 'z \<Rightarrow> string \<Rightarrow> point list
     \<Rightarrow> image \<Rightarrow> point \<Rightarrow> (point \<times> image) list \<Rightarrow> ('f, 'z) wsi_dicom_image_data
     \<Rightarrow> (error + image \<times> (point \<times> image) list) \<times> ('f, 'z) wsi_dicom_image_data" where
  "stitch_tiles_loop codec r z path [] im write_index pasted d = (Inr (im, pasted), d)"
| "stitch_tiles_loop codec r z path (tile # tiles) im write_index pasted d =
     (case get_tile codec d tile z path (CropRegion r) of
        (Inl e, d1) \<Rightarrow> (Inl e, d1)
      | (Inr tile_image, d1) \<Rightarrow>
          stitch_tiles_loop codec r z path tiles
            (image_paste im tile_image write_index)
            (write_indexer write_index (im_size tile_image) (region_size r))
            (pasted @ [(write_index, tile_image)]) d1)"

definition stitch_tiles_trace ::
  "pil_codec \<Rightarrow> ('f, 'z) wsi_dicom_image_data \<Rightarrow> region \<Rightarrow> string \<Rightarrow> 'z
     \<Rightarrow> (error + image \<times> (point \<times> image) list) \<times> ('f, 'z) wsi_dicom_image_data" where
  "stitch_tiles_trace codec d r path z =
     (case image_mode d of
        Inl e \<Rightarrow> (Inl e, d)
      | Inr mode \<Rightarrow>
          (case Image_new mode (region_size r) (map (\<lambda>_. 0) [0 ..< length mode]) of
             Inl e \<Rightarrow> (Inl e, d)
           | Inr im \<Rightarrow>
               (case get_tile_range d r z path of
                  Inl e \<Rightarrow> (Inl e, d)
                | Inr stitching_tiles \<Rightarrow>
                    stitch_tiles_loop codec r z path (iterate_all stitching_tiles True)
                      im (Point 0 0) [] d)))"

definition stitch_tiles ::
  "pil_codec \<Rightarrow> ('f, 'z) wsi_dicom_image_data \<Rightarrow> region \<Rightarrow> string \<Rightarrow> 'z
     \<Rightarrow> (error + image) \<times> ('f, 'z) wsi_dicom_image_data" where
  "stitch_tiles codec d r path z =
     (case stitch_tiles_trace codec d r path z of
        (res, d1) \<Rightarrow> (map_sum id fst res, d1))"

text \<open>
  To state what \<open>stitch_tiles\<close> pastes: the tile images that \<open>get_tile\<close> returns for
  the tiles of a list, one call after the other on the same object, cropped to the
  region; the first error ends the calls.
\<close>

fun get_tile_seq ::
  "pil_codec \<Rightarrow> ('f, 'z) wsi_dicom_image_data \<Rightarrow> point list \<Rightarrow> 'z \<Rightarrow> string \<Rightarrow> region
     \<Rightarrow> (error + image list) \<times> ('f, 'z) wsi_dicom_image_data" where
  "get_tile_seq codec d [] z path r = (Inr [], d)"
| "get_tile_seq codec d (tile # tiles) z path r =
     (case get_tile codec d tile z path (CropRegion r) of
        (Inl e, d1) \<Rightarrow> (Inl e, d1)
      | (Inr tile_image, d1) \<Rightarrow>
          (case get_tile_seq codec d1 tiles z path r of
             (Inl e, d2) \<Rightarrow> (Inl e, d2)
           | (Inr tile_images, d2) \<Rightarrow> (Inr (tile_image # tile_images), d2)))"

text \<open>
  The tiles of an instance have the tile size: a frame that the codec decodes gives an
  image of the tile size, and a blank tile in the cache has the tile size.
\<close>

definition tiles_of_tile_size :: "pil_codec \<Rightarrow> ('f, 'z) wsi_dicom_image_data \<Rightarrow> bool" where
  "tiles_of_tile_size codec d \<longleftrightarrow>
     (\<forall>frame_bytes t. pil_open codec frame_bytes = Inr t \<longrightarrow> im_size t = tile_size d) \<and>
     (\<forall>t. idata_blank_tile d = Some t \<longrightarrow> im_size t = tile_size d)"

section \<open>Offset table writer\<close>

text \<open>\<open>WsiDicomFileWriter._write_unsigned_long_long\<close>\<close>

definition write_unsigned_long_long :: "dicom_fp \<Rightarrow> int \<Rightarrow> error + dicom_fp" where
  "write_unsigned_long_long f v =
     (case pack True ''<Q'' v of
        Inl e \<Rightarrow> Inl e
      | Inr data \<Rightarrow> Inr (fp_write f data))"

text \<open>\<open>WsiDicomFileWriter._write_tag\<close>: the tag, the two characters of the value
  representation, two zero bytes and the length, \<open>0xFFFFFFFF\<close> when there is none.\<close>

definition writer_write_tag ::
  "dicom_fp \<Rightarrow> tag \<Rightarrow> string \<Rightarrow> int option \<Rightarrow> error + dicom_fp" where
  "writer_write_tag f t value_representation len =
     (case write_tag f t of
        Inl e \<Rightarrow> Inl e
      | Inr f1 \<Rightarrow>
          (case write_US (fp_write f1 (map (\<lambda>c. of_nat (of_char c)) value_representation)) 0 of
             Inl e \<Rightarrow> Inl e
           | Inr f2 \<Rightarrow>
               (case len of
                  Some n \<Rightarrow> write_UL f2 n
                | None \<Rightarrow> write_UL f2 0xFFFFFFFF)))"

text \<open>A loop that writes the same value a number of times, for the zero filled tables.\<close>

fun write_times ::
  "(dicom_fp \<Rightarrow> int \<Rightarrow> error + dicom_fp) \<Rightarrow> nat \<Rightarrow> int \<Rightarrow> dicom_fp \<Rightarrow> error + dicom_fp" where
  "write_times w 0 v f = Inr f"
| "write_times w (Suc n) v f =
     (case w f v of Inl e \<Rightarrow> Inl e | Inr f1 \<Rightarrow> write_times w n v f1)"

text \<open>\<open>WsiDicomFileWriter._reserve_eot\<close> and \<open>WsiDicomFileWriter._reserve_bot\<close>\<close>

definition reserve_eot :: "dicom_fp \<Rightarrow> int \<Rightarrow> error + (int \<times> dicom_fp)" where
  "reserve_eot f number_of_frames =
     (let table_start = fp_tell f;
          eot_length = 8 * number_of_frames
      in case writer_write_tag f ExtendedOffsetTableTag ''OV'' (Some eot_length) of
           Inl e \<Rightarrow> Inl e
         | Inr f1 \<Rightarrow>
             (case write_times write_unsigned_long_long (nat number_of_frames) 0 f1 of
                Inl e \<Rightarrow> Inl e
              | Inr f2 \<Rightarrow>
                  (case writer_write_tag f2 ExtendedOffsetTableLengthsTag ''OV''
                          (Some eot_length) of
                     Inl e \<Rightarrow> Inl e
                   | Inr f3 \<Rightarrow>
                       (case write_times write_unsigned_long_long (nat number_of_frames) 0 f3 of
                          Inl e \<Rightarrow> Inl e
                        | Inr f4 \<Rightarrow> Inr (table_start, f4)))))"

definition reserve_bot :: "dicom_fp \<Rightarrow> int \<Rightarrow> error + (int \<times> dicom_fp)" where
  "reserve_bot f number_of_frames =
     (let table_start = fp_tell f;
          tag_lengths = 4 * number_of_frames
      in case write_tag f ItemTag of
           Inl e \<Rightarrow> Inl e
         | Inr f1 \<Rightarrow>
             (case write_UL f1 tag_lengths of
                Inl e \<Rightarrow> Inl e
              | Inr f2 \<Rightarrow>
                  (case write_times write_UL (nat number_of_frames) 0 f2 of
                     Inl e \<Rightarrow> Inl e
                   | Inr f3 \<Rightarrow> Inr (table_start, f3))))"

text \<open>The loops of \<open>_write_bot\<close> and \<open>_write_eot\<close> over the frame positions.\<close>

fun write_bot_entries :: "dicom_fp \<Rightarrow> int \<Rightarrow> int list \<Rightarrow> error + dicom_fp" where
  "write_bot_entries f pixel_data_start [] = Inr f"
| "write_bot_entries f pixel_data_start (frame_position # rest) =
     (case write_UL f (frame_position - pixel_data_start) of
        Inl e \<Rightarrow> Inl e
      | Inr f1 \<Rightarrow> write_bot_entries f1 pixel_data_start rest)"

fun write_eot_entries :: "dicom_fp \<Rightarrow> int \<Rightarrow> int list \<Rightarrow> error + dicom_fp" where
  "write_eot_entries f pixel_data_start [] = Inr f"
| "write_eot_entries f pixel_data_start (frame_position # rest) =
     (let relative_position = frame_position - pixel_data_start in
      case write_unsigned_long_long f relative_position of
        Inl e \<Rightarrow> Inl e
      | Inr f1 \<Rightarrow> write_eot_entries f1 pixel_data_start rest)"

fun write_eot_lengths :: "dicom_fp \<Rightarrow> int \<Rightarrow> int list \<Rightarrow> error + (int \<times> dicom_fp)" where
  "write_eot_lengths f frame_start [] = Inr (frame_start, f)"
| "write_eot_lengths f frame_start (frame_end # rest) =
     (let frame_length = frame_end - frame_start in
      case write_unsigned_long_long f frame_length of
        Inl e \<Rightarrow> Inl e
      | Inr f1 \<Rightarrow> write_eot_lengths f1 frame_end rest)"

text \<open>\<open>WsiDicomFileWriter._write_bot\<close>\<close>

definition write_bot :: "dicom_fp \<Rightarrow> int \<Rightarrow> int \<Rightarrow> int list \<Rightarrow> error + dicom_fp" where
  "write_bot f bot_start pixel_data_start frame_positions =
     (case py_index frame_positions (- 1) of
        Inl e \<Rightarrow> Inl e
      | Inr last_position \<Rightarrow>
          (let last_entry = last_position - pixel_data_start in
           if last_entry > 2 ^ 32 - 1 then Inl NotImplementedError
           else (case fp_seek f bot_start of
                   Inl e \<Rightarrow> Inl e
                 | Inr f1 \<Rightarrow>
                     (case check_tag_and_length f1 ItemTag
                             (4 * int (length frame_positions)) False of
                        Inl e \<Rightarrow> Inl e
                      | Inr f2 \<Rightarrow> write_bot_entries f2 pixel_data_start frame_positions))))"

text \<open>\<open>WsiDicomFileWriter._write_eot\<close>\<close>

definition write_eot :: "dicom_fp \<Rightarrow> int \<Rightarrow> int \<Rightarrow> int list \<Rightarrow> int \<Rightarrow> error + dicom_fp" where
  "write_eot f eot_start pixel_data_start frame_positions last_frame_end =
     (case py_index frame_positions (- 1) of
        Inl e \<Rightarrow> Inl e
      | Inr last_position \<Rightarrow>
          (let last_entry = last_position - pixel_data_start in
           if last_entry > 2 ^ 64 - 1 then Inl ValueError
           else (case fp_seek f eot_start of
                   Inl e \<Rightarrow> Inl e
                 | Inr f1 \<Rightarrow>
                     (case check_tag_and_length f1 ExtendedOffsetTableTag
                             (8 * int (length frame_positions)) True of
                        Inl e \<Rightarrow> Inl e
                      | Inr f2 \<Rightarrow>
                          (case write_eot_entries f2 pixel_data_start frame_positions of
                             Inl e \<Rightarrow> Inl e
                           | Inr f3 \<Rightarrow>
                               (case check_tag_and_length f3 ExtendedOffsetTableLengthsTag
                                       (8 * int (length frame_positions)) True of
                                  Inl e \<Rightarrow> Inl e
                                | Inr f4 \<Rightarrow>
                                    (case write_eot_lengths f4 (hd frame_positions)
                                            (tl frame_positions) of
                                       Inl e \<Rightarrow> Inl e
                                     | Inr (frame_start, f5) \<Rightarrow>
                                         (let last_frame_start = frame_start + 4 + 4;
                                              last_frame_length =
                                                last_frame_end - last_frame_start
                                          in write_unsigned_long_long f5
                                               last_frame_length))))))))"

subsection \<open>A full tiled instance of two focal planes\<close>

text \<open>
  A dataset of a 2048 by 2048 image in 1024 by 1024 tiles with two focal planes one
  millimetre apart and one optical path. Spacings are integers here, the focal planes
  are in micrometres.
\<close>

definition example_dataset :: "(int, int) wsi_dataset" where
  "example_dataset =
     \<lparr> ds_image_size = Size 2048 2048,
       ds_tile_size = Size 1024 1024,
       ds_frame_count = 8,
       ds_frame_offset = 0,
       ds_tile_type = ''TILED_FULL'',
       ds_photometric_interpretation = ''RGB'',
       ds_samples_per_pixel = 3,
       ds_optical_path_sequence = [Some ''0''],
       ds_spacing_between_slices = 1,
       ds_number_of_focal_planes = 2,
       ds_frame_sequence = [] \<rparr>"

definition example_is_zero :: "int \<Rightarrow> bool" where
  "example_is_zero s \<longleftrightarrow> s = 0"

definition example_round_um :: "int \<Rightarrow> int \<Rightarrow> int" where
  "example_round_um plane s = plane * s * 1000"

definition example_full_index :: "int full_tile_index" where
  "example_full_index =
     \<lparr> ti_image_size = Size 2048 2048,
       ti_tile_size = Size 1024 1024,
       ti_frame_count = 8,
       ti_optical_paths = [''0''],
       ti_tiled_size = Size 2 2,
       full_focal_planes = [0, 1000] \<rparr>"

subsection \<open>An instance in two files\<close>

text \<open>
  The instance above split into two concatenated files of four frames each. A frame
  is an item of two bytes of data; the files have no offset table. The codec of the
  example keeps the size of an image only: the two bytes of a frame are the width and
  the height of the image in units of 512 pixels.
\<close>

definition example_image :: "wsize \<Rightarrow> image" where
  "example_image sz = \<lparr> im_mode = ''RGB'', im_size = sz, im_pixel = (\<lambda>i j. [0, 0, 0]) \<rparr>"

definition example_codec :: pil_codec where
  "example_codec =
     \<lparr> pil_open = (\<lambda>frame_bytes.
                    case frame_bytes of
                      [w, h] \<Rightarrow> Inr (example_image (Size (512 * uint w) (512 * uint h)))
                    | _ \<Rightarrow> Inl OSError),
       pil_save = (\<lambda>im image_format image_options.
                    [word_of_int (width (im_size im) div 512),
                     word_of_int (height (im_size im) div 512)]) \<rparr>"

definition example_fp :: dicom_fp where
  "example_fp =
     \<lparr> fp_content =
         [0xFE, 0xFF, 0x00, 0xE0, 2, 0, 0, 0, 2, 2,
          0xFE, 0xFF, 0x00, 0xE0, 2, 0, 0, 0, 2, 2,
          0xFE, 0xFF, 0x00, 0xE0, 2, 0, 0, 0, 2, 2,
          0xFE, 0xFF, 0x00, 0xE0, 2, 0, 0, 0, 2, 2,
          0xFE, 0xFF, 0xDD, 0xE0, 0, 0, 0, 0],
       fp_pos = 0,
       is_little_endian = True,
       is_implicit_VR = False \<rparr>"

definition example_file :: "int \<Rightarrow> (int, int) wsi_dicom_file" where
  "example_file frame_offset =
     \<lparr> file_filepath = ''part'',
       file_dataset = example_dataset \<lparr> ds_frame_count := 4, ds_frame_offset := frame_offset \<rparr>,
       file_transfer_syntax = JPEGBaseline8Bit,
       file_frame_offset = frame_offset,
       file_frame_count = 4,
       file_frame_positions = [(8, 2), (18, 2), (28, 2), (38, 2)],
       file_fp = example_fp \<rparr>"

definition example_image_data :: "(int, int) wsi_dicom_image_data" where
  "example_image_data =
     \<lparr> idata_files = [(0, example_file 0), (4, example_file 4)],
       idata_tiles = Full example_full_index,
       idata_transfer_syntax = JPEGBaseline8Bit,
       idata_photometric_interpretation = ''RGB'',
       idata_samples_per_pixel = 3,
       idata_blank_tile = None,
       idata_encoded_blank_tile = None \<rparr>"

text \<open>The same instance for an image of 1536 by 2048 pixels: the tiles of the last
  column are 512 pixels wide in the image, and stored at the full tile size.\<close>

definition example_edge_image_data :: "(int, int) wsi_dicom_image_data" where
  "example_edge_image_data =
     example_image_data
       \<lparr> idata_tiles := Full (example_full_index \<lparr> ti_image_size := Size 1536 2048 \<rparr>) \<rparr>"

subsection \<open>A sparse tiled instance\<close>

text \<open>
  A sparse tiled image of 2048 by 2048 pixels in tiles of 1024 by 1024 with two frames,
  for the tiles (0, 0) and (1, 1) of the focal plane 0 and the optical path \<open>0\<close>.
\<close>

definition example_sparse_dataset :: "(int, int) wsi_dataset" where
  "example_sparse_dataset =
     example_dataset
       \<lparr> ds_frame_count := 2,
         ds_tile_type := ''TILED_SPARSE'',
         ds_number_of_focal_planes := 1,
         ds_frame_sequence :=
           [\<lparr> RowPositionInTotalImagePixelMatrix = 1,
              ColumnPositionInTotalImagePixelMatrix = 1,
              ZOffsetInSlideCoordinateSystem = 0,
              OpticalPathIdentificationSequence = None \<rparr>,
            \<lparr> RowPositionInTotalImagePixelMatrix = 1025,
              ColumnPositionInTotalImagePixelMatrix = 1025,
              ZOffsetInSlideCoordinateSystem = 0,
              OpticalPathIdentificationSequence = Some [Some ''0''] \<rparr>] \<rparr>"

definition example_sparse_index :: "int sparse_tile_index" where
  "example_sparse_index =
     \<lparr> ti_image_size = Size 2048 2048,
       ti_tile_size = Size 1024 1024,
       ti_frame_count = 2,
       ti_optical_paths = [''0''],
       ti_tiled_size = Size 2 2,
       sparse_planes =
         [((0, ''0''), \<lparr> plane_shape = Size 2 2, plane_array = [[0, - 1], [- 1, 1]] \<rparr>)],
       sparse_focal_planes = [0] \<rparr>"

definition example_sparse_image_data :: "(int, int) wsi_dicom_image_data" where
  "example_sparse_image_data =
     \<lparr> idata_files =
         [(0, example_file 0 \<lparr> file_dataset := example_sparse_dataset, file_frame_count := 2,
                                file_frame_positions := [(8, 2), (18, 2)] \<rparr>)],
       idata_tiles = Sparse example_sparse_index,
       idata_transfer_syntax = JPEGBaseline8Bit,
       idata_photometric_interpretation = ''RGB'',
       idata_samples_per_pixel = 3,
       idata_blank_tile = None,
       idata_encoded_blank_tile = None \<rparr>"

text \<open>
  The same instance with one frame only, for the tile (0, 0), whose optical path
  identifier \<open>1\<close> is not among the optical paths that the dataset declares.
\<close>

definition undeclared_path_dataset :: "(int, int) wsi_dataset" where
  "undeclared_path_dataset =
     example_dataset
       \<lparr> ds_frame_count := 1,
         ds_tile_type := ''TILED_SPARSE'',
         ds_number_of_focal_planes := 1,
         ds_frame_sequence :=
           [\<lparr> RowPositionInTotalImagePixelMatrix = 1,
              ColumnPositionInTotalImagePixelMatrix = 1,
              ZOffsetInSlideCoordinateSystem = 0,
              OpticalPathIdentificationSequence = Some [Some ''1''] \<rparr>] \<rparr>"

definition undeclared_path_index :: "int sparse_tile_index" where
  "undeclared_path_index =
     \<lparr> ti_image_size = Size 2048 2048,
       ti_tile_size = Size 1024 1024,
       ti_frame_count = 1,
       ti_optical_paths = [''0''],
       ti_tiled_size = Size 2 2,
       sparse_planes =
         [((0, ''1''), \<lparr> plane_shape = Size 2 2, plane_array = [[0, - 1], [- 1, - 1]] \<rparr>)],
       sparse_focal_planes = [0] \<rparr>"

definition undeclared_path_image_data :: "(int, int) wsi_dicom_image_data" where
  "undeclared_path_image_data =
     \<lparr> idata_files =
         [(0, example_file 0 \<lparr> file_dataset := undeclared_path_dataset, file_frame_count := 1,
                                file_frame_positions := [(8, 2)] \<rparr>)],
       idata_tiles = Sparse undeclared_path_index,
       idata_transfer_syntax = JPEGBaseline8Bit,
       idata_photometric_interpretation = ''RGB'',
       idata_samples_per_pixel = 3,
       idata_blank_tile = None,
       idata_encoded_blank_tile = None \<rparr>"

subsection \<open>An instance of four tiles of different colours\<close>

text \<open>
  A full tiled image of 2048 by 2048 pixels in tiles of 1024 by 1024, one focal plane,
  one optical path, in one file. The codec of this example decodes a frame of two
  bytes, a grey value and a padding byte, to a tile of 1024 by 1024 pixels of that
  grey value. The grey values of the four tiles are 10, 20, 30 and 40.
\<close>

definition grey_image :: "wsize \<Rightarrow> int \<Rightarrow> image" where
  "grey_image sz g = \<lparr> im_mode = ''RGB'', im_size = sz, im_pixel = (\<lambda>i j. [g, g, g]) \<rparr>"

definition grey_codec :: pil_codec where
  "grey_codec =
     \<lparr> pil_open = (\<lambda>frame_bytes.
                    case frame_bytes of
                      [g, pad] \<Rightarrow> Inr (grey_image (Size 1024 1024) (uint g))
                    | _ \<Rightarrow> Inl OSError),
       pil_save = (\<lambda>im image_format image_options.
                    [word_of_int (hd (im_pixel im 0 0)), 0]) \<rparr>"

definition grey_fp :: dicom_fp where
  "grey_fp =
     \<lparr> fp_content =
         [0xFE, 0xFF, 0x00, 0xE0, 2, 0, 0, 0, 10, 0,
          0xFE, 0xFF, 0x00, 0xE0, 2, 0, 0, 0, 20, 0,
          0xFE, 0xFF, 0x00, 0xE0, 2, 0, 0, 0, 30, 0,
          0xFE, 0xFF, 0x00, 0xE0, 2, 0, 0, 0, 40, 0,
          0xFE, 0xFF, 0xDD, 0xE0, 0, 0, 0, 0],
       fp_pos = 0,
       is_little_endian = True,
       is_implicit_VR = False \<rparr>"

definition grey_image_data :: "(int, int) wsi_dicom_image_data" where
  "grey_image_data =
     \<lparr> idata_files =
         [(0, \<lparr> file_filepath = ''grey'',
                file_dataset = example_dataset \<lparr> ds_frame_count := 4,
                                                ds_number_of_focal_planes := 1 \<rparr>,
                file_transfer_syntax = JPEGBaseline8Bit,
                file_frame_offset = 0,
                file_frame_count = 4,
                file_frame_positions = [(8, 2), (18, 2), (28, 2), (38, 2)],
                file_fp = grey_fp \<rparr>)],
       idata_tiles = Full (example_full_index \<lparr> ti_frame_count := 4, full_focal_planes := [0] \<rparr>),
       idata_transfer_syntax = JPEGBaseline8Bit,
       idata_photometric_interpretation = ''RGB'',
       idata_samples_per_pixel = 3,
       idata_blank_tile = None,
       idata_encoded_blank_tile = None \<rparr>"

chapter \<open>Properties\<close>

section \<open>Python containers\<close>

lemma index_where_None: "index_where P xs = None \<longleftrightarrow> (\<forall>v\<in>set xs. \<not> P v)"
  by (induction xs) auto

lemma index_where_Some:
  "index_where P xs = Some i \<Longrightarrow> i < length xs \<and> P (xs ! i) \<and> (\<forall>j<i. \<not> P (xs ! j))"
proof (induction xs arbitrary: i)
  case Nil
  then show ?case by simp
next
  case (Cons v vs)
  show ?case
  proof (cases "P v")
    case True
    with Cons.prems show ?thesis by simp
  next
    case False
    with Cons.prems obtain k where k: "index_where P vs = Some k" "i = Suc k"
      by auto
    from Cons.IH [OF k(1)] False k(2) show ?thesis
      by (auto simp: nth_Cons split: nat.splits)
  qed
qed

lemma index_where_distinct:
  "distinct xs \<Longrightarrow> i < length xs \<Longrightarrow> index_where (\<lambda>v. v = xs ! i) xs = Some i"
proof (induction xs arbitrary: i)
  case Nil
  then show ?case by simp
next
  case (Cons v vs)
  show ?case
  proof (cases i)
    case 0
    then show ?thesis by simp
  next
    case (Suc k)
    with Cons.prems have "k < length vs" "distinct vs" "vs ! k \<noteq> v"
      by auto
    with Cons.IH [of k] Suc show ?thesis by auto
  qed
qed

lemma set_set_add: "set (set_add v s) = insert v (set s)"
  by (auto simp: set_add_def)

lemma distinct_set_add: "distinct s \<Longrightarrow> distinct (set_add v s)"
  by (simp add: set_add_def)

lemma set_fold_set_add: "set (fold (\<lambda>v. set_add (g v)) vs s) = g ` set vs \<union> set s"
  by (induction vs arbitrary: s) (auto simp: set_set_add)

lemma distinct_fold_set_add:
  "distinct s \<Longrightarrow> distinct (fold (\<lambda>v. set_add (g v)) vs s)"
  by (induction vs arbitrary: s) (auto simp: distinct_set_add)

lemma set_set_update: "set (set_update vs s) = set vs \<union> set s"
  using set_fold_set_add [of "\<lambda>v. v" vs s] by (simp add: set_update_def)

lemma distinct_set_update: "distinct s \<Longrightarrow> distinct (set_update vs s)"
  using distinct_fold_set_add [of s "\<lambda>v. v" vs] by (simp add: set_update_def)

section \<open>Mixed radix numbering\<close>

lemma pair_code_range:
  fixes A B :: int
  assumes "0 \<le> a" "a < A" "0 \<le> b" "b < B"
  shows "0 \<le> a + A * b" "a + A * b < A * B"
proof -
  from assms have "0 \<le> A * b" by simp
  with assms show "0 \<le> a + A * b" by simp
  from assms have "A * b \<le> A * (B - 1)" by (intro mult_left_mono) auto
  with assms show "a + A * b < A * B" by (simp add: algebra_simps)
qed

lemma pair_decode_range:
  fixes A B :: int
  assumes "0 \<le> A" "0 \<le> n" "n < A * B"
  shows "0 \<le> n mod A" "n mod A < A" "0 \<le> n div A" "n div A < B"
proof -
  have pos: "0 < A" using assms by (cases "A = 0") auto
  then show "0 \<le> n mod A" "n mod A < A" by simp_all
  from pos assms show "0 \<le> n div A" by (simp add: pos_imp_zdiv_nonneg_iff)
  show "n div A < B"
  proof (rule ccontr)
    assume "\<not> n div A < B"
    then have "A * B \<le> A * (n div A)" using pos by (intro mult_left_mono) auto
    moreover have "A * (n div A) \<le> n"
      using pos by (metis mult.commute zmod_le_nonneg_dividend add.commute
          le_add_same_cancel1 mult_div_mod_eq pos_mod_sign)
    ultimately show False using assms by simp
  qed
qed

lemma pair_code_bij:
  fixes A B :: int
  assumes "0 \<le> A" "0 \<le> B"
  shows "bij_betw (\<lambda>(a, b). a + A * b) ({0..<A} \<times> {0..<B}) {0..<A * B}"
proof (rule bij_betw_byWitness [where f' = "\<lambda>n. (n mod A, n div A)"])
  show "\<forall>p\<in>{0..<A} \<times> {0..<B}. (case (case p of (a, b) \<Rightarrow> a + A * b) of n \<Rightarrow> (n mod A, n div A)) = p"
    by (auto simp: div_pos_pos_trivial)
  show "\<forall>n\<in>{0..<A * B}. (case (n mod A, n div A) of (a, b) \<Rightarrow> a + A * b) = n"
    by auto
  show "(\<lambda>(a, b). a + A * b) ` ({0..<A} \<times> {0..<B}) \<subseteq> {0..<A * B}"
    using pair_code_range [of _ A _ B] by auto
  show "(\<lambda>n. (n mod A, n div A)) ` {0..<A * B} \<subseteq> {0..<A} \<times> {0..<B}"
    using pair_decode_range [OF assms(1), of _ B] by auto
qed

lemma bij_betw_prod_right:
  assumes "bij_betw g B C"
  shows "bij_betw (\<lambda>(a, b). (a, g b)) (A \<times> B) (A \<times> C)"
  using assms unfolding bij_betw_def inj_on_def by (auto simp: image_iff) 

lemma nth_bij_distinct:
  assumes "distinct xs"
  shows "bij_betw (\<lambda>i. xs ! nat i) {0..<int (length xs)} (set xs)"
proof -
  have "bij_betw (\<lambda>i. xs ! i) {0..<length xs} (set xs)"
    using assms by (rule bij_betw_nth) (simp_all add: atLeast0LessThan)
  moreover have "bij_betw nat {0..<int (length xs)} {0..<length xs}"
    by (rule bij_betw_byWitness [where f' = int]) auto
  ultimately have "bij_betw ((\<lambda>i. xs ! i) \<circ> nat) {0..<int (length xs)} (set xs)"
    by (rule bij_betw_trans [rotated])
  then show ?thesis by (simp add: comp_def)
qed

lemma frame_number_bij:
  fixes W H P O' :: int
  assumes "0 \<le> W" "0 \<le> H" "0 \<le> P" "0 \<le> O'"
  shows "bij_betw (\<lambda>(x, y, zi, pi). x + W * y + zi * (W * H) + pi * P * (W * H))
           ({0..<W} \<times> {0..<H} \<times> {0..<P} \<times> {0..<O'}) {0..<W * H * P * O'}"
proof -
  have g1: "bij_betw (\<lambda>(zi, pi). zi + P * pi) ({0..<P} \<times> {0..<O'}) {0..<P * O'}"
    using assms by (intro pair_code_bij)
  have PO: "0 \<le> P * O'" using assms by simp
  have g2: "bij_betw (\<lambda>(y, m). y + H * m) ({0..<H} \<times> {0..<P * O'}) {0..<H * (P * O')}"
    using assms PO by (intro pair_code_bij)
  have HPO: "0 \<le> H * (P * O')" using assms PO by simp
  have g3: "bij_betw (\<lambda>(x, k). x + W * k) ({0..<W} \<times> {0..<H * (P * O')}) {0..<W * (H * (P * O'))}"
    using assms HPO by (intro pair_code_bij)
  have s1: "bij_betw (\<lambda>(y, zp). (y, (\<lambda>(zi, pi). zi + P * pi) zp))
              ({0..<H} \<times> {0..<P} \<times> {0..<O'}) ({0..<H} \<times> {0..<P * O'})"
    by (rule bij_betw_prod_right [OF g1])
  have s2: "bij_betw ((\<lambda>(y, m). y + H * m) \<circ> (\<lambda>(y, zp). (y, (\<lambda>(zi, pi). zi + P * pi) zp)))
              ({0..<H} \<times> {0..<P} \<times> {0..<O'}) {0..<H * (P * O')}"
    by (rule bij_betw_trans [OF s1 g2])
  have s3: "bij_betw (\<lambda>(x, r). (x, ((\<lambda>(y, m). y + H * m) \<circ> (\<lambda>(y, zp). (y, (\<lambda>(zi, pi). zi + P * pi) zp))) r))
              ({0..<W} \<times> {0..<H} \<times> {0..<P} \<times> {0..<O'}) ({0..<W} \<times> {0..<H * (P * O')})"
    by (rule bij_betw_prod_right [OF s2])
  have s4: "bij_betw ((\<lambda>(x, k). x + W * k) \<circ>
              (\<lambda>(x, r). (x, ((\<lambda>(y, m). y + H * m) \<circ> (\<lambda>(y, zp). (y, (\<lambda>(zi, pi). zi + P * pi) zp))) r)))
              ({0..<W} \<times> {0..<H} \<times> {0..<P} \<times> {0..<O'}) {0..<W * (H * (P * O'))}"
    by (rule bij_betw_trans [OF s3 g3])
  have eq: "((\<lambda>(x, k). x + W * k) \<circ>
              (\<lambda>(x, r). (x, ((\<lambda>(y, m). y + H * m) \<circ> (\<lambda>(y, zp). (y, (\<lambda>(zi, pi). zi + P * pi) zp))) r)))
            = (\<lambda>(x, y, zi, pi). x + W * y + zi * (W * H) + pi * P * (W * H))"
    by (auto simp: fun_eq_iff algebra_simps)
  have "W * (H * (P * O')) = W * H * P * O'" by simp
  with s4 eq show ?thesis by simp
qed

section \<open>Full tile index\<close>

lemma read_focal_loop_error:
  "\<exists>d\<in>set ds. is_zero (ds_spacing_between_slices d) \<and> ds_number_of_focal_planes d \<noteq> 1 \<Longrightarrow>
   read_focal_planes_from_datasets_loop is_zero round_um ds acc = Inl ValueError"
  by (induction ds arbitrary: acc) (auto simp: Let_def)

lemma read_focal_loop_ok:
  "\<forall>d\<in>set ds. \<not> (is_zero (ds_spacing_between_slices d) \<and> ds_number_of_focal_planes d \<noteq> 1) \<Longrightarrow>
   \<exists>fps. read_focal_planes_from_datasets_loop is_zero round_um ds acc = Inr fps \<and>
     (distinct acc \<longrightarrow> distinct fps) \<and>
     set fps = set acc \<union>
       {round_um i (ds_spacing_between_slices d) | d i.
          d \<in> set ds \<and> 0 \<le> i \<and> i < ds_number_of_focal_planes d}"
proof (induction ds arbitrary: acc)
  case Nil
  then show ?case by simp
next
  case (Cons d ds)
  let ?acc' = "fold (\<lambda>plane. set_add (round_um plane (ds_spacing_between_slices d)))
                 [0 .. ds_number_of_focal_planes d - 1] acc"
  from Cons.prems have rest: "\<forall>d\<in>set ds. \<not> (is_zero (ds_spacing_between_slices d) \<and> ds_number_of_focal_planes d \<noteq> 1)"
    and here: "\<not> (is_zero (ds_spacing_between_slices d) \<and> ds_number_of_focal_planes d \<noteq> 1)"
    by auto
  from Cons.IH [OF rest, of ?acc'] obtain fps where
    fps: "read_focal_planes_from_datasets_loop is_zero round_um ds ?acc' = Inr fps"
      "distinct ?acc' \<longrightarrow> distinct fps"
      "set fps = set ?acc' \<union>
       {round_um i (ds_spacing_between_slices d) | d i.
          d \<in> set ds \<and> 0 \<le> i \<and> i < ds_number_of_focal_planes d}"
    by blast
  have acc': "set ?acc' = (\<lambda>i. round_um i (ds_spacing_between_slices d)) ` {0 .. ds_number_of_focal_planes d - 1} \<union> set acc"
    by (simp add: set_fold_set_add)
  have "read_focal_planes_from_datasets_loop is_zero round_um (d # ds) acc = Inr fps"
    using here fps(1) by (simp add: Let_def)
  moreover have "distinct acc \<longrightarrow> distinct fps"
    using fps(2) by (simp add: distinct_fold_set_add)
  moreover have "set fps = set acc \<union>
       {round_um i (ds_spacing_between_slices d') | d' i.
          d' \<in> set (d # ds) \<and> 0 \<le> i \<and> i < ds_number_of_focal_planes d'}"
    unfolding fps(3) acc' by (auto; blast)
  ultimately show ?case by blast
qed


lemma get_path_identifers_loop_distinct:
  "get_path_identifers_loop items acc = Inr ids \<Longrightarrow> distinct acc \<Longrightarrow> distinct ids"
  by (induction items acc rule: get_path_identifers_loop.induct)
     (auto simp: distinct_set_add)

lemma read_optical_paths_loop_distinct:
  "read_optical_paths_from_datasets_loop ds paths = Inr res \<Longrightarrow> distinct paths \<Longrightarrow> distinct res"
proof (induction ds arbitrary: paths)
  case Nil
  then show ?case by simp
next
  case (Cons d ds)
  then show ?case
    by (auto simp: distinct_set_update split: sum.splits)
qed

lemma bij_betw_prod_left:
  assumes "bij_betw g B C"
  shows "bij_betw (\<lambda>(b, a). (g b, a)) (B \<times> A) (C \<times> A)"
  using assms unfolding bij_betw_def inj_on_def by (auto simp: image_iff)

lemma TileIndex_init_distinct:
  assumes "TileIndex_init datasets = Inr base"
  shows "distinct (ti_optical_paths base)"
proof -
  from assms have "read_optical_paths_from_datasets datasets = Inr (ti_optical_paths base)"
    by (auto simp: TileIndex_init_def split: list.splits sum.splits)
  then show ?thesis
    unfolding read_optical_paths_from_datasets_def
    by (rule read_optical_paths_loop_distinct) simp
qed

lemma FullTileIndex_init_distinct:
  assumes "FullTileIndex_init is_zero round_um datasets = Inr idx"
  shows "distinct (ti_optical_paths idx)" "distinct (full_focal_planes idx)"
proof -
  from assms obtain base fps where
    b: "TileIndex_init datasets = Inr base"
    and f: "read_focal_planes_from_datasets is_zero round_um datasets = Inr fps"
    and i: "idx = tile_index.extend base \<lparr> full_focal_planes = fps \<rparr>"
    by (auto simp: FullTileIndex_init_def split: sum.splits)
  from b i show "distinct (ti_optical_paths idx)"
    by (simp add: TileIndex_init_distinct tile_index.defs)
  have "distinct fps"
  proof (cases "\<exists>d\<in>set datasets. is_zero (ds_spacing_between_slices d) \<and> ds_number_of_focal_planes d \<noteq> 1")
    case True
    from read_focal_loop_error [OF this, of round_um "[]"] f show ?thesis
      by (simp add: read_focal_planes_from_datasets_def)
  next
    case False
    then have "\<forall>d\<in>set datasets. \<not> (is_zero (ds_spacing_between_slices d) \<and> ds_number_of_focal_planes d \<noteq> 1)"
      by blast
    from read_focal_loop_ok [OF this, of round_um "[]"] f show ?thesis
      by (auto simp: read_focal_planes_from_datasets_def)
  qed
  with i show "distinct (full_focal_planes idx)"
    by (simp add: tile_index.defs)
qed

lemma FullTileIndex_get_frame_index_found:
  assumes "index_where (\<lambda>plane. plane = z) (full_focal_planes idx) = Some zi"
    and "index_where (\<lambda>plane_path. plane_path = path) (ti_optical_paths idx) = Some pi"
  shows "FullTileIndex_get_frame_index idx (Point x y) z path =
         Inr (x + width (ti_tiled_size idx) * y
              + int zi * (width (ti_tiled_size idx) * height (ti_tiled_size idx))
              + int pi * int (length (full_focal_planes idx))
                * (width (ti_tiled_size idx) * height (ti_tiled_size idx)))"
  using assms
  by (simp add: FullTileIndex_get_frame_index_def get_focal_plane_index_def
      get_optical_path_index_def area_def)

lemma FullTileIndex_get_frame_index_not_found:
  assumes "z \<notin> set (full_focal_planes idx) \<or> path \<notin> set (ti_optical_paths idx)"
  shows "FullTileIndex_get_frame_index idx tile z path = Inl WsiDicomNotFoundError"
proof (cases "z \<in> set (full_focal_planes idx)")
  case False
  then have "index_where (\<lambda>plane. plane = z) (full_focal_planes idx) = None"
    by (auto simp: index_where_None)
  then show ?thesis
    by (simp add: FullTileIndex_get_frame_index_def get_focal_plane_index_def)
next
  case True
  with assms have "index_where (\<lambda>plane_path. plane_path = path) (ti_optical_paths idx) = None"
    by (auto simp: index_where_None)
  then show ?thesis
    by (simp add: FullTileIndex_get_frame_index_def get_focal_plane_index_def
        get_optical_path_index_def split: option.splits)
qed


lemma example_full_index_init:
  "FullTileIndex_init example_is_zero example_round_um [example_dataset] = Inr example_full_index"
  by (simp add: FullTileIndex_init_def TileIndex_init_def example_dataset_def
      example_full_index_def read_optical_paths_from_datasets_def get_path_identifers_def
      set_update_def set_add_def size_truediv_def ceil_div_def
      read_frame_count_from_datasets_def read_focal_planes_from_datasets_def
      example_is_zero_def example_round_um_def tile_index.defs upto.simps)


text \<open>
  Claim C1. For a full tile index built from datasets, with tiled size \<open>W\<close> by \<open>H\<close>,
  \<open>P\<close> focal planes and \<open>O\<close> optical paths: for the focal plane at list index \<open>zi\<close>
  and the optical path at list index \<open>pi\<close>, \<open>get_frame_index\<close> returns
  \<open>x + W*y + zi*W*H + pi*P*W*H\<close>; over the valid inputs (tile inside the tiled plane,
  declared focal plane, declared optical path) it is a bijection onto the frame numbers
  from 0 up to \<open>W*H*P*O\<close> (excluded); a focal plane or an optical path that is not in
  the declared list raises the not-found error.
\<close>

theorem FullTileIndex_get_frame_index_bijection:
  assumes init: "FullTileIndex_init is_zero round_um datasets = Inr idx"
    and W: "0 \<le> width (ti_tiled_size idx)" and H: "0 \<le> height (ti_tiled_size idx)"
  shows "(\<forall>x y zi pi. zi < length (full_focal_planes idx) \<and> pi < length (ti_optical_paths idx) \<longrightarrow>
            FullTileIndex_get_frame_index idx (Point x y)
              (full_focal_planes idx ! zi) (ti_optical_paths idx ! pi) =
            Inr (x + width (ti_tiled_size idx) * y
                 + int zi * (width (ti_tiled_size idx) * height (ti_tiled_size idx))
                 + int pi * int (length (full_focal_planes idx))
                   * (width (ti_tiled_size idx) * height (ti_tiled_size idx)))) \<and>
         bij_betw (\<lambda>(x, y, z, path). FullTileIndex_get_frame_index idx (Point x y) z path)
           ({0 ..< width (ti_tiled_size idx)} \<times> {0 ..< height (ti_tiled_size idx)}
              \<times> set (full_focal_planes idx) \<times> set (ti_optical_paths idx))
           (Inr ` {0 ..< width (ti_tiled_size idx) * height (ti_tiled_size idx)
                        * int (length (full_focal_planes idx))
                        * int (length (ti_optical_paths idx))}) \<and>
         (\<forall>tile z path.
            z \<notin> set (full_focal_planes idx) \<or> path \<notin> set (ti_optical_paths idx) \<longrightarrow>
            FullTileIndex_get_frame_index idx tile z path = Inl WsiDicomNotFoundError)"
proof -
  let ?W = "width (ti_tiled_size idx)" and ?H = "height (ti_tiled_size idx)"
  let ?fps = "full_focal_planes idx" and ?ops = "ti_optical_paths idx"
  let ?P = "int (length ?fps)" and ?O = "int (length ?ops)"
  let ?G = "\<lambda>(x, y, z, path). FullTileIndex_get_frame_index idx (Point x y) z path"
  let ?F = "\<lambda>(x, y, zi, pi). x + ?W * y + zi * (?W * ?H) + pi * ?P * (?W * ?H)"
  let ?h = "\<lambda>(x :: int, y :: int, zi, pi). (x, y, ?fps ! nat zi, ?ops ! nat pi)"
  let ?D = "{0..<?W} \<times> {0..<?H} \<times> {0..<?P} \<times> {0..<?O}"
  let ?V = "{0..<?W} \<times> {0..<?H} \<times> set ?fps \<times> set ?ops"
  note d = FullTileIndex_init_distinct [OF init]
  have formula: "FullTileIndex_get_frame_index idx (Point x y) (?fps ! zi) (?ops ! pi) =
      Inr (x + ?W * y + int zi * (?W * ?H) + int pi * ?P * (?W * ?H))"
    if "zi < length ?fps" "pi < length ?ops" for x y zi pi
    using that d
    by (intro FullTileIndex_get_frame_index_found index_where_distinct)
  have hb: "bij_betw ?h ?D ?V"
  proof -
    have "bij_betw (\<lambda>(zi, pi). (zi, ?ops ! nat pi)) ({0..<?P} \<times> {0..<?O}) ({0..<?P} \<times> set ?ops)"
      by (rule bij_betw_prod_right [OF nth_bij_distinct [OF d(1)]])
    moreover have "bij_betw (\<lambda>(zi, p). (?fps ! nat zi, p)) ({0..<?P} \<times> set ?ops) (set ?fps \<times> set ?ops)"
      by (rule bij_betw_prod_left [OF nth_bij_distinct [OF d(2)]])
    ultimately have "bij_betw ((\<lambda>(zi, p). (?fps ! nat zi, p)) \<circ> (\<lambda>(zi, pi). (zi, ?ops ! nat pi)))
        ({0..<?P} \<times> {0..<?O}) (set ?fps \<times> set ?ops)"
      by (rule bij_betw_trans)
    then have zp: "bij_betw (\<lambda>(zi, pi). (?fps ! nat zi, ?ops ! nat pi))
        ({0..<?P} \<times> {0..<?O}) (set ?fps \<times> set ?ops)"
      by (simp add: comp_def case_prod_unfold)
    have "bij_betw (\<lambda>(x, r). (x, (\<lambda>(y, q). (y, (\<lambda>(zi, pi). (?fps ! nat zi, ?ops ! nat pi)) q)) r)) ?D ?V"
      by (intro bij_betw_prod_right zp)
    then show ?thesis by (simp add: case_prod_unfold)
  qed
  have "bij_betw ?F ?D {0..<?W * ?H * ?P * ?O}"
    using W H by (intro frame_number_bij) simp_all
  then have "bij_betw (Inr \<circ> ?F) ?D (Inr ` {0..<?W * ?H * ?P * ?O})"
    by (intro bij_betw_trans [where B = "{0..<?W * ?H * ?P * ?O}"] inj_on_imp_bij_betw) auto
  moreover have "\<And>a. a \<in> ?D \<Longrightarrow> (?G \<circ> ?h) a = ((Inr \<circ> ?F) a :: error + int)"
    using formula by (auto simp: nat_less_iff)
  ultimately have "bij_betw (?G \<circ> ?h) ?D (Inr ` {0..<?W * ?H * ?P * ?O})"
    using bij_betw_cong [of ?D "?G \<circ> ?h" "Inr \<circ> ?F" "Inr ` {0..<?W * ?H * ?P * ?O}"]
    by blast
  with hb have "bij_betw ?G ?V (Inr ` {0..<?W * ?H * ?P * ?O})"
    by (simp add: bij_betw_comp_iff)
  with formula FullTileIndex_get_frame_index_not_found [of _ idx] show ?thesis
    by blast
qed

theorem FullTileIndex_get_frame_index_bijection_witness:
  "FullTileIndex_init example_is_zero example_round_um [example_dataset] = Inr example_full_index \<and>
   FullTileIndex_get_frame_index example_full_index (Point 1 1) 1000 ''0'' = Inr 7 \<and>
   FullTileIndex_get_frame_index example_full_index (Point 0 1) 0 ''0'' = Inr 2 \<and>
   bij_betw (\<lambda>(x, y, z, path). FullTileIndex_get_frame_index example_full_index (Point x y) z path)
     ({0 ..< 2} \<times> {0 ..< 2} \<times> {0, 1000} \<times> {''0''}) (Inr ` {0 ..< 8}) \<and>
   FullTileIndex_get_frame_index example_full_index (Point 0 0) 500 ''0'' = Inl WsiDicomNotFoundError"
proof -
  have W: "0 \<le> width (ti_tiled_size example_full_index)"
    and H: "0 \<le> height (ti_tiled_size example_full_index)"
    by (simp_all add: example_full_index_def)
  note t = FullTileIndex_get_frame_index_bijection [OF example_full_index_init W H]
  from t have f: "\<And>x y zi pi. zi < length (full_focal_planes example_full_index) \<and>
            pi < length (ti_optical_paths example_full_index) \<Longrightarrow>
            FullTileIndex_get_frame_index example_full_index (Point x y)
              (full_focal_planes example_full_index ! zi) (ti_optical_paths example_full_index ! pi) =
            Inr (x + width (ti_tiled_size example_full_index) * y
                 + int zi * (width (ti_tiled_size example_full_index) * height (ti_tiled_size example_full_index))
                 + int pi * int (length (full_focal_planes example_full_index))
                   * (width (ti_tiled_size example_full_index) * height (ti_tiled_size example_full_index)))"
    by blast
  have a: "FullTileIndex_get_frame_index example_full_index (Point 1 1) 1000 ''0'' = Inr 7"
    using f [of 1 0 1 1] by (simp add: example_full_index_def)
  have b: "FullTileIndex_get_frame_index example_full_index (Point 0 1) 0 ''0'' = Inr 2"
    using f [of 0 0 0 1] by (simp add: example_full_index_def)
  from t have c: "bij_betw (\<lambda>(x, y, z, path). FullTileIndex_get_frame_index example_full_index (Point x y) z path)
     ({0 ..< 2} \<times> {0 ..< 2} \<times> {0, 1000} \<times> {''0''}) (Inr ` {0 ..< 8})"
    by (simp add: example_full_index_def)
  from t have d: "FullTileIndex_get_frame_index example_full_index (Point 0 0) 500 ''0'' = Inl WsiDicomNotFoundError"
    by (simp add: example_full_index_def)
  from example_full_index_init a b c d show ?thesis by simp
qed

text \<open>
  Claim C10. Reading the focal planes of a list of datasets raises an error (and so does
  the construction of the full tile index) when some dataset has a spacing between
  slices of 0 and a number of focal planes other than 1; otherwise the focal planes
  of the index are, without repetition, the values
  \<open>round(i * spacing_between_slices * 1000, 3)\<close> for \<open>0 \<le> i < number_of_focal_planes\<close>
  over all datasets.
\<close>

theorem read_focal_planes_from_datasets_spec:
  "(if \<exists>d\<in>set datasets. is_zero (ds_spacing_between_slices d) \<and> ds_number_of_focal_planes d \<noteq> 1
    then read_focal_planes_from_datasets is_zero round_um datasets = Inl ValueError \<and>
         isl (FullTileIndex_init is_zero round_um datasets)
    else (\<exists>fps. read_focal_planes_from_datasets is_zero round_um datasets = Inr fps \<and>
            distinct fps \<and>
            set fps = {round_um i (ds_spacing_between_slices d) | d i.
                         d \<in> set datasets \<and> 0 \<le> i \<and> i < ds_number_of_focal_planes d} \<and>
            (\<forall>idx. FullTileIndex_init is_zero round_um datasets = Inr idx \<longrightarrow>
                   full_focal_planes idx = fps)))"
proof (cases "\<exists>d\<in>set datasets. is_zero (ds_spacing_between_slices d) \<and> ds_number_of_focal_planes d \<noteq> 1")
  case True
  then have "read_focal_planes_from_datasets is_zero round_um datasets = Inl ValueError"
    unfolding read_focal_planes_from_datasets_def by (rule read_focal_loop_error)
  then show ?thesis using True
    by (auto simp: FullTileIndex_init_def split: sum.splits)
next
  case False
  then have "\<forall>d\<in>set datasets. \<not> (is_zero (ds_spacing_between_slices d) \<and> ds_number_of_focal_planes d \<noteq> 1)"
    by blast
  from read_focal_loop_ok [OF this, of round_um "[]"] obtain fps where
    "read_focal_planes_from_datasets is_zero round_um datasets = Inr fps" "distinct fps"
    "set fps = {round_um i (ds_spacing_between_slices d) | d i.
                         d \<in> set datasets \<and> 0 \<le> i \<and> i < ds_number_of_focal_planes d}"
    unfolding read_focal_planes_from_datasets_def by auto
  then show ?thesis using False
    by (auto simp: FullTileIndex_init_def tile_index.defs split: sum.splits)
qed

lemma example_focal_values:
  "{example_round_um i (ds_spacing_between_slices d) | d i.
      d \<in> set [example_dataset] \<and> 0 \<le> i \<and> i < ds_number_of_focal_planes d} = {0, 1000}"
proof -
  have sp: "ds_spacing_between_slices example_dataset = 1"
    and n: "ds_number_of_focal_planes example_dataset = 2"
    by (simp_all add: example_dataset_def)
  have "{example_round_um i (ds_spacing_between_slices d) | d i.
      d \<in> set [example_dataset] \<and> 0 \<le> i \<and> i < ds_number_of_focal_planes d}
      = (\<lambda>i. i * 1000) ` {i. 0 \<le> i \<and> i < 2}"
    using sp n by (auto simp: example_round_um_def)
  also have "{i :: int. 0 \<le> i \<and> i < 2} = {0, 1}" by auto
  finally show ?thesis by simp
qed

theorem read_focal_planes_from_datasets_spec_witness:
  "read_focal_planes_from_datasets example_is_zero example_round_um
     [example_dataset \<lparr> ds_spacing_between_slices := 0 \<rparr>] = Inl ValueError \<and>
   isl (FullTileIndex_init example_is_zero example_round_um
     [example_dataset \<lparr> ds_spacing_between_slices := 0 \<rparr>]) \<and>
   (\<exists>fps. read_focal_planes_from_datasets example_is_zero example_round_um [example_dataset] = Inr fps \<and>
      distinct fps \<and> set fps = {0, 1000} \<and>
      full_focal_planes example_full_index = fps)"
proof -
  have bad: "\<exists>d\<in>set [example_dataset \<lparr> ds_spacing_between_slices := 0 \<rparr>].
      example_is_zero (ds_spacing_between_slices d) \<and> ds_number_of_focal_planes d \<noteq> 1"
    by (simp add: example_dataset_def example_is_zero_def)
  have good: "\<not> (\<exists>d\<in>set [example_dataset].
      example_is_zero (ds_spacing_between_slices d) \<and> ds_number_of_focal_planes d \<noteq> 1)"
    by (simp add: example_dataset_def example_is_zero_def)
  note 1 = read_focal_planes_from_datasets_spec
         [of "[example_dataset \<lparr> ds_spacing_between_slices := 0 \<rparr>]" example_is_zero example_round_um,
          unfolded if_P [OF bad]]
  note g = read_focal_planes_from_datasets_spec
         [of "[example_dataset]" example_is_zero example_round_um,
          unfolded if_not_P [OF good] example_focal_values]
  from g obtain fps where fps:
    "read_focal_planes_from_datasets example_is_zero example_round_um [example_dataset] = Inr fps"
    "distinct fps" "set fps = {0, 1000}"
    "\<forall>idx. FullTileIndex_init example_is_zero example_round_um [example_dataset] = Inr idx \<longrightarrow>
                   full_focal_planes idx = fps"
    by blast
  from fps(4) example_full_index_init have "full_focal_planes example_full_index = fps"
    by blast
  with 1 fps(1-3) show ?thesis by blast
qed

section \<open>File lookup\<close>

lemma get_file_not_found:
  "(\<forall>entry\<in>set files. \<not> file_contains entry frame_index) \<Longrightarrow>
   get_file files frame_index = Inl WsiDicomNotFoundError"
  by (induction files frame_index rule: get_file.induct) (auto simp: file_contains_def)

lemma get_file_Inl:
  "get_file files frame_index = Inl e \<Longrightarrow>
   e = WsiDicomNotFoundError \<and> (\<forall>entry\<in>set files. \<not> file_contains entry frame_index)"
  by (induction files frame_index rule: get_file.induct)
     (auto simp: file_contains_def split: if_splits)

lemma get_file_Inr:
  "get_file files frame_index = Inr file \<Longrightarrow>
   \<exists>frame_offset. (frame_offset, file) \<in> set files \<and> file_contains (frame_offset, file) frame_index"
  by (induction files frame_index rule: get_file.induct)
     (auto simp: file_contains_def split: if_splits)

lemma get_file_unique:
  assumes "(frame_offset, fl) \<in> set files"
    and "file_contains (frame_offset, fl) frame_index"
    and "\<forall>entry\<in>set files. file_contains entry frame_index \<longrightarrow> snd entry = fl"
  shows "get_file files frame_index = Inr fl"
  using assms
proof (induction files)
  case Nil
  then show ?case by simp
next
  case (Cons entry files)
  obtain k g where entry: "entry = (k, g)" by (cases entry)
  show ?case
  proof (cases "file_contains (k, g) frame_index")
    case True
    with Cons.prems(3) entry have "g = fl" by auto
    with True entry show ?thesis by (simp add: file_contains_def)
  next
    case False
    with Cons.prems(1,2) entry have 1: "(frame_offset, fl) \<in> set files" by auto
    from Cons.prems(3)
    have 3: "\<forall>entry\<in>set files. file_contains entry frame_index \<longrightarrow> snd entry = fl"
      by simp
    have "get_file files frame_index = Inr fl"
      by (rule Cons.IH [OF 1 Cons.prems(2) 3])
    with False entry show ?thesis by (auto simp: file_contains_def)
  qed
qed

text \<open>
  Claim C9. The file lookup of an instance returns, for a frame index, the one file of
  the instance whose range of frame numbers (frame offset up to frame offset plus frame
  count, excluded) contains the index; a file it returns is a file of the instance
  whose range contains the index; when the range of no file contains the index it
  raises the not-found error, and so does every read of a tile whose frame index is
  such a number.
\<close>

theorem get_file_lookup:
  "(\<forall>frame_offset file.
      (frame_offset, file) \<in> set (idata_files d) \<and> file_contains (frame_offset, file) frame_index \<and>
      (\<forall>entry\<in>set (idata_files d). file_contains entry frame_index \<longrightarrow> snd entry = file) \<longrightarrow>
      get_file (idata_files d) frame_index = Inr file) \<and>
   (\<forall>file. get_file (idata_files d) frame_index = Inr file \<longrightarrow>
      (\<exists>frame_offset. (frame_offset, file) \<in> set (idata_files d) \<and>
         file_contains (frame_offset, file) frame_index)) \<and>
   ((\<forall>entry\<in>set (idata_files d). \<not> file_contains entry frame_index) \<longrightarrow>
      get_file (idata_files d) frame_index = Inl WsiDicomNotFoundError \<and>
      get_tile_frame d frame_index = Inl WsiDicomNotFoundError \<and>
      (\<forall>codec tile z path.
         WsiDicomImageData_get_frame_index d tile z path = Inr frame_index \<and> frame_index \<noteq> - 1 \<longrightarrow>
         WsiDicomImageData_get_encoded_tile codec d tile z path = (Inl WsiDicomNotFoundError, d) \<and>
         WsiDicomImageData_get_decoded_tile codec d tile z path = (Inl WsiDicomNotFoundError, d)))"
proof (intro conjI allI impI)
  fix frame_offset and fl :: "('a, 'b) wsi_dicom_file"
  assume "(frame_offset, fl) \<in> set (idata_files d) \<and> file_contains (frame_offset, fl) frame_index \<and>
      (\<forall>entry\<in>set (idata_files d). file_contains entry frame_index \<longrightarrow> snd entry = fl)"
  then show "get_file (idata_files d) frame_index = Inr fl"
    using get_file_unique by blast
next
  fix fl assume "get_file (idata_files d) frame_index = Inr fl"
  then show "\<exists>frame_offset. (frame_offset, fl) \<in> set (idata_files d) \<and>
         file_contains (frame_offset, fl) frame_index"
    by (rule get_file_Inr)
next
  assume none: "\<forall>entry\<in>set (idata_files d). \<not> file_contains entry frame_index"
  then show nf: "get_file (idata_files d) frame_index = Inl WsiDicomNotFoundError"
    by (rule get_file_not_found)
  then show tf: "get_tile_frame d frame_index = Inl WsiDicomNotFoundError"
    by (simp add: get_tile_frame_def)
  fix codec :: pil_codec and tile z path
  assume "WsiDicomImageData_get_frame_index d tile z path = Inr frame_index \<and> frame_index \<noteq> - 1"
  with tf show "WsiDicomImageData_get_encoded_tile codec d tile z path = (Inl WsiDicomNotFoundError, d)"
    and "WsiDicomImageData_get_decoded_tile codec d tile z path = (Inl WsiDicomNotFoundError, d)"
    by (simp_all add: WsiDicomImageData_get_encoded_tile_def WsiDicomImageData_get_decoded_tile_def)
qed


lemma example_file_neq: "example_file 0 \<noteq> example_file 4"
  by (simp add: example_file_def)

theorem get_file_lookup_witness:
  "get_file (idata_files example_image_data) 5 = Inr (example_file 4) \<and>
   get_file (idata_files example_image_data) 10 = Inl WsiDicomNotFoundError \<and>
   get_tile_frame example_image_data 10 = Inl WsiDicomNotFoundError"
proof -
  have files: "idata_files example_image_data = [(0, example_file 0), (4, example_file 4)]"
    by (simp add: example_image_data_def)
  have count: "file_frame_count (example_file 0) = 4" "file_frame_count (example_file 4) = 4"
    by (simp_all add: example_file_def)
  have mem: "(4, example_file 4) \<in> set (idata_files example_image_data)"
    by (simp add: files)
  have cont: "file_contains (4, example_file 4) 5"
    by (simp add: file_contains_def count)
  have uniq: "\<forall>entry\<in>set (idata_files example_image_data).
      file_contains entry 5 \<longrightarrow> snd entry = example_file 4"
    by (simp add: files file_contains_def count)
  have none: "\<forall>entry\<in>set (idata_files example_image_data). \<not> file_contains entry 10"
    by (simp add: files file_contains_def count)
  from get_file_lookup [of example_image_data 5] mem cont uniq
  have "get_file (idata_files example_image_data) 5 = Inr (example_file 4)"
    by blast
  moreover from get_file_lookup [of example_image_data 10] none
  have "get_file (idata_files example_image_data) 10 = Inl WsiDicomNotFoundError \<and>
        get_tile_frame example_image_data 10 = Inl WsiDicomNotFoundError"
    by blast
  ultimately show ?thesis by simp
qed

section \<open>Region to tile range\<close>

lemma ceil_div_minus_one:
  assumes "0 < b"
  shows "ceil_div a b - 1 = (a - 1) div b"
proof -
  have "(a - 1) div b = (if a mod b = 0 then a div b - 1 else a div b)"
  proof (cases "a mod b = 0")
    case True
    then obtain q where q: "a = b * q" by auto
    have "(b * q - 1) div b = q - 1"
    proof -
      have "b * q - 1 = b * (q - 1) + (b - 1)" by (simp add: algebra_simps)
      then have "(b * q - 1) div b = (b * (q - 1) + (b - 1)) div b" by (simp only:)
      also have "\<dots> = q - 1" using assms by (simp add: div_pos_pos_trivial)
      finally show ?thesis .
    qed
    with True q assms show ?thesis by simp
  next
    case False
    define r where "r = a mod b"
    define q where "q = a div b"
    have a: "a = b * q + r" by (simp add: r_def q_def)
    have "0 \<le> r" "r < b" using assms by (simp_all add: r_def)
    with False have r: "0 < r" "r < b" by (simp_all add: r_def)
    have "a - 1 = b * q + (r - 1)" by (simp add: a)
    then have "(a - 1) div b = (b * q + (r - 1)) div b" by (simp only:)
    also have "\<dots> = q" using r assms by (simp add: div_pos_pos_trivial)
    finally show ?thesis using False by (simp add: q_def)
  qed
  moreover have "(- a) div b = (if a mod b = 0 then - (a div b) else - (a div b) - 1)"
    using assms by (simp add: zdiv_zminus1_eq_if)
  ultimately show ?thesis by (simp add: ceil_div_def)
qed

lemma div_in_tile:
  fixes a b k :: int
  assumes "0 < b" "k * b \<le> a" "a < (k + 1) * b"
  shows "a div b = k"
proof -
  define r where "r = a - k * b"
  have r: "0 \<le> r" "r < b" using assms by (simp_all add: r_def algebra_simps)
  have "a = b * k + r" by (simp add: r_def)
  then have "a div b = (b * k + r) div b" by (simp only:)
  also have "\<dots> = k" using r assms(1) by (simp add: div_pos_pos_trivial)
  finally show ?thesis .
qed

lemma get_tile_range_eq:
  assumes "0 < width (tile_size d)" "0 < height (tile_size d)"
  shows "get_tile_range d pixel_region z path =
         (if valid_tiles d (spec_tile_range (tile_size d) pixel_region) z path = Inr True
          then Inr (spec_tile_range (tile_size d) pixel_region)
          else Inl WsiDicomOutOfBoundsError)"
proof -
  have v: "\<exists>b. valid_tiles d r z path = Inr b" for r
    using assms
    by (simp add: valid_tiles_def plane_region_def tiled_size_def size_truediv_def)
  then obtain b where b: "valid_tiles d (spec_tile_range (tile_size d) pixel_region) z path = Inr b"
    by blast
  with assms show ?thesis
    by (simp add: get_tile_range_def point_floordiv_def point_truediv_def point_sub_int_def
        ceil_div_minus_one spec_tile_range_def Let_def)
qed

text \<open>
  Claim C5. For a positive tile size, \<open>get_tile_range\<close> returns the tile range of the
  specification (start: the start of the pixel region floor-divided by the tile size;
  end: the end of the pixel region minus one floor-divided by the tile size) when that
  range is valid for the index, and raises the out-of-bounds error when it is not. A
  region inside one tile gives the range of that single tile, a region that straddles
  two tiles next to each other gives a range of two tiles, and the range of a region of
  size zero is anchored at the tile that contains its origin.
\<close>

theorem get_tile_range_spec:
  assumes "0 < width (tile_size d)" "0 < height (tile_size d)"
  shows "get_tile_range d pixel_region z path =
           (if valid_tiles d (spec_tile_range (tile_size d) pixel_region) z path = Inr True
            then Inr (spec_tile_range (tile_size d) pixel_region)
            else Inl WsiDicomOutOfBoundsError) \<and>
         region_start (spec_tile_range (tile_size d) pixel_region) =
           Point (pt_x (region_start pixel_region) div width (tile_size d))
                 (pt_y (region_start pixel_region) div height (tile_size d)) \<and>
         region_end (spec_tile_range (tile_size d) pixel_region) =
           Point ((pt_x (region_end pixel_region) - 1) div width (tile_size d))
                 ((pt_y (region_end pixel_region) - 1) div height (tile_size d)) \<and>
         (\<forall>k l. k * width (tile_size d) \<le> pt_x (region_start pixel_region) \<and>
                pt_x (region_start pixel_region) < pt_x (region_end pixel_region) \<and>
                pt_x (region_end pixel_region) \<le> (k + 1) * width (tile_size d) \<and>
                l * height (tile_size d) \<le> pt_y (region_start pixel_region) \<and>
                pt_y (region_start pixel_region) < pt_y (region_end pixel_region) \<and>
                pt_y (region_end pixel_region) \<le> (l + 1) * height (tile_size d) \<longrightarrow>
                spec_tile_range (tile_size d) pixel_region = Region (Point k l) (Size 0 0)) \<and>
         (\<forall>k l. k * width (tile_size d) \<le> pt_x (region_start pixel_region) \<and>
                pt_x (region_start pixel_region) < (k + 1) * width (tile_size d) \<and>
                (k + 1) * width (tile_size d) < pt_x (region_end pixel_region) \<and>
                pt_x (region_end pixel_region) \<le> (k + 2) * width (tile_size d) \<and>
                l * height (tile_size d) \<le> pt_y (region_start pixel_region) \<and>
                pt_y (region_start pixel_region) < pt_y (region_end pixel_region) \<and>
                pt_y (region_end pixel_region) \<le> (l + 1) * height (tile_size d) \<longrightarrow>
                spec_tile_range (tile_size d) pixel_region = Region (Point k l) (Size 1 0)) \<and>
         (region_size pixel_region = Size 0 0 \<longrightarrow>
            position (spec_tile_range (tile_size d) pixel_region) =
              Point (pt_x (position pixel_region) div width (tile_size d))
                    (pt_y (position pixel_region) div height (tile_size d)))"
proof -
  let ?w = "width (tile_size d)" and ?h = "height (tile_size d)"
  let ?sx = "pt_x (region_start pixel_region)" and ?sy = "pt_y (region_start pixel_region)"
  let ?ex = "pt_x (region_end pixel_region)" and ?ey = "pt_y (region_end pixel_region)"
  have one: "spec_tile_range (tile_size d) pixel_region = Region (Point k l) (Size 0 0)"
    if "k * ?w \<le> ?sx" "?sx < ?ex" "?ex \<le> (k + 1) * ?w"
       "l * ?h \<le> ?sy" "?sy < ?ey" "?ey \<le> (l + 1) * ?h" for k l
  proof -
    have "?sx div ?w = k" "(?ex - 1) div ?w = k" "?sy div ?h = l" "(?ey - 1) div ?h = l"
      using that assms by (auto intro!: div_in_tile)
    then show ?thesis by (simp add: spec_tile_range_def from_points_def)
  qed
  have two: "spec_tile_range (tile_size d) pixel_region = Region (Point k l) (Size 1 0)"
    if "k * ?w \<le> ?sx" "?sx < (k + 1) * ?w" "(k + 1) * ?w < ?ex" "?ex \<le> (k + 2) * ?w"
       "l * ?h \<le> ?sy" "?sy < ?ey" "?ey \<le> (l + 1) * ?h" for k l
  proof -
    have "?ex - 1 < (k + 1 + 1) * ?w" using that by (simp add: algebra_simps)
    moreover have "(k + 1) * ?w \<le> ?ex - 1" using that by simp
    ultimately have "(?ex - 1) div ?w = k + 1"
      using assms by (intro div_in_tile) auto
    moreover have "?sx div ?w = k" "?sy div ?h = l" "(?ey - 1) div ?h = l"
      using that assms by (auto intro!: div_in_tile)
    ultimately show ?thesis by (simp add: spec_tile_range_def from_points_def)
  qed
  have st: "region_start (spec_tile_range (tile_size d) pixel_region) = Point (?sx div ?w) (?sy div ?h)"
    by (simp add: spec_tile_range_def from_points_def region_start_def)
  have en: "region_end (spec_tile_range (tile_size d) pixel_region) =
      Point ((?ex - 1) div ?w) ((?ey - 1) div ?h)"
    by (simp add: spec_tile_range_def from_points_def region_end_def)
  have zero: "position (spec_tile_range (tile_size d) pixel_region) =
      Point (pt_x (position pixel_region) div ?w) (pt_y (position pixel_region) div ?h)"
    by (simp add: spec_tile_range_def from_points_def region_start_def)
  show ?thesis
  proof (intro conjI allI impI)
    show "get_tile_range d pixel_region z path =
           (if valid_tiles d (spec_tile_range (tile_size d) pixel_region) z path = Inr True
            then Inr (spec_tile_range (tile_size d) pixel_region)
            else Inl WsiDicomOutOfBoundsError)"
      by (rule get_tile_range_eq [OF assms])
  qed (use st en one two zero in blast)+
qed


lemma example_image_data_simps:
  "tile_size example_image_data = Size 1024 1024"
  "image_size example_image_data = Size 2048 2048"
  "focal_planes example_image_data = [0, 1000]"
  "optical_paths example_image_data = [''0'']"
  "tiled_size example_image_data = Inr (Size 2 2)"
  "plane_region example_image_data = Inr (Region (Point 0 0) (Size 1 1))"
  by (simp_all add: tile_size_def image_size_def focal_planes_def optical_paths_def
      tiled_size_def plane_region_def size_truediv_def ceil_div_def size_sub_int_def
      example_image_data_def example_full_index_def tiles_tile_size_def tiles_image_size_def
      tiles_focal_planes_def tiles_optical_paths_def)

theorem get_tile_range_spec_witness:
  "get_tile_range example_image_data (Region (Point 300 400) (Size 500 500)) 0 ''0'' =
     Inr (Region (Point 0 0) (Size 0 0)) \<and>
   get_tile_range example_image_data (Region (Point 512 0) (Size 1024 100)) 0 ''0'' =
     Inr (Region (Point 0 0) (Size 1 0)) \<and>
   get_tile_range example_image_data (Region (Point 1500 10) (Size 0 0)) 0 ''0'' =
     Inr (Region (Point 1 0) (Size 0 0)) \<and>
   get_tile_range example_image_data (Region (Point 0 0) (Size 3000 3000)) 0 ''0'' =
     Inl WsiDicomOutOfBoundsError"
proof -
  have w: "0 < width (tile_size example_image_data)"
    and h: "0 < height (tile_size example_image_data)"
    by (simp_all add: example_image_data_simps)
  note t = get_tile_range_spec [OF w h]
  have valid: "valid_tiles example_image_data r 0 ''0'' =
      Inr (is_inside r (Region (Point 0 0) (Size 1 1)))" for r
    by (simp add: valid_tiles_def example_image_data_simps)
  have 1: "get_tile_range example_image_data (Region (Point 300 400) (Size 500 500)) 0 ''0'' =
     Inr (Region (Point 0 0) (Size 0 0))"
    using t [of "Region (Point 300 400) (Size 500 500)" 0 "''0''"]
    by (simp add: valid example_image_data_simps spec_tile_range_def from_points_def
        region_start_def region_end_def is_inside_def)
  have 2: "get_tile_range example_image_data (Region (Point 512 0) (Size 1024 100)) 0 ''0'' =
     Inr (Region (Point 0 0) (Size 1 0))"
    using t [of "Region (Point 512 0) (Size 1024 100)" 0 "''0''"]
    by (simp add: valid example_image_data_simps spec_tile_range_def from_points_def
        region_start_def region_end_def is_inside_def)
  have 3: "get_tile_range example_image_data (Region (Point 1500 10) (Size 0 0)) 0 ''0'' =
     Inr (Region (Point 1 0) (Size 0 0))"
    using t [of "Region (Point 1500 10) (Size 0 0)" 0 "''0''"]
    by (simp add: valid example_image_data_simps spec_tile_range_def from_points_def
        region_start_def region_end_def is_inside_def)
  have 4: "get_tile_range example_image_data (Region (Point 0 0) (Size 3000 3000)) 0 ''0'' =
     Inl WsiDicomOutOfBoundsError"
    using t [of "Region (Point 0 0) (Size 3000 3000)" 0 "''0''"]
    by (simp add: valid example_image_data_simps spec_tile_range_def from_points_def
        region_start_def region_end_def is_inside_def)
  from 1 2 3 4 show ?thesis by simp
qed

section \<open>Stitching\<close>

lemma write_indexer_eq:
  "write_indexer index previous_size image_sz =
     (if pt_x index + width previous_size \<ge> width image_sz
      then Point 0 (pt_y index + height previous_size)
      else Point (pt_x index + width previous_size) (pt_y index))"
  by (simp add: write_indexer_def Let_def)

lemma stitch_tiles_loop_trace:
  assumes "stitch_tiles_loop codec r z path tiles im write_index pasted d = (Inr (im', pasted'), d')"
  shows "\<exists>new. pasted' = pasted @ new \<and>
           get_tile_seq codec d tiles z path r = (Inr (map snd new), d') \<and>
           im' = fold (\<lambda>(p, t) acc. image_paste acc t p) new im \<and>
           (new \<noteq> [] \<longrightarrow> fst (hd new) = write_index) \<and>
           (\<forall>k. Suc k < length new \<longrightarrow>
              fst (new ! Suc k) =
                write_indexer (fst (new ! k)) (im_size (snd (new ! k))) (region_size r))"
  using assms
proof (induction tiles arbitrary: im write_index pasted d)
  case Nil
  then show ?case by simp
next
  case (Cons tile tiles)
  obtain res d1 where g: "get_tile codec d tile z path (CropRegion r) = (res, d1)"
    by (cases "get_tile codec d tile z path (CropRegion r)")
  with Cons.prems obtain tile_image where res: "res = Inr tile_image"
    by (cases res) auto
  let ?wi = "write_indexer write_index (im_size tile_image) (region_size r)"
  from Cons.prems g res have
    "stitch_tiles_loop codec r z path tiles (image_paste im tile_image write_index) ?wi
       (pasted @ [(write_index, tile_image)]) d1 = (Inr (im', pasted'), d')"
    by simp
  from Cons.IH [OF this] obtain new where new:
    "pasted' = (pasted @ [(write_index, tile_image)]) @ new"
    "get_tile_seq codec d1 tiles z path r = (Inr (map snd new), d')"
    "im' = fold (\<lambda>(p, t) acc. image_paste acc t p) new (image_paste im tile_image write_index)"
    "new \<noteq> [] \<longrightarrow> fst (hd new) = ?wi"
    "\<forall>k. Suc k < length new \<longrightarrow>
       fst (new ! Suc k) = write_indexer (fst (new ! k)) (im_size (snd (new ! k))) (region_size r)"
    by blast
  let ?new = "(write_index, tile_image) # new"
  have "pasted' = pasted @ ?new" using new(1) by simp
  moreover have "get_tile_seq codec d (tile # tiles) z path r = (Inr (map snd ?new), d')"
    using g res new(2) by simp
  moreover have "im' = fold (\<lambda>(p, t) acc. image_paste acc t p) ?new im"
    using new(3) by simp
  moreover have "?new \<noteq> [] \<longrightarrow> fst (hd ?new) = write_index" by simp
  moreover have "\<forall>k. Suc k < length ?new \<longrightarrow>
       fst (?new ! Suc k) =
         write_indexer (fst (?new ! k)) (im_size (snd (?new ! k))) (region_size r)"
  proof (intro allI impI)
    fix k assume k: "Suc k < length ?new"
    show "fst (?new ! Suc k) =
         write_indexer (fst (?new ! k)) (im_size (snd (?new ! k))) (region_size r)"
    proof (cases k)
      case 0
      with k have "new \<noteq> []" by auto
      with new(4) have "fst (new ! 0) = ?wi" by (simp add: hd_conv_nth)
      with 0 show ?thesis by simp
    next
      case (Suc j)
      with k new(5) show ?thesis by simp
    qed
  qed
  ultimately show ?case by blast
qed

lemma stitch_tiles_Inr:
  assumes "stitch_tiles codec d r path z = (Inr im, d')"
  shows "\<exists>pasted. stitch_tiles_trace codec d r path z = (Inr (im, pasted), d')"
proof -
  obtain res d1 where t: "stitch_tiles_trace codec d r path z = (res, d1)"
    by (cases "stitch_tiles_trace codec d r path z")
  with assms have "map_sum id fst res = Inr im" "d1 = d'"
    by (simp_all add: stitch_tiles_def)
  then obtain pasted where "res = Inr (im, pasted)"
    by (cases res) auto
  with t \<open>d1 = d'\<close> show ?thesis by blast
qed

lemma stitch_tiles_pastes:
  assumes "stitch_tiles codec d r path z = (Inr im, d')"
  shows "\<exists>pasted mode im0 tile_range.
           image_mode d = Inr mode \<and>
           Image_new mode (region_size r) (replicate (length mode) 0) = Inr im0 \<and>
           get_tile_range d r z path = Inr tile_range \<and>
           get_tile_seq codec d (iterate_all tile_range True) z path r = (Inr (map snd pasted), d') \<and>
           im = fold (\<lambda>(p, t) acc. image_paste acc t p) pasted im0 \<and>
           (pasted \<noteq> [] \<longrightarrow> fst (pasted ! 0) = Point 0 0) \<and>
           (\<forall>k. Suc k < length pasted \<longrightarrow>
              fst (pasted ! Suc k) =
                write_indexer (fst (pasted ! k)) (im_size (snd (pasted ! k))) (region_size r))"
proof -
  from stitch_tiles_Inr [OF assms] obtain pasted where
    t: "stitch_tiles_trace codec d r path z = (Inr (im, pasted), d')" by blast
  have zeros: "map (\<lambda>_. 0 :: int) [0 ..< n] = replicate n 0" for n
    by (simp add: map_replicate_trivial)
  from t obtain mode im0 tile_range where
    m: "image_mode d = Inr mode"
    and n: "Image_new mode (region_size r) (replicate (length mode) 0) = Inr im0"
    and g: "get_tile_range d r z path = Inr tile_range"
    and l: "stitch_tiles_loop codec r z path (iterate_all tile_range True) im0 (Point 0 0) [] d =
            (Inr (im, pasted), d')"
    by (auto simp: stitch_tiles_trace_def zeros split: sum.splits)
  from stitch_tiles_loop_trace [OF l] m n g show ?thesis
    by (auto simp: hd_conv_nth)
qed


lemma blank_tile_size:
  assumes "tiles_of_tile_size codec d" "blank_tile d = (Inr im, d1)"
  shows "im_size im = tile_size d \<and> tiles_of_tile_size codec d1 \<and> tile_size d1 = tile_size d"
proof (cases "idata_blank_tile d")
  case (Some t)
  with assms show ?thesis by (auto simp: blank_tile_def tiles_of_tile_size_def)
next
  case None
  with assms(2) have c: "create_blank_tile d = Inr im" and d1: "d1 = d \<lparr> idata_blank_tile := Some im \<rparr>"
    by (auto simp: blank_tile_def split: sum.splits)
  from c have "im_size im = tile_size d"
    by (auto simp: create_blank_tile_def Image_new_def split: sum.splits if_splits)
  with assms(1) d1 show ?thesis
    by (simp add: tiles_of_tile_size_def tile_size_def)
qed

lemma decoded_tile_size:
  assumes "tiles_of_tile_size codec d"
    and "WsiDicomImageData_get_decoded_tile codec d tile z path = (Inr im, d1)"
  shows "im_size im = tile_size d \<and> tiles_of_tile_size codec d1 \<and> tile_size d1 = tile_size d"
proof -
  from assms(2) consider
    (blank) "blank_tile d = (Inr im, d1)"
    | (frame) frame_bytes where "pil_open codec frame_bytes = Inr im" "d1 = d"
    by (auto simp: WsiDicomImageData_get_decoded_tile_def split: sum.splits if_splits)
  then show ?thesis
  proof cases
    case blank
    with assms(1) show ?thesis by (rule blank_tile_size)
  next
    case frame
    with assms(1) show ?thesis by (auto simp: tiles_of_tile_size_def)
  qed
qed

lemma get_tile_size:
  assumes "tiles_of_tile_size codec d"
    and "get_tile codec d tile z path (CropRegion r) = (Inr t, d1)"
  shows "im_size t = region_size (inside_crop r tile (tile_size d)) \<and>
         tiles_of_tile_size codec d1 \<and> tile_size d1 = tile_size d"
proof -
  from assms(2) obtain im where
    dec: "WsiDicomImageData_get_decoded_tile codec d tile z path = (Inr im, d1)"
    and t: "t = (if region_size (inside_crop r tile (tile_size d1)) = tile_size d1 then im
                 else image_crop im (box (inside_crop r tile (tile_size d1))))"
    by (auto simp: get_tile_def Let_def split: prod.splits sum.splits if_splits)
  from decoded_tile_size [OF assms(1) dec]
  have s: "im_size im = tile_size d" "tiles_of_tile_size codec d1" "tile_size d1 = tile_size d"
    by simp_all
  have "im_size (image_crop im (box rr)) = region_size rr" for rr
    by (cases rr) (simp add: image_crop_def box_def region_start_def region_end_def)
  with t s show ?thesis by simp
qed

lemma get_tile_seq_sizes:
  assumes "tiles_of_tile_size codec d"
    and "get_tile_seq codec d tiles z path r = (Inr ims, d')"
  shows "map im_size ims = map (\<lambda>tile. region_size (inside_crop r tile (tile_size d))) tiles"
  using assms
proof (induction tiles arbitrary: d ims)
  case Nil
  then show ?case by simp
next
  case (Cons tile tiles)
  from Cons.prems(2) obtain t d1 rest where
    g: "get_tile codec d tile z path (CropRegion r) = (Inr t, d1)"
    and s: "get_tile_seq codec d1 tiles z path r = (Inr rest, d')"
    and ims: "ims = t # rest"
    by (auto split: prod.splits sum.splits)
  from get_tile_size [OF Cons.prems(1) g]
  have t: "im_size t = region_size (inside_crop r tile (tile_size d))"
    and ok: "tiles_of_tile_size codec d1" and ts: "tile_size d1 = tile_size d"
    by simp_all
  from Cons.IH [OF ok s] ts t ims show ?case by simp
qed

lemma upto_two: "[k .. k + 1] = [k, k + 1]" for k :: int
proof -
  have "[k .. k + 1] = k # [k + 1 .. k + 1]" by (simp add: upto_rec1)
  also have "[k + 1 .. k + 1] = [k + 1]" by simp
  finally show ?thesis .
qed

lemma iterate_all_2x2:
  "iterate_all (Region (Point k l) (Size 1 1)) True =
     [Point k l, Point (k + 1) l, Point k (l + 1), Point (k + 1) (l + 1)]"
  by (simp add: iterate_all_def region_start_def region_end_def upto_two)

lemma aligned_tile_range:
  assumes ts: "tile_size d = Size 1024 1024"
    and g: "get_tile_range d (Region (Point (1024 * k) (1024 * l)) (Size 2048 2048)) z path = Inr tr"
  shows "tr = Region (Point k l) (Size 1 1)"
proof -
  have w: "0 < width (tile_size d)" and h: "0 < height (tile_size d)" using ts by simp_all
  have a: "(1024 * k) div 1024 = k" "(1024 * k + 2048 - 1) div 1024 = k + 1" for k :: int
    by (rule div_in_tile; simp)+
  have "spec_tile_range (tile_size d) (Region (Point (1024 * k) (1024 * l)) (Size 2048 2048)) =
        Region (Point k l) (Size 1 1)"
    using a by (simp add: spec_tile_range_def ts from_points_def region_start_def region_end_def)
  with get_tile_range_eq [OF w h, of "Region (Point (1024 * k) (1024 * l)) (Size 2048 2048)" z path] g
  show ?thesis by (simp split: if_splits)
qed

lemma aligned_crop_size:
  assumes "a \<in> {0, 1}" "b \<in> {0, 1}"
  shows "region_size (inside_crop (Region (Point (1024 * k) (1024 * l)) (Size 2048 2048))
            (Point (k + a) (l + b)) (Size 1024 1024)) = Size 1024 1024"
  using assms
  by (auto simp: inside_crop_def region_start_def region_end_def Let_def algebra_simps)


lemma get_tile_seq_length:
  "get_tile_seq codec d tiles z path r = (Inr ims, d') \<Longrightarrow> length ims = length tiles"
proof (induction tiles arbitrary: d ims)
  case Nil
  then show ?case by simp
next
  case (Cons tile tiles)
  from Cons.prems obtain t d1 rest where
    s: "get_tile_seq codec d1 tiles z path r = (Inr rest, d')" and ims: "ims = t # rest"
    by (auto split: prod.splits sum.splits)
  from Cons.IH [OF s] ims show ?case by simp
qed

lemma four_pastes:
  assumes first: "fst (pasted ! 0) = Point 0 0"
    and step: "\<forall>k. Suc k < length pasted \<longrightarrow>
            fst (pasted ! Suc k) =
              write_indexer (fst (pasted ! k)) (im_size (snd (pasted ! k))) (Size 2048 2048)"
    and tiles: "map snd pasted = [t0, t1, t2, t3]"
    and sizes: "im_size t0 = Size 1024 1024" "im_size t1 = Size 1024 1024"
               "im_size t2 = Size 1024 1024"
  shows "pasted = [(Point 0 0, t0), (Point 1024 0, t1), (Point 0 1024, t2), (Point 1024 1024, t3)]"
proof -
  from tiles have "length pasted = Suc (Suc (Suc (Suc 0)))"
    using length_map [of snd pasted] by simp
  then obtain a b c e where p: "pasted = [a, b, c, e]"
    by (auto simp: length_Suc_conv)
  from tiles p have s: "snd a = t0" "snd b = t1" "snd c = t2" "snd e = t3" by simp_all
  from first p have 0: "fst a = Point 0 0" by simp
  have 1: "fst b = Point 1024 0"
    using step [rule_format, of 0] p 0 s sizes by (simp add: write_indexer_eq)
  have 2: "fst c = Point 0 1024"
    using step [rule_format, of "Suc 0"] p 1 s sizes by (simp add: write_indexer_eq)
  have 3: "fst e = Point 1024 1024"
    using step [rule_format, of "Suc (Suc 0)"] p 2 s sizes by (simp add: write_indexer_eq)
  from p s 0 1 2 3 show ?thesis by (simp add: prod_eq_iff)
qed

lemma stitch_four:
  assumes s: "stitch_tiles codec d r path z = (Inr im, d')"
    and rs: "region_size r = Size 2048 2048"
    and tr: "get_tile_range d r z path = Inr tr"
    and it: "iterate_all tr True = [p0, p1, p2, p3]"
    and sz: "\<And>ims. get_tile_seq codec d [p0, p1, p2, p3] z path r = (Inr ims, d') \<Longrightarrow>
               \<forall>t\<in>set ims. im_size t = Size 1024 1024"
  shows "\<exists>t0 t1 t2 t3 mode im0.
           get_tile_seq codec d [p0, p1, p2, p3] z path r = (Inr [t0, t1, t2, t3], d') \<and>
           image_mode d = Inr mode \<and>
           Image_new mode (Size 2048 2048) (replicate (length mode) 0) = Inr im0 \<and>
           im = image_paste (image_paste (image_paste (image_paste im0
                  t0 (Point 0 0)) t1 (Point 1024 0)) t2 (Point 0 1024)) t3 (Point 1024 1024)"
proof -
  from stitch_tiles_pastes [OF s] tr it rs obtain pasted mode im0 where
    m: "image_mode d = Inr mode"
    and n: "Image_new mode (Size 2048 2048) (replicate (length mode) 0) = Inr im0"
    and g: "get_tile_seq codec d [p0, p1, p2, p3] z path r = (Inr (map snd pasted), d')"
    and f: "im = fold (\<lambda>(p, t) acc. image_paste acc t p) pasted im0"
    and first: "pasted \<noteq> [] \<longrightarrow> fst (pasted ! 0) = Point 0 0"
    and step: "\<forall>k. Suc k < length pasted \<longrightarrow>
              fst (pasted ! Suc k) =
                write_indexer (fst (pasted ! k)) (im_size (snd (pasted ! k))) (Size 2048 2048)"
    by auto
  from get_tile_seq_length [OF g] have len: "length pasted = Suc (Suc (Suc (Suc 0)))" by simp
  then obtain a b c e where p: "pasted = [a, b, c, e]"
    by (auto simp: length_Suc_conv)
  define t0 t1 t2 t3 where "t0 = snd a" and "t1 = snd b" and "t2 = snd c" and "t3 = snd e"
  with p have tiles: "map snd pasted = [t0, t1, t2, t3]" by simp
  from sz [OF g] tiles have sizes: "im_size t0 = Size 1024 1024" "im_size t1 = Size 1024 1024"
      "im_size t2 = Size 1024 1024"
    by simp_all
  from first p have first': "fst (pasted ! 0) = Point 0 0" by simp
  from four_pastes [OF first' step tiles sizes]
  have "pasted = [(Point 0 0, t0), (Point 1024 0, t1), (Point 0 1024, t2), (Point 1024 1024, t3)]" .
  with f have "im = image_paste (image_paste (image_paste (image_paste im0
                  t0 (Point 0 0)) t1 (Point 1024 0)) t2 (Point 0 1024)) t3 (Point 1024 1024)"
    by simp
  with g tiles m n show ?thesis by auto
qed

lemma stitch_aligned:
  assumes s: "stitch_tiles codec d r path z = (Inr im, d')"
    and ok: "tiles_of_tile_size codec d"
    and ts: "tile_size d = Size 1024 1024"
    and r: "r = Region (Point (1024 * k) (1024 * l)) (Size 2048 2048)"
  shows "\<exists>t0 t1 t2 t3 mode im0.
           get_tile_seq codec d [Point k l, Point (k + 1) l, Point k (l + 1), Point (k + 1) (l + 1)]
             z path r = (Inr [t0, t1, t2, t3], d') \<and>
           image_mode d = Inr mode \<and>
           Image_new mode (Size 2048 2048) (replicate (length mode) 0) = Inr im0 \<and>
           im = image_paste (image_paste (image_paste (image_paste im0
                  t0 (Point 0 0)) t1 (Point 1024 0)) t2 (Point 0 1024)) t3 (Point 1024 1024)"
proof -
  from stitch_tiles_pastes [OF s] obtain tr where tr: "get_tile_range d r z path = Inr tr"
    by blast
  from aligned_tile_range [OF ts tr [unfolded r]] have tr_eq: "tr = Region (Point k l) (Size 1 1)" .
  have it: "iterate_all tr True = [Point k l, Point (k + 1) l, Point k (l + 1), Point (k + 1) (l + 1)]"
    unfolding tr_eq by (rule iterate_all_2x2)
  have rs: "region_size r = Size 2048 2048" by (simp add: r)
  have sz: "\<forall>t\<in>set ims. im_size t = Size 1024 1024"
    if g: "get_tile_seq codec d [Point k l, Point (k + 1) l, Point k (l + 1), Point (k + 1) (l + 1)]
             z path r = (Inr ims, d')" for ims
  proof -
    have c: "region_size (inside_crop r (Point (k + a) (l + b)) (tile_size d)) = Size 1024 1024"
      if "a \<in> {0, 1}" "b \<in> {0, 1}" for a b
      unfolding r ts using that by (rule aligned_crop_size)
    from c [of 0 0] c [of 1 0] c [of 0 1] c [of 1 1] get_tile_seq_sizes [OF ok g]
    have "map im_size ims = [Size 1024 1024, Size 1024 1024, Size 1024 1024, Size 1024 1024]"
      by simp
    then have "set (map im_size ims) = {Size 1024 1024}" by simp
    then show ?thesis by auto
  qed
  from stitch_four [OF s rs tr it sz] show ?thesis by blast
qed


lemma get_tile_keeps_tile_size:
  assumes "get_tile codec d tile z path crop = (res, d1)"
  shows "tile_size d1 = tile_size d"
proof -
  from assms obtain res0 where dec: "WsiDicomImageData_get_decoded_tile codec d tile z path = (res0, d1)"
    by (auto simp: get_tile_def Let_def split: prod.splits sum.splits if_splits)
  then have "d1 = d \<or> (\<exists>t. d1 = d \<lparr> idata_blank_tile := Some t \<rparr>)"
    by (auto simp: WsiDicomImageData_get_decoded_tile_def blank_tile_def
        split: sum.splits if_splits option.splits)
  then show ?thesis by (auto simp: tile_size_def)
qed

lemma get_tile_whole:
  assumes g: "get_tile codec d tile z path (CropRegion r) = (Inr t, d1)"
    and sz: "im_size t = tile_size d"
  shows "region_size (inside_crop r tile (tile_size d)) = tile_size d"
proof (rule ccontr)
  assume n: "region_size (inside_crop r tile (tile_size d)) \<noteq> tile_size d"
  note ts = get_tile_keeps_tile_size [OF g]
  from g n ts obtain im where "t = image_crop im (box (inside_crop r tile (tile_size d)))"
    by (auto simp: get_tile_def Let_def split: prod.splits sum.splits if_splits)
  moreover have "im_size (image_crop im (box rr)) = region_size rr" for rr
    by (cases rr) (simp add: image_crop_def box_def region_start_def region_end_def)
  ultimately show False using n sz by simp
qed

lemma whole_first_axis:
  fixes sx :: int
  assumes "max 0 (min (sx + 2048) (sx div 1024 * 1024 + 1024) - max sx (sx div 1024 * 1024)) = 1024"
  shows "sx = 1024 * (sx div 1024)"
proof -
  define ox where "ox = sx div 1024 * 1024"
  have x: "ox \<le> sx" "sx < ox + 1024" unfolding ox_def by presburger+
  from x have "max sx ox = sx" "min (sx + 2048) (ox + 1024) = ox + 1024" by simp_all
  with assms [folded ox_def] x have "sx = ox" by simp
  then show ?thesis by (simp add: ox_def)
qed

lemma whole_first_tile:
  assumes "region_size (inside_crop (Region (Point sx sy) (Size 2048 2048))
             (Point (sx div 1024) (sy div 1024)) (Size 1024 1024)) = Size 1024 1024"
  shows "sx = 1024 * (sx div 1024) \<and> sy = 1024 * (sy div 1024)"
proof -
  from assms have
    "max 0 (min (sx + 2048) (sx div 1024 * 1024 + 1024) - max sx (sx div 1024 * 1024)) = 1024"
    "max 0 (min (sy + 2048) (sy div 1024 * 1024 + 1024) - max sy (sy div 1024 * 1024)) = 1024"
    by (simp_all add: inside_crop_def region_start_def region_end_def Let_def)
  then show ?thesis by (simp add: whole_first_axis)
qed

lemma concat_upto_first:
  fixes a b c e :: int
  assumes "a \<le> b" "c \<le> e"
  shows "\<exists>rest. concat (map (\<lambda>yy. map (\<lambda>xx. Point xx yy) [a .. b]) [c .. e]) = Point a c # rest"
proof -
  have "[a .. b] = a # [a + 1 .. b]" "[c .. e] = c # [c + 1 .. e]"
    using assms by (simp_all add: upto_rec1)
  then show ?thesis by simp
qed

lemma iterate_all_first:
  "\<exists>rest. iterate_all (spec_tile_range (Size 1024 1024) (Region (Point sx sy) (Size 2048 2048))) True =
     Point (sx div 1024) (sy div 1024) # rest"
proof -
  have x: "sx div 1024 \<le> (sx + 2048 - 1) div 1024" and y: "sy div 1024 \<le> (sy + 2048 - 1) div 1024"
    by (rule zdiv_mono1; simp)+
  have "iterate_all (spec_tile_range (Size 1024 1024) (Region (Point sx sy) (Size 2048 2048))) True =
      concat (map (\<lambda>yy. map (\<lambda>xx. Point xx yy) [sx div 1024 .. (sx + 2048 - 1) div 1024])
                  [sy div 1024 .. (sy + 2048 - 1) div 1024])"
    by (simp add: iterate_all_def spec_tile_range_def from_points_def region_start_def
        region_end_def)
  with concat_upto_first [OF x y] show ?thesis by simp
qed

lemma stitch_tiles_seq:
  assumes "stitch_tiles codec d r path z = (Inr im, d')"
    and "get_tile_range d r z path = Inr tr"
  shows "\<exists>ims. get_tile_seq codec d (iterate_all tr True) z path r = (Inr ims, d')"
  using stitch_tiles_pastes [OF assms(1)] assms(2) by auto

lemma stitch_whole_tiles:
  assumes s: "stitch_tiles codec d r path z = (Inr im, d')"
    and ts: "tile_size d = Size 1024 1024"
    and rs: "region_size r = Size 2048 2048"
    and tr: "get_tile_range d r z path = Inr tr"
    and g: "get_tile_seq codec d (iterate_all tr True) z path r = (Inr ims, d1)"
    and szs: "\<forall>t\<in>set ims. im_size t = Size 1024 1024"
  shows "\<exists>k l t0 t1 t2 t3 mode im0.
           r = Region (Point (1024 * k) (1024 * l)) (Size 2048 2048) \<and>
           iterate_all tr True = [Point k l, Point (k + 1) l, Point k (l + 1), Point (k + 1) (l + 1)] \<and>
           ims = [t0, t1, t2, t3] \<and>
           image_mode d = Inr mode \<and>
           Image_new mode (Size 2048 2048) (replicate (length mode) 0) = Inr im0 \<and>
           im = image_paste (image_paste (image_paste (image_paste im0
                  t0 (Point 0 0)) t1 (Point 1024 0)) t2 (Point 0 1024)) t3 (Point 1024 1024)"
proof -
  obtain sx sy where r: "r = Region (Point sx sy) (Size 2048 2048)"
    using rs by (cases r; cases "position r") auto
  have w: "0 < width (tile_size d)" and h: "0 < height (tile_size d)" using ts by simp_all
  from get_tile_range_eq [OF w h, of r z path] tr
  have tr_eq: "tr = spec_tile_range (Size 1024 1024) r"
    by (simp add: ts split: if_splits)
  from iterate_all_first [of sx sy] obtain rest where
    it0: "iterate_all tr True = Point (sx div 1024) (sy div 1024) # rest"
    unfolding tr_eq r by blast
  from g [unfolded it0] obtain t d2 ims' where
    g0: "get_tile codec d (Point (sx div 1024) (sy div 1024)) z path (CropRegion r) = (Inr t, d2)"
    and ims: "ims = t # ims'"
    by (auto split: prod.splits sum.splits)
  from szs ims ts have "im_size t = tile_size d" by simp
  from get_tile_whole [OF g0 this] have
    "region_size (inside_crop (Region (Point sx sy) (Size 2048 2048))
             (Point (sx div 1024) (sy div 1024)) (Size 1024 1024)) = Size 1024 1024"
    by (simp add: r ts)
  from whole_first_tile [OF this] have al: "sx = 1024 * (sx div 1024)" "sy = 1024 * (sy div 1024)"
    by simp_all
  define k l where "k = sx div 1024" and "l = sy div 1024"
  from r al have r': "r = Region (Point (1024 * k) (1024 * l)) (Size 2048 2048)"
    by (simp add: k_def l_def)
  from aligned_tile_range [OF ts tr [unfolded r']] have "tr = Region (Point k l) (Size 1 1)" .
  then have it: "iterate_all tr True =
      [Point k l, Point (k + 1) l, Point k (l + 1), Point (k + 1) (l + 1)]"
    by (simp only: iterate_all_2x2)
  from stitch_tiles_seq [OF s tr] g have d1: "d1 = d'" by auto
  have sz: "\<forall>t\<in>set ims'. im_size t = Size 1024 1024"
    if "get_tile_seq codec d [Point k l, Point (k + 1) l, Point k (l + 1), Point (k + 1) (l + 1)]
          z path r = (Inr ims', d')" for ims'
    using that g szs unfolding it d1 by simp
  from stitch_four [OF s rs tr it sz] obtain t0 t1 t2 t3 mode im0 where
    f: "get_tile_seq codec d [Point k l, Point (k + 1) l, Point k (l + 1), Point (k + 1) (l + 1)]
          z path r = (Inr [t0, t1, t2, t3], d')"
      "image_mode d = Inr mode"
      "Image_new mode (Size 2048 2048) (replicate (length mode) 0) = Inr im0"
      "im = image_paste (image_paste (image_paste (image_paste im0
                  t0 (Point 0 0)) t1 (Point 1024 0)) t2 (Point 0 1024)) t3 (Point 1024 1024)"
    by blast
  from f(1) g [unfolded it d1] have "ims = [t0, t1, t2, t3]" by simp
  with r' it f(2,3,4) show ?thesis by blast
qed


text \<open>
  Claim C7. The write cursor of \<open>stitch_tiles\<close>. \<open>_write_indexer\<close> adds the width of the
  tile just pasted to x, and when x then reaches or exceeds the width of the region it
  sets x to 0 and adds the height of that tile to y. The image that \<open>stitch_tiles\<close>
  returns is the new image of the size of the region with the tiles that \<open>get_tile\<close>
  returns pasted into it by \<open>image_paste\<close>, in the order of the tile range, the first
  at (0, 0) and every later one at the cursor that \<open>_write_indexer\<close> gives from the
  position and the size of the tile pasted before it. For a tile size of 1024 by 1024
  and a region of 2048 by 2048 that starts on a tile corner, with a codec that decodes
  frames to images of the tile size, exactly the four tiles of the region are fetched
  and the image returned is the new image with the first pasted at (0, 0), the second
  at (1024, 0), the third at (0, 1024) and the fourth at (1024, 1024). The same holds,
  with no assumption on the codec or the start of the region, whenever the tiles
  fetched for a region of 2048 by 2048 all have the size 1024 by 1024: then there are
  exactly four of them.
\<close>

theorem stitch_tiles_write_cursor:
  "write_indexer index previous_size image_sz =
     (if pt_x index + width previous_size \<ge> width image_sz
      then Point 0 (pt_y index + height previous_size)
      else Point (pt_x index + width previous_size) (pt_y index)) \<and>
   (stitch_tiles codec d r path z = (Inr im, d') \<longrightarrow>
      (\<exists>pasted mode im0 tile_range.
         image_mode d = Inr mode \<and>
         Image_new mode (region_size r) (replicate (length mode) 0) = Inr im0 \<and>
         get_tile_range d r z path = Inr tile_range \<and>
         get_tile_seq codec d (iterate_all tile_range True) z path r = (Inr (map snd pasted), d') \<and>
         im = fold (\<lambda>(p, t) acc. image_paste acc t p) pasted im0 \<and>
         (pasted \<noteq> [] \<longrightarrow> fst (pasted ! 0) = Point 0 0) \<and>
         (\<forall>n. Suc n < length pasted \<longrightarrow>
            fst (pasted ! Suc n) =
              write_indexer (fst (pasted ! n)) (im_size (snd (pasted ! n))) (region_size r)))) \<and>
   (stitch_tiles codec d r path z = (Inr im, d') \<and> tiles_of_tile_size codec d \<and>
    tile_size d = Size 1024 1024 \<and>
    r = Region (Point (1024 * k) (1024 * l)) (Size 2048 2048) \<longrightarrow>
      (\<exists>t0 t1 t2 t3 mode im0.
         get_tile_seq codec d [Point k l, Point (k + 1) l, Point k (l + 1), Point (k + 1) (l + 1)]
           z path r = (Inr [t0, t1, t2, t3], d') \<and>
         image_mode d = Inr mode \<and>
         Image_new mode (Size 2048 2048) (replicate (length mode) 0) = Inr im0 \<and>
         im = image_paste (image_paste (image_paste (image_paste im0
                t0 (Point 0 0)) t1 (Point 1024 0)) t2 (Point 0 1024)) t3 (Point 1024 1024))) \<and>
   (stitch_tiles codec d r path z = (Inr im, d') \<and> tile_size d = Size 1024 1024 \<and>
    region_size r = Size 2048 2048 \<and> get_tile_range d r z path = Inr tr \<and>
    get_tile_seq codec d (iterate_all tr True) z path r = (Inr ims, d1) \<and>
    (\<forall>t\<in>set ims. im_size t = Size 1024 1024) \<longrightarrow>
      (\<exists>t0 t1 t2 t3 mode im0.
         ims = [t0, t1, t2, t3] \<and>
         image_mode d = Inr mode \<and>
         Image_new mode (Size 2048 2048) (replicate (length mode) 0) = Inr im0 \<and>
         im = image_paste (image_paste (image_paste (image_paste im0
                t0 (Point 0 0)) t1 (Point 1024 0)) t2 (Point 0 1024)) t3 (Point 1024 1024)))"
proof (intro conjI impI)
  show "write_indexer index previous_size image_sz =
     (if pt_x index + width previous_size \<ge> width image_sz
      then Point 0 (pt_y index + height previous_size)
      else Point (pt_x index + width previous_size) (pt_y index))"
    by (rule write_indexer_eq)
next
  assume "stitch_tiles codec d r path z = (Inr im, d')"
  then show "\<exists>pasted mode im0 tile_range.
         image_mode d = Inr mode \<and>
         Image_new mode (region_size r) (replicate (length mode) 0) = Inr im0 \<and>
         get_tile_range d r z path = Inr tile_range \<and>
         get_tile_seq codec d (iterate_all tile_range True) z path r = (Inr (map snd pasted), d') \<and>
         im = fold (\<lambda>(p, t) acc. image_paste acc t p) pasted im0 \<and>
         (pasted \<noteq> [] \<longrightarrow> fst (pasted ! 0) = Point 0 0) \<and>
         (\<forall>n. Suc n < length pasted \<longrightarrow>
            fst (pasted ! Suc n) =
              write_indexer (fst (pasted ! n)) (im_size (snd (pasted ! n))) (region_size r))"
    by (rule stitch_tiles_pastes)
next
  assume "stitch_tiles codec d r path z = (Inr im, d') \<and> tiles_of_tile_size codec d \<and>
    tile_size d = Size 1024 1024 \<and>
    r = Region (Point (1024 * k) (1024 * l)) (Size 2048 2048)"
  then have h: "stitch_tiles codec d r path z = (Inr im, d')" "tiles_of_tile_size codec d"
    "tile_size d = Size 1024 1024" "r = Region (Point (1024 * k) (1024 * l)) (Size 2048 2048)"
    by blast+
  show "\<exists>t0 t1 t2 t3 mode im0.
         get_tile_seq codec d [Point k l, Point (k + 1) l, Point k (l + 1), Point (k + 1) (l + 1)]
           z path r = (Inr [t0, t1, t2, t3], d') \<and>
         image_mode d = Inr mode \<and>
         Image_new mode (Size 2048 2048) (replicate (length mode) 0) = Inr im0 \<and>
         im = image_paste (image_paste (image_paste (image_paste im0
                t0 (Point 0 0)) t1 (Point 1024 0)) t2 (Point 0 1024)) t3 (Point 1024 1024)"
    by (rule stitch_aligned [OF h])
next
  assume "stitch_tiles codec d r path z = (Inr im, d') \<and> tile_size d = Size 1024 1024 \<and>
    region_size r = Size 2048 2048 \<and> get_tile_range d r z path = Inr tr \<and>
    get_tile_seq codec d (iterate_all tr True) z path r = (Inr ims, d1) \<and>
    (\<forall>t\<in>set ims. im_size t = Size 1024 1024)"
  then have h: "stitch_tiles codec d r path z = (Inr im, d')" "tile_size d = Size 1024 1024"
    "region_size r = Size 2048 2048" "get_tile_range d r z path = Inr tr"
    "get_tile_seq codec d (iterate_all tr True) z path r = (Inr ims, d1)"
    "\<forall>t\<in>set ims. im_size t = Size 1024 1024"
    by blast+
  from stitch_whole_tiles [OF h]
  show "\<exists>t0 t1 t2 t3 mode im0.
         ims = [t0, t1, t2, t3] \<and>
         image_mode d = Inr mode \<and>
         Image_new mode (Size 2048 2048) (replicate (length mode) 0) = Inr im0 \<and>
         im = image_paste (image_paste (image_paste (image_paste im0
                t0 (Point 0 0)) t1 (Point 1024 0)) t2 (Point 0 1024)) t3 (Point 1024 1024)"
    by blast
qed

lemma grey_image_data_simps:
  "tile_size grey_image_data = Size 1024 1024"
  "image_size grey_image_data = Size 2048 2048"
  "focal_planes grey_image_data = [0]"
  "optical_paths grey_image_data = [''0'']"
  "tiled_size grey_image_data = Inr (Size 2 2)"
  "plane_region grey_image_data = Inr (Region (Point 0 0) (Size 1 1))"
  by (simp_all add: tile_size_def image_size_def focal_planes_def optical_paths_def
      tiled_size_def plane_region_def size_truediv_def ceil_div_def size_sub_int_def
      grey_image_data_def example_full_index_def tiles_tile_size_def tiles_image_size_def
      tiles_focal_planes_def tiles_optical_paths_def)

lemma grey_frame_index:
  assumes "x \<in> {0, 1}" "y \<in> {0, 1}"
  shows "WsiDicomImageData_get_frame_index grey_image_data (Point x y) 0 ''0'' = Inr (x + 2 * y)"
proof -
  have "valid_tiles grey_image_data (Region (Point x y) (Size 0 0)) 0 ''0'' = Inr True"
    using assms
    by (auto simp: valid_tiles_def grey_image_data_simps is_inside_def region_start_def
        region_end_def)
  moreover have "tiles_get_frame_index (idata_tiles grey_image_data) (Point x y) 0 ''0'' =
      Inr (x + 2 * y)"
    by (simp add: tiles_get_frame_index_def grey_image_data_def example_full_index_def
        FullTileIndex_get_frame_index_def get_focal_plane_index_def get_optical_path_index_def
        area_def)
  ultimately show ?thesis by (simp add: WsiDicomImageData_get_frame_index_def)
qed

lemma grey_tile_frame:
  "get_tile_frame grey_image_data 0 = Inr [10, 0]"
  "get_tile_frame grey_image_data 1 = Inr [20, 0]"
  "get_tile_frame grey_image_data 2 = Inr [30, 0]"
  "get_tile_frame grey_image_data 3 = Inr [40, 0]"
  by (simp_all add: get_tile_frame_def grey_image_data_def read_frame_def get_filepointer_def
      py_index_def fp_seek_def fp_read_def grey_fp_def Let_def)

lemma grey_decoded_tile:
  "WsiDicomImageData_get_decoded_tile grey_codec grey_image_data (Point 0 0) 0 ''0'' =
     (Inr (grey_image (Size 1024 1024) 10), grey_image_data)"
  "WsiDicomImageData_get_decoded_tile grey_codec grey_image_data (Point 1 0) 0 ''0'' =
     (Inr (grey_image (Size 1024 1024) 20), grey_image_data)"
  "WsiDicomImageData_get_decoded_tile grey_codec grey_image_data (Point 0 1) 0 ''0'' =
     (Inr (grey_image (Size 1024 1024) 30), grey_image_data)"
  "WsiDicomImageData_get_decoded_tile grey_codec grey_image_data (Point 1 1) 0 ''0'' =
     (Inr (grey_image (Size 1024 1024) 40), grey_image_data)"
  using grey_frame_index [of 0 0] grey_frame_index [of 1 0] grey_frame_index [of 0 1]
    grey_frame_index [of 1 1]
  by (simp_all add: WsiDicomImageData_get_decoded_tile_def grey_tile_frame grey_codec_def)

lemma grey_get_tile:
  "get_tile grey_codec grey_image_data (Point 0 0) 0 ''0''
     (CropRegion (Region (Point 0 0) (Size 2048 2048))) =
     (Inr (grey_image (Size 1024 1024) 10), grey_image_data)"
  "get_tile grey_codec grey_image_data (Point 1 0) 0 ''0''
     (CropRegion (Region (Point 0 0) (Size 2048 2048))) =
     (Inr (grey_image (Size 1024 1024) 20), grey_image_data)"
  "get_tile grey_codec grey_image_data (Point 0 1) 0 ''0''
     (CropRegion (Region (Point 0 0) (Size 2048 2048))) =
     (Inr (grey_image (Size 1024 1024) 30), grey_image_data)"
  "get_tile grey_codec grey_image_data (Point 1 1) 0 ''0''
     (CropRegion (Region (Point 0 0) (Size 2048 2048))) =
     (Inr (grey_image (Size 1024 1024) 40), grey_image_data)"
  by (simp_all add: get_tile_def grey_decoded_tile inside_crop_def grey_image_data_simps
      region_start_def region_end_def Let_def)

lemma grey_tiles_of_tile_size: "tiles_of_tile_size grey_codec grey_image_data"
  unfolding tiles_of_tile_size_def grey_image_data_simps(1)
  by (auto simp: grey_codec_def grey_image_def grey_image_data_def split: list.splits)

lemma grey_stitch_returns:
  "\<exists>im. stitch_tiles grey_codec grey_image_data (Region (Point 0 0) (Size 2048 2048)) ''0'' 0 =
     (Inr im, grey_image_data)"
proof -
  have mode: "image_mode grey_image_data = Inr ''RGB''"
    by (simp add: image_mode_def grey_image_data_def)
  have new: "Image_new ''RGB'' (Size 2048 2048) [0, 0, 0] =
      Inr \<lparr> im_mode = ''RGB'', im_size = Size 2048 2048, im_pixel = (\<lambda>i j. [0, 0, 0]) \<rparr>"
    by (simp add: Image_new_def)
  have range: "get_tile_range grey_image_data (Region (Point 0 0) (Size 2048 2048)) 0 ''0'' =
      Inr (Region (Point 0 0) (Size 1 1))"
    by (simp add: get_tile_range_def point_floordiv_def point_truediv_def ceil_div_def
        point_sub_int_def from_points_def valid_tiles_def grey_image_data_simps
        region_start_def region_end_def is_inside_def)
  have tiles: "iterate_all (Region (Point 0 0) (Size 1 1)) True =
      [Point 0 0, Point 1 0, Point 0 1, Point 1 1]"
    using iterate_all_2x2 [of 0 0] by simp
  show ?thesis
    by (simp add: stitch_tiles_def stitch_tiles_trace_def mode new range tiles grey_get_tile)
qed

theorem stitch_tiles_write_cursor_witness:
  "stitch_tiles grey_codec grey_image_data (Region (Point 0 0) (Size 2048 2048)) ''0'' 0 =
     (Inr (image_paste (image_paste (image_paste (image_paste
             \<lparr> im_mode = ''RGB'', im_size = Size 2048 2048, im_pixel = (\<lambda>i j. [0, 0, 0]) \<rparr>
             (grey_image (Size 1024 1024) 10) (Point 0 0))
             (grey_image (Size 1024 1024) 20) (Point 1024 0))
             (grey_image (Size 1024 1024) 30) (Point 0 1024))
             (grey_image (Size 1024 1024) 40) (Point 1024 1024)),
      grey_image_data) \<and>
   (case stitch_tiles grey_codec grey_image_data (Region (Point 0 0) (Size 2048 2048)) ''0'' 0 of
      (Inl e, d) \<Rightarrow> False
    | (Inr im, d) \<Rightarrow>
        [im_pixel im 0 0, im_pixel im 1023 1023, im_pixel im 1024 0, im_pixel im 2047 1023,
         im_pixel im 0 1024, im_pixel im 1023 2047, im_pixel im 1024 1024, im_pixel im 2047 2047] =
        [[10, 10, 10], [10, 10, 10], [20, 20, 20], [20, 20, 20],
         [30, 30, 30], [30, 30, 30], [40, 40, 40], [40, 40, 40]])"
proof -
  let ?r = "Region (Point 0 0) (Size 2048 2048)"
  from grey_stitch_returns obtain im where
    s: "stitch_tiles grey_codec grey_image_data ?r ''0'' 0 = (Inr im, grey_image_data)"
    by blast
  have seq: "get_tile_seq grey_codec grey_image_data [Point 0 0, Point 1 0, Point 0 1, Point 1 1]
      0 ''0'' ?r =
      (Inr [grey_image (Size 1024 1024) 10, grey_image (Size 1024 1024) 20,
            grey_image (Size 1024 1024) 30, grey_image (Size 1024 1024) 40], grey_image_data)"
    by (simp add: grey_get_tile)
  have mode: "image_mode grey_image_data = Inr ''RGB''"
    by (simp add: image_mode_def grey_image_data_def)
  have new: "Image_new ''RGB'' (Size 2048 2048) [0, 0, 0] =
      Inr \<lparr> im_mode = ''RGB'', im_size = Size 2048 2048, im_pixel = (\<lambda>i j. [0, 0, 0]) \<rparr>"
    by (simp add: Image_new_def)
  from stitch_tiles_write_cursor
         [of "Point 0 0" "Size 0 0" "Size 0 0" grey_codec grey_image_data ?r "''0''" 0 im
             grey_image_data 0 0 "Region (Point 0 0) (Size 1 1)" "[]" grey_image_data]
       s grey_tiles_of_tile_size grey_image_data_simps(1) seq mode new
  have im: "im = image_paste (image_paste (image_paste (image_paste
             \<lparr> im_mode = ''RGB'', im_size = Size 2048 2048, im_pixel = (\<lambda>i j. [0, 0, 0]) \<rparr>
             (grey_image (Size 1024 1024) 10) (Point 0 0))
             (grey_image (Size 1024 1024) 20) (Point 1024 0))
             (grey_image (Size 1024 1024) 30) (Point 0 1024))
             (grey_image (Size 1024 1024) 40) (Point 1024 1024)"
    by simp
  have px: "[im_pixel im 0 0, im_pixel im 1023 1023, im_pixel im 1024 0, im_pixel im 2047 1023,
         im_pixel im 0 1024, im_pixel im 1023 2047, im_pixel im 1024 1024, im_pixel im 2047 2047] =
        [[10, 10, 10], [10, 10, 10], [20, 20, 20], [20, 20, 20],
         [30, 30, 30], [30, 30, 30], [40, 40, 40], [40, 40, 40]]"
    unfolding im by (simp add: image_paste_def inside_image_def grey_image_def)
  from s im px show ?thesis by simp
qed

section \<open>Cropped tiles\<close>

lemma im_size_example: "im_size (example_image sz) = sz"
  by (simp add: example_image_def)

lemma get_tile_clipped:
  assumes "WsiDicomImageData_get_decoded_tile codec d tile z path = (Inr im, d1)"
    and "crop \<noteq> CropBool False"
  shows "get_tile codec d tile z path crop =
         (let crop_region = (case crop of CropBool _ \<Rightarrow> image_region d1 | CropRegion r \<Rightarrow> r);
              tile_crop = inside_crop crop_region tile (tile_size d1)
          in if region_size tile_crop = tile_size d1 then (Inr im, d1)
             else (Inr (image_crop im (box tile_crop)), d1))"
  using assms by (simp add: get_tile_def)

lemma im_size_image_crop:
  "im_size (image_crop im (box r)) = region_size r"
  by (cases r) (simp add: image_crop_def box_def region_start_def region_end_def)

lemma get_encoded_tile_not_clipped:
  assumes "WsiDicomImageData_get_encoded_tile codec d tile z path = (Inr tile_frame, d1)"
    and "crop \<noteq> CropBool False"
    and "region_size (inside_crop (case crop of CropBool _ \<Rightarrow> image_region d1 | CropRegion r \<Rightarrow> r)
            tile (tile_size d1)) \<noteq> tile_size d1"
    and "pil_open codec tile_frame = Inr im"
  shows "get_encoded_tile codec d tile z path crop = (encode codec d1 im, d1)"
  using assms by (simp add: get_encoded_tile_def Let_def)

lemma example_edge_image_data_simps:
  "tile_size example_edge_image_data = Size 1024 1024"
  "image_size example_edge_image_data = Size 1536 2048"
  "focal_planes example_edge_image_data = [0, 1000]"
  "optical_paths example_edge_image_data = [''0'']"
  "tiled_size example_edge_image_data = Inr (Size 2 2)"
  "plane_region example_edge_image_data = Inr (Region (Point 0 0) (Size 1 1))"
  "image_region example_edge_image_data = Region (Point 0 0) (Size 1536 2048)"
  "idata_files example_edge_image_data = idata_files example_image_data"
  "idata_transfer_syntax example_edge_image_data = JPEGBaseline8Bit"
  by (simp_all add: tile_size_def image_size_def focal_planes_def optical_paths_def
      tiled_size_def plane_region_def size_truediv_def ceil_div_def size_sub_int_def
      example_edge_image_data_def image_region_def
      example_image_data_def example_full_index_def tiles_tile_size_def tiles_image_size_def
      tiles_focal_planes_def tiles_optical_paths_def)

lemma example_edge_frame_index:
  "WsiDicomImageData_get_frame_index example_edge_image_data (Point 1 0) 0 ''0'' = Inr 1"
proof -
  have "valid_tiles example_edge_image_data (Region (Point 1 0) (Size 0 0)) 0 ''0'' = Inr True"
    by (simp add: valid_tiles_def example_edge_image_data_simps is_inside_def region_start_def
        region_end_def)
  moreover have "tiles_get_frame_index (idata_tiles example_edge_image_data) (Point 1 0) 0 ''0'' =
      Inr 1"
    by (simp add: tiles_get_frame_index_def example_edge_image_data_def example_image_data_def
        example_full_index_def
        FullTileIndex_get_frame_index_def get_focal_plane_index_def get_optical_path_index_def
        area_def)
  ultimately show ?thesis by (simp add: WsiDicomImageData_get_frame_index_def)
qed

lemma example_edge_tile_frame:
  "get_tile_frame example_edge_image_data 1 = Inr [2, 2]"
proof -
  have "get_file (idata_files example_edge_image_data) 1 = Inr (example_file 0)"
    by (simp add: example_edge_image_data_simps example_image_data_def example_file_def)
  moreover have "read_frame (example_file 0) 1 = Inr [2, 2]"
    by (simp add: read_frame_def get_filepointer_def py_index_def example_file_def
      fp_seek_def fp_read_def example_fp_def Let_def)
  ultimately show ?thesis by (simp add: get_tile_frame_def)
qed

lemma example_edge_crop:
  "inside_crop (image_region example_edge_image_data) (Point 1 0)
     (tile_size example_edge_image_data) = Region (Point 0 0) (Size 512 1024)"
  by (simp add: inside_crop_def example_edge_image_data_simps region_start_def region_end_def
      Let_def)

lemma example_edge_crop':
  "inside_crop (Region (Point 0 0) (Size 1536 2048)) (Point 1 0) (Size 1024 1024) =
     Region (Point 0 0) (Size 512 1024)"
  by (simp add: inside_crop_def region_start_def region_end_def Let_def)

lemma example_open: "pil_open example_codec [2, 2] = Inr (example_image (Size 1024 1024))"
  by (simp add: example_codec_def)

text \<open>
  Claim C6. \<open>get_tile\<close> returns the decoded tile clipped to the intersection with the
  crop region (lemma \<open>get_tile_clipped\<close>). \<open>get_encoded_tile\<close> does not: it calls
  \<^verbatim>\<open>image.crop\<close> and drops the image returned, so it encodes the whole tile again
  (lemma \<open>get_encoded_tile_not_clipped\<close>). For the image of 1536 by 2048 pixels in
  tiles of 1024 by 1024, the tile (1, 0) overlaps the image in 512 by 1024 pixels;
  \<open>get_tile\<close> returns an image of that size, and the bytes that \<open>get_encoded_tile\<close>
  returns decode to an image of 1024 by 1024.
\<close>

theorem get_encoded_tile_keeps_full_tile:
  "get_encoded_tile example_codec example_edge_image_data (Point 1 0) 0 ''0'' (CropBool True) =
     (Inr [2, 2], example_edge_image_data) \<and>
   map_sum id im_size (pil_open example_codec [2, 2]) = Inr (Size 1024 1024) \<and>
   region_size (inside_crop (image_region example_edge_image_data) (Point 1 0)
                  (tile_size example_edge_image_data)) = Size 512 1024 \<and>
   map_sum id im_size
     (fst (get_tile example_codec example_edge_image_data (Point 1 0) 0 ''0'' (CropBool True))) =
     Inr (Size 512 1024)"
proof -
  have enc: "WsiDicomImageData_get_encoded_tile example_codec example_edge_image_data
      (Point 1 0) 0 ''0'' = (Inr [2, 2], example_edge_image_data)"
    by (simp add: WsiDicomImageData_get_encoded_tile_def example_edge_frame_index
        example_edge_tile_frame)
  have dec: "WsiDicomImageData_get_decoded_tile example_codec example_edge_image_data
      (Point 1 0) 0 ''0'' = (Inr (example_image (Size 1024 1024)), example_edge_image_data)"
    by (simp add: WsiDicomImageData_get_decoded_tile_def example_edge_frame_index
        example_edge_tile_frame example_open)
  have save: "encode example_codec example_edge_image_data (example_image (Size 1024 1024)) =
      Inr [2, 2]"
    by (simp add: encode_def image_settings_def example_edge_image_data_simps
        example_codec_def example_image_def)
  have 1: "get_encoded_tile example_codec example_edge_image_data (Point 1 0) 0 ''0''
      (CropBool True) = (Inr [2, 2], example_edge_image_data)"
    using get_encoded_tile_not_clipped [OF enc, of "CropBool True", OF _ _ example_open] save
    by (simp add: example_edge_crop' example_edge_image_data_simps)
  have 2: "get_tile example_codec example_edge_image_data (Point 1 0) 0 ''0'' (CropBool True) =
      (Inr (image_crop (example_image (Size 1024 1024)) (box (Region (Point 0 0) (Size 512 1024)))),
       example_edge_image_data)"
    using get_tile_clipped [OF dec, of "CropBool True"]
    by (simp add: example_edge_crop' example_edge_image_data_simps)
  from 1 2 show ?thesis
    by (simp add: example_open example_edge_crop im_size_image_crop im_size_example)
qed

section \<open>Sparse tile index\<close>

lemma map_of_dict_set:
  "map_of (dict_set k v d) k' = (if k' = k then Some v else map_of d k')"
  by (induction d) auto

lemma SparseTilePlane_init_blank:
  assumes "SparseTilePlane_init tiled = Inr p"
  shows "wf_plane tiled p"
    and "i < nat (width tiled) \<Longrightarrow> j < nat (height tiled) \<Longrightarrow> plane_array p ! i ! j = - 1"
  using assms by (auto simp: SparseTilePlane_init_def wf_plane_def split: if_splits)

lemma np_axis_bound: "np_axis n i = Inr k \<Longrightarrow> k < n"
  by (auto simp: np_axis_def split: if_splits)

lemma plane_setitem_wf:
  assumes "plane_setitem p pos v = Inr p'" "wf_plane tiled p"
  shows "wf_plane tiled p'"
proof -
  from assms(1) obtain a b where ab:
    "p' = p \<lparr> plane_array := (plane_array p) [a := (plane_array p ! a) [b := v]] \<rparr>"
    by (auto simp: plane_setitem_def split: sum.splits)
  have "length ((plane_array p) [a := (plane_array p ! a) [b := v]] ! i) =
        length (plane_array p ! i)" if "i < length (plane_array p)" for i
    using that by (cases "i = a") simp_all
  with assms(2) ab show ?thesis by (simp add: wf_plane_def)
qed

lemma plane_setitem_other:
  assumes "plane_setitem p pos v = Inr p'" "wf_plane tiled p"
    and "\<not> (np_axis (nat (width tiled)) (pt_x pos) = Inr i \<and>
            np_axis (nat (height tiled)) (pt_y pos) = Inr j)"
    and "i < nat (width tiled)" "j < nat (height tiled)"
  shows "plane_array p' ! i ! j = plane_array p ! i ! j"
proof -
  from assms(1) obtain a b where ab:
    "np_axis (nat (width (plane_shape p))) (pt_x pos) = Inr a"
    "np_axis (nat (height (plane_shape p))) (pt_y pos) = Inr b"
    "p' = p \<lparr> plane_array := (plane_array p) [a := (plane_array p ! a) [b := v]] \<rparr>"
    by (auto simp: plane_setitem_def split: sum.splits)
  from assms(2) have sh: "plane_shape p = tiled" by (simp add: wf_plane_def)
  from ab sh assms(3) have ne: "a \<noteq> i \<or> b \<noteq> j" by auto
  from assms(2,4) have len: "i < length (plane_array p)" by (simp add: wf_plane_def)
  show ?thesis
  proof (cases "a = i")
    case True
    with ne have "b \<noteq> j" by simp
    with True ab(3) len show ?thesis by simp
  next
    case False
    with ab(3) show ?thesis by simp
  qed
qed

lemma read_planes_frames_blank:
  assumes "read_planes_frames tile_sz tiled dataset n frs planes = Inr planes'"
    and "planes_ok tiled planes (z, path) (nat (pt_x tile)) (nat (pt_y tile))"
    and "\<forall>fr\<in>set frs. \<not> frame_assigns tile_sz tiled dataset fr tile z path"
    and "nat (pt_x tile) < nat (width tiled)" "nat (pt_y tile) < nat (height tiled)"
  shows "planes_ok tiled planes' (z, path) (nat (pt_x tile)) (nat (pt_y tile))"
  using assms(1,2,3)
proof (induction frs arbitrary: n planes)
  case Nil
  then show ?case by simp
next
  case (Cons fr frs)
  from Cons.prems(1) obtain t z' ident p p' where
    rc: "read_frame_coordinates tile_sz fr = Inr (t, z')"
    and ri: "read_optical_path_identifier dataset fr = Inr ident"
    and pl: "(case map_of planes (z', ident) of Some q \<Rightarrow> Inr q
              | None \<Rightarrow> SparseTilePlane_init tiled) = Inr p"
    and st: "plane_setitem p t (n + ds_frame_offset dataset) = Inr p'"
    and rest: "read_planes_frames tile_sz tiled dataset (n + 1) frs
                 (dict_set (z', ident) p' planes) = Inr planes'"
    by (auto split: sum.splits prod.splits)
  from Cons.prems(2) have wfall: "\<And>k q. map_of planes k = Some q \<Longrightarrow> wf_plane tiled q"
    and blank: "\<And>q. map_of planes (z, path) = Some q \<Longrightarrow>
        plane_array q ! nat (pt_x tile) ! nat (pt_y tile) = - 1"
    by (auto simp: planes_ok_def)
  have wfp: "wf_plane tiled p"
    using pl wfall SparseTilePlane_init_blank(1) by (auto split: option.splits)
  have wfp': "wf_plane tiled p'" by (rule plane_setitem_wf [OF st wfp])
  have pblank: "plane_array p ! nat (pt_x tile) ! nat (pt_y tile) = - 1"
    if "(z', ident) = (z, path)"
    using pl that blank SparseTilePlane_init_blank(2) [OF _ assms(4,5)]
    by (auto split: option.splits)
  have na: "\<not> frame_assigns tile_sz tiled dataset fr tile z path"
    using Cons.prems(3) by simp
  have p'blank: "plane_array p' ! nat (pt_x tile) ! nat (pt_y tile) = - 1"
    if k: "(z', ident) = (z, path)"
  proof -
    from na rc ri k have "\<not> (np_axis (nat (width tiled)) (pt_x t) = Inr (nat (pt_x tile)) \<and>
            np_axis (nat (height tiled)) (pt_y t) = Inr (nat (pt_y tile)))"
      by (simp add: frame_assigns_def)
    from plane_setitem_other [OF st wfp this assms(4,5)] pblank [OF k] show ?thesis by simp
  qed
  have "planes_ok tiled (dict_set (z', ident) p' planes) (z, path)
          (nat (pt_x tile)) (nat (pt_y tile))"
    unfolding planes_ok_def
    using wfp' wfall blank p'blank by (auto simp: map_of_dict_set)
  moreover from Cons.prems(3) have "\<forall>fr\<in>set frs. \<not> frame_assigns tile_sz tiled dataset fr tile z path"
    by simp
  ultimately show ?case by (rule Cons.IH [OF rest])
qed

lemma read_planes_from_datasets_blank:
  assumes "read_planes_from_datasets tile_sz tiled datasets planes = Inr planes'"
    and "planes_ok tiled planes (z, path) (nat (pt_x tile)) (nat (pt_y tile))"
    and "\<forall>d\<in>set datasets. \<forall>fr\<in>set (ds_frame_sequence d).
           \<not> frame_assigns tile_sz tiled d fr tile z path"
    and "nat (pt_x tile) < nat (width tiled)" "nat (pt_y tile) < nat (height tiled)"
  shows "planes_ok tiled planes' (z, path) (nat (pt_x tile)) (nat (pt_y tile))"
  using assms(1,2,3)
proof (induction datasets arbitrary: planes)
  case Nil
  then show ?case by simp
next
  case (Cons d ds)
  from Cons.prems(1) obtain planes1 where
    1: "read_planes_frames tile_sz tiled d 0 (ds_frame_sequence d) planes = Inr planes1"
    and 2: "read_planes_from_datasets tile_sz tiled ds planes1 = Inr planes'"
    by (auto split: sum.splits)
  from Cons.prems(3) have "\<forall>fr\<in>set (ds_frame_sequence d). \<not> frame_assigns tile_sz tiled d fr tile z path"
    by simp
  from read_planes_frames_blank [OF 1 Cons.prems(2) this assms(4,5)]
  have "planes_ok tiled planes1 (z, path) (nat (pt_x tile)) (nat (pt_y tile))" .
  moreover from Cons.prems(3) have "\<forall>d\<in>set ds. \<forall>fr\<in>set (ds_frame_sequence d).
           \<not> frame_assigns tile_sz tiled d fr tile z path"
    by simp
  ultimately show ?case by (rule Cons.IH [OF 2])
qed

lemma SparseTileIndex_sentinel:
  assumes init: "SparseTileIndex_init datasets = Inr idx"
    and x: "0 \<le> pt_x tile" "pt_x tile < width (ti_tiled_size idx)"
    and y: "0 \<le> pt_y tile" "pt_y tile < height (ti_tiled_size idx)"
    and plane: "(z, path) \<in> fst ` set (sparse_planes idx)"
    and never: "\<forall>d\<in>set datasets. \<forall>fr\<in>set (ds_frame_sequence d).
           \<not> frame_assigns (ti_tile_size idx) (ti_tiled_size idx) d fr tile z path"
  shows "SparseTileIndex_get_frame_index idx tile z path = Inr (- 1)"
proof -
  from init obtain base planes where
    b: "TileIndex_init datasets = Inr base"
    and r: "read_planes_from_datasets (ti_tile_size base) (ti_tiled_size base) datasets [] = Inr planes"
    and i: "idx = tile_index.extend base
                    \<lparr> sparse_planes = planes, sparse_focal_planes = get_focal_planes planes \<rparr>"
    by (auto simp: SparseTileIndex_init_def split: sum.splits)
  from i have eq: "ti_tile_size idx = ti_tile_size base" "ti_tiled_size idx = ti_tiled_size base"
    "sparse_planes idx = planes"
    by (simp_all add: tile_index.defs)
  let ?tiled = "ti_tiled_size base"
  have bx: "nat (pt_x tile) < nat (width ?tiled)" and by': "nat (pt_y tile) < nat (height ?tiled)"
    using x y eq by simp_all
  have "planes_ok ?tiled [] (z, path) (nat (pt_x tile)) (nat (pt_y tile))"
    by (simp add: planes_ok_def)
  from read_planes_from_datasets_blank [OF r this _ bx by'] never eq
  have ok: "planes_ok ?tiled planes (z, path) (nat (pt_x tile)) (nat (pt_y tile))"
    by simp
  from plane eq obtain p where p: "map_of planes (z, path) = Some p"
    by (metis weak_map_of_SomeI image_iff prod.collapse map_of_eq_None_iff not_Some_eq)
  with ok have wf: "wf_plane ?tiled p"
    and cell: "plane_array p ! nat (pt_x tile) ! nat (pt_y tile) = - 1"
    by (auto simp: planes_ok_def)
  from wf have sh: "plane_shape p = ?tiled" by (simp add: wf_plane_def)
  have "plane_getitem p tile = Inr (- 1)"
    using x y eq sh cell by (simp add: plane_getitem_def np_axis_def)
  with p eq show ?thesis by (simp add: SparseTileIndex_get_frame_index_def)
qed


lemma TileIndex_init_tiled_size:
  assumes "TileIndex_init datasets = Inr base"
  shows "size_truediv (ti_image_size base) (ti_tile_size base) = Inr (ti_tiled_size base)"
  using assms by (auto simp: TileIndex_init_def split: list.splits sum.splits)

lemma set_get_focal_planes: "set (get_focal_planes planes) = fst ` fst ` set planes"
proof -
  have "set (fold (\<lambda>((z, _), _). set_add z) planes acc) = fst ` fst ` set planes \<union> set acc"
    for acc :: "'a list"
    by (induction planes arbitrary: acc) (auto simp: set_set_add image_iff)
  then show ?thesis by (simp add: get_focal_planes_def)
qed

lemma example_sparse_index_init:
  "SparseTileIndex_init [example_sparse_dataset] = Inr example_sparse_index"
  by (simp add: SparseTileIndex_init_def TileIndex_init_def example_sparse_dataset_def
      example_dataset_def example_sparse_index_def read_optical_paths_from_datasets_def
      get_path_identifers_def set_update_def set_add_def size_truediv_def ceil_div_def
      read_frame_count_from_datasets_def read_frame_coordinates_def point_floordiv_def
      read_optical_path_identifier_def SparseTilePlane_init_def plane_setitem_def np_axis_def
      get_focal_planes_def tile_index.defs Let_def numeral_eq_Suc)

section \<open>Sparse sentinel and blank tile\<close>

lemma sparse_valid_tile_iff:
  assumes init: "SparseTileIndex_init datasets = Inr idx"
    and tiles: "idata_tiles d = Sparse idx"
    and x: "0 \<le> pt_x tile" "pt_x tile < width (ti_tiled_size idx)"
    and y: "0 \<le> pt_y tile" "pt_y tile < height (ti_tiled_size idx)"
    and plane: "(z, path) \<in> fst ` set (sparse_planes idx)"
  shows "valid_tiles d (Region tile (Size 0 0)) z path = Inr (path \<in> set (ti_optical_paths idx))"
proof -
  from init obtain base planes where
    b: "TileIndex_init datasets = Inr base"
    and i: "idx = tile_index.extend base
                    \<lparr> sparse_planes = planes, sparse_focal_planes = get_focal_planes planes \<rparr>"
    by (auto simp: SparseTileIndex_init_def split: sum.splits)
  from i have eq: "ti_tile_size idx = ti_tile_size base" "ti_tiled_size idx = ti_tiled_size base"
    "ti_image_size idx = ti_image_size base"
    "sparse_planes idx = planes" "sparse_focal_planes idx = get_focal_planes planes"
    by (simp_all add: tile_index.defs)
  have ts: "tiled_size d = Inr (ti_tiled_size idx)"
    using TileIndex_init_tiled_size [OF b] eq tiles
    by (simp add: tiled_size_def image_size_def tile_size_def tiles_image_size_def
        tiles_tile_size_def)
  from plane have "z \<in> fst ` fst ` set (sparse_planes idx)"
    by (metis fst_conv image_eqI)
  then have z: "z \<in> set (focal_planes d)"
    using eq tiles
    by (simp add: focal_planes_def tiles_focal_planes_def set_get_focal_planes)
  have p: "optical_paths d = ti_optical_paths idx"
    using tiles by (simp add: optical_paths_def tiles_optical_paths_def)
  have "is_inside (Region tile (Size 0 0))
          (Region (Point 0 0) (size_sub_int (ti_tiled_size idx) 1))"
    using x y by (simp add: is_inside_def region_start_def region_end_def size_sub_int_def)
  with ts z p show ?thesis by (simp add: valid_tiles_def plane_region_def)
qed

lemma blank_pixel:
  assumes "samples = 1 \<or> samples = 3"
  shows "take (nat samples) (get_blank_color photometric) =
         replicate (nat samples) (if photometric = ''MONOCHROME2'' then 0 else 255)"
  using assms by (auto simp: get_blank_color_def numeral_eq_Suc)

lemma create_blank_tile_spec:
  "create_blank_tile d =
     (if idata_samples_per_pixel d \<noteq> 1 \<and> idata_samples_per_pixel d \<noteq> 3
      then Inl NotImplementedError
      else if width (tile_size d) < 0 \<or> height (tile_size d) < 0 then Inl ValueError
      else Inr (spec_blank_image (idata_samples_per_pixel d)
                  (idata_photometric_interpretation d) (tile_size d)))"
proof (cases "idata_samples_per_pixel d = 1 \<or> idata_samples_per_pixel d = 3")
  case True
  from blank_pixel [OF this] True show ?thesis
    by (auto simp: create_blank_tile_def image_mode_def Image_new_def spec_blank_image_def
        blank_color_def)
next
  case False
  then show ?thesis by (simp add: create_blank_tile_def image_mode_def)
qed

lemma blank_tile_spec: "blank_tile d = spec_blank_tile d (tile_size d)"
  by (simp add: blank_tile_def spec_blank_tile_def create_blank_tile_spec split: option.splits)

lemma image_settings_spec:
  "image_settings ts =
     (case spec_encoder_settings ts of None \<Rightarrow> Inl NotImplementedError | Some s \<Rightarrow> Inr s)"
  by (cases ts) (simp_all add: image_settings_def spec_encoder_settings_def)

lemma spec_blank_tile_state:
  assumes "spec_blank_tile d sz = (res, d1)"
  shows "idata_transfer_syntax d1 = idata_transfer_syntax d"
  using assms by (auto simp: spec_blank_tile_def split: option.splits if_splits)

lemma blank_encoded_tile_spec:
  "blank_encoded_tile codec d = spec_blank_encoded_tile codec d (tile_size d)"
proof (cases "idata_encoded_blank_tile d")
  case (Some b)
  then show ?thesis by (simp add: blank_encoded_tile_def spec_blank_encoded_tile_def)
next
  case None
  obtain res d1 where r: "spec_blank_tile d (tile_size d) = (res, d1)"
    by (cases "spec_blank_tile d (tile_size d)")
  note ts = spec_blank_tile_state [OF r]
  show ?thesis
  proof (cases res)
    case (Inl e)
    with None r show ?thesis
      by (simp add: blank_encoded_tile_def spec_blank_encoded_tile_def blank_tile_spec)
  next
    case (Inr t)
    with None r ts show ?thesis
      by (simp add: blank_encoded_tile_def spec_blank_encoded_tile_def blank_tile_spec
          encode_def image_settings_spec split: option.splits)
  qed
qed

lemma spec_blank_tile_files:
  "fst (spec_blank_tile (d \<lparr> idata_files := fs \<rparr>) sz) = fst (spec_blank_tile d sz)"
  by (simp add: spec_blank_tile_def split: option.splits)

lemma spec_blank_encoded_tile_files:
  "fst (spec_blank_encoded_tile codec (d \<lparr> idata_files := fs \<rparr>) sz) =
   fst (spec_blank_encoded_tile codec d sz)"
  by (simp add: spec_blank_encoded_tile_def spec_blank_tile_def split: option.splits)

text \<open>
  Claim C2, as amended. In a sparse tile index built from datasets, for a tile
  coordinate inside the tiled plane and a plane \<open>(z, path)\<close> that exists, when no frame
  of the datasets assigns this cell of this plane, \<open>get_frame_index\<close> returns -1 and
  does not raise. The tile data engine of an instance with this index first checks the
  coordinate: when the optical path is not among the optical paths that the datasets
  declare, it raises \<open>WsiDicomOutOfBoundsError\<close>. When the path is declared, the
  decoded tile is the blank tile: the cached one when the cache is filled, and
  otherwise an image of the tile size in one colour (black for \<open>MONOCHROME2\<close>, white
  otherwise), which is then cached; with a number of samples per pixel other than 1
  and 3 it raises \<open>NotImplementedError\<close>. The encoded tile is the cached encoded blank
  tile when that cache is filled, and otherwise the blank tile saved with the settings
  of the transfer syntax, which is then cached. The files of the instance have no part
  in the result: no frame is read.
\<close>

theorem sparse_sentinel_engine:
  fixes d :: "('f, 'z) wsi_dicom_image_data"
  assumes init: "SparseTileIndex_init datasets = Inr idx"
    and x: "0 \<le> pt_x tile" "pt_x tile < width (ti_tiled_size idx)"
    and y: "0 \<le> pt_y tile" "pt_y tile < height (ti_tiled_size idx)"
    and plane: "(z, path) \<in> fst ` set (sparse_planes idx)"
    and never: "\<forall>d\<in>set datasets. \<forall>fr\<in>set (ds_frame_sequence d).
           \<not> frame_assigns (ti_tile_size idx) (ti_tiled_size idx) d fr tile z path"
  shows "SparseTileIndex_get_frame_index idx tile z path = Inr (- 1) \<and>
         (idata_tiles d = Sparse idx \<longrightarrow>
            WsiDicomImageData_get_decoded_tile codec d tile z path =
              (if path \<in> set (ti_optical_paths idx) then spec_blank_tile d (ti_tile_size idx)
               else (Inl WsiDicomOutOfBoundsError, d)) \<and>
            WsiDicomImageData_get_encoded_tile codec d tile z path =
              (if path \<in> set (ti_optical_paths idx)
               then spec_blank_encoded_tile codec d (ti_tile_size idx)
               else (Inl WsiDicomOutOfBoundsError, d)) \<and>
            fst (WsiDicomImageData_get_decoded_tile codec (d \<lparr> idata_files := fs \<rparr>) tile z path) =
              fst (WsiDicomImageData_get_decoded_tile codec d tile z path) \<and>
            fst (WsiDicomImageData_get_encoded_tile codec (d \<lparr> idata_files := fs \<rparr>) tile z path) =
              fst (WsiDicomImageData_get_encoded_tile codec d tile z path))"
proof -
  have s: "SparseTileIndex_get_frame_index idx tile z path = Inr (- 1)"
    by (rule SparseTileIndex_sentinel [OF init x y plane never])
  have fi: "WsiDicomImageData_get_frame_index d' tile z path =
      (if path \<in> set (ti_optical_paths idx) then Inr (- 1) else Inl WsiDicomOutOfBoundsError)"
    if "idata_tiles d' = Sparse idx" for d' :: "('f, 'z) wsi_dicom_image_data"
    using sparse_valid_tile_iff [OF init that x y plane] s that
    by (simp add: WsiDicomImageData_get_frame_index_def tiles_get_frame_index_def)
  have ts: "tile_size d' = ti_tile_size idx"
    if "idata_tiles d' = Sparse idx" for d' :: "('f, 'z) wsi_dicom_image_data"
    using that by (simp add: tile_size_def tiles_tile_size_def)
  have dec: "WsiDicomImageData_get_decoded_tile codec d' tile z path =
              (if path \<in> set (ti_optical_paths idx) then spec_blank_tile d' (ti_tile_size idx)
               else (Inl WsiDicomOutOfBoundsError, d'))"
    if "idata_tiles d' = Sparse idx" for d' :: "('f, 'z) wsi_dicom_image_data"
    using fi [OF that] ts [OF that]
    by (simp add: WsiDicomImageData_get_decoded_tile_def blank_tile_spec)
  have enc: "WsiDicomImageData_get_encoded_tile codec d' tile z path =
              (if path \<in> set (ti_optical_paths idx)
               then spec_blank_encoded_tile codec d' (ti_tile_size idx)
               else (Inl WsiDicomOutOfBoundsError, d'))"
    if "idata_tiles d' = Sparse idx" for d' :: "('f, 'z) wsi_dicom_image_data"
    using fi [OF that] ts [OF that]
    by (simp add: WsiDicomImageData_get_encoded_tile_def blank_encoded_tile_spec)
  have "WsiDicomImageData_get_decoded_tile codec d tile z path =
              (if path \<in> set (ti_optical_paths idx) then spec_blank_tile d (ti_tile_size idx)
               else (Inl WsiDicomOutOfBoundsError, d)) \<and>
            WsiDicomImageData_get_encoded_tile codec d tile z path =
              (if path \<in> set (ti_optical_paths idx)
               then spec_blank_encoded_tile codec d (ti_tile_size idx)
               else (Inl WsiDicomOutOfBoundsError, d)) \<and>
            fst (WsiDicomImageData_get_decoded_tile codec (d \<lparr> idata_files := fs \<rparr>) tile z path) =
              fst (WsiDicomImageData_get_decoded_tile codec d tile z path) \<and>
            fst (WsiDicomImageData_get_encoded_tile codec (d \<lparr> idata_files := fs \<rparr>) tile z path) =
              fst (WsiDicomImageData_get_encoded_tile codec d tile z path)"
    if t: "idata_tiles d = Sparse idx"
  proof -
    have t': "idata_tiles (d \<lparr> idata_files := fs \<rparr>) = Sparse idx" using t by simp
    show ?thesis
      by (simp add: dec [OF t] dec [OF t'] enc [OF t] enc [OF t'] spec_blank_tile_files
          spec_blank_encoded_tile_files)
  qed
  with s show ?thesis by blast
qed


theorem sparse_sentinel_engine_witness:
  "SparseTileIndex_init [example_sparse_dataset] = Inr example_sparse_index \<and>
   SparseTileIndex_get_frame_index example_sparse_index (Point 1 0) 0 ''0'' = Inr (- 1) \<and>
   WsiDicomImageData_get_decoded_tile example_codec example_sparse_image_data (Point 1 0) 0 ''0'' =
     (Inr \<lparr> im_mode = ''RGB'', im_size = Size 1024 1024, im_pixel = (\<lambda>i j. [255, 255, 255]) \<rparr>,
      example_sparse_image_data
        \<lparr> idata_blank_tile :=
            Some \<lparr> im_mode = ''RGB'', im_size = Size 1024 1024,
                   im_pixel = (\<lambda>i j. [255, 255, 255]) \<rparr> \<rparr>) \<and>
   WsiDicomImageData_get_encoded_tile example_codec example_sparse_image_data (Point 1 0) 0 ''0'' =
     (Inr [2, 2],
      example_sparse_image_data
        \<lparr> idata_blank_tile :=
            Some \<lparr> im_mode = ''RGB'', im_size = Size 1024 1024,
                   im_pixel = (\<lambda>i j. [255, 255, 255]) \<rparr>,
          idata_encoded_blank_tile := Some [2, 2] \<rparr>) \<and>
   WsiDicomImageData_get_decoded_tile example_codec
       (example_sparse_image_data \<lparr> idata_files := [] \<rparr>) (Point 1 0) 0 ''0'' =
     (Inr \<lparr> im_mode = ''RGB'', im_size = Size 1024 1024, im_pixel = (\<lambda>i j. [255, 255, 255]) \<rparr>,
      example_sparse_image_data
        \<lparr> idata_files := [],
          idata_blank_tile :=
            Some \<lparr> im_mode = ''RGB'', im_size = Size 1024 1024,
                   im_pixel = (\<lambda>i j. [255, 255, 255]) \<rparr> \<rparr>)"
proof -
  have x: "0 \<le> pt_x (Point 1 0)" "pt_x (Point 1 0) < width (ti_tiled_size example_sparse_index)"
    and y: "0 \<le> pt_y (Point 1 0)" "pt_y (Point 1 0) < height (ti_tiled_size example_sparse_index)"
    by (simp_all add: example_sparse_index_def)
  have plane: "(0, ''0'') \<in> fst ` set (sparse_planes example_sparse_index)"
    by (simp add: example_sparse_index_def)
  have never: "\<forall>d\<in>set [example_sparse_dataset]. \<forall>fr\<in>set (ds_frame_sequence d).
      \<not> frame_assigns (ti_tile_size example_sparse_index) (ti_tiled_size example_sparse_index)
           d fr (Point 1 0) 0 ''0''"
    by (simp add: example_sparse_dataset_def example_dataset_def example_sparse_index_def
        frame_assigns_def read_frame_coordinates_def point_floordiv_def np_axis_def Let_def)
  have tiles: "idata_tiles example_sparse_image_data = Sparse example_sparse_index"
    "idata_tiles (example_sparse_image_data \<lparr> idata_files := [] \<rparr>) = Sparse example_sparse_index"
    by (simp_all add: example_sparse_image_data_def)
  have path: "''0'' \<in> set (ti_optical_paths example_sparse_index)"
    "ti_tile_size example_sparse_index = Size 1024 1024"
    by (simp_all add: example_sparse_index_def)
  have white: "spec_blank_image 3 ''RGB'' (Size 1024 1024) =
      \<lparr> im_mode = ''RGB'', im_size = Size 1024 1024, im_pixel = (\<lambda>i j. [255, 255, 255]) \<rparr>"
    by (simp add: spec_blank_image_def numeral_eq_Suc)
  have fields: "idata_blank_tile example_sparse_image_data = None"
    "idata_encoded_blank_tile example_sparse_image_data = None"
    "idata_samples_per_pixel example_sparse_image_data = 3"
    "idata_photometric_interpretation example_sparse_image_data = ''RGB''"
    "idata_transfer_syntax example_sparse_image_data = JPEGBaseline8Bit"
    by (simp_all add: example_sparse_image_data_def)
  have blank: "spec_blank_tile example_sparse_image_data (Size 1024 1024) =
      (Inr \<lparr> im_mode = ''RGB'', im_size = Size 1024 1024, im_pixel = (\<lambda>i j. [255, 255, 255]) \<rparr>,
       example_sparse_image_data
        \<lparr> idata_blank_tile :=
            Some \<lparr> im_mode = ''RGB'', im_size = Size 1024 1024,
                   im_pixel = (\<lambda>i j. [255, 255, 255]) \<rparr> \<rparr>)"
    by (simp add: spec_blank_tile_def fields white)
  have blank': "spec_blank_tile (example_sparse_image_data \<lparr> idata_files := [] \<rparr>) (Size 1024 1024) =
      (Inr \<lparr> im_mode = ''RGB'', im_size = Size 1024 1024, im_pixel = (\<lambda>i j. [255, 255, 255]) \<rparr>,
       example_sparse_image_data
        \<lparr> idata_files := [],
          idata_blank_tile :=
            Some \<lparr> im_mode = ''RGB'', im_size = Size 1024 1024,
                   im_pixel = (\<lambda>i j. [255, 255, 255]) \<rparr> \<rparr>)"
    by (simp add: spec_blank_tile_def fields white)
  have enc: "spec_blank_encoded_tile example_codec example_sparse_image_data (Size 1024 1024) =
      (Inr [2, 2],
       example_sparse_image_data
        \<lparr> idata_blank_tile :=
            Some \<lparr> im_mode = ''RGB'', im_size = Size 1024 1024,
                   im_pixel = (\<lambda>i j. [255, 255, 255]) \<rparr>,
          idata_encoded_blank_tile := Some [2, 2] \<rparr>)"
    by (simp add: spec_blank_encoded_tile_def blank fields spec_encoder_settings_def
        example_codec_def)
  note t = sparse_sentinel_engine [OF example_sparse_index_init x y plane never,
      of example_sparse_image_data example_codec "[]"]
  note t' = sparse_sentinel_engine [OF example_sparse_index_init x y plane never,
      of "example_sparse_image_data \<lparr> idata_files := [] \<rparr>" example_codec "[]"]
  from t tiles(1) path blank enc have
    1: "SparseTileIndex_get_frame_index example_sparse_index (Point 1 0) 0 ''0'' = Inr (- 1)"
    and 2: "WsiDicomImageData_get_decoded_tile example_codec example_sparse_image_data
               (Point 1 0) 0 ''0'' =
     (Inr \<lparr> im_mode = ''RGB'', im_size = Size 1024 1024, im_pixel = (\<lambda>i j. [255, 255, 255]) \<rparr>,
      example_sparse_image_data
        \<lparr> idata_blank_tile :=
            Some \<lparr> im_mode = ''RGB'', im_size = Size 1024 1024,
                   im_pixel = (\<lambda>i j. [255, 255, 255]) \<rparr> \<rparr>)"
    and 3: "WsiDicomImageData_get_encoded_tile example_codec example_sparse_image_data
               (Point 1 0) 0 ''0'' =
     (Inr [2, 2],
      example_sparse_image_data
        \<lparr> idata_blank_tile :=
            Some \<lparr> im_mode = ''RGB'', im_size = Size 1024 1024,
                   im_pixel = (\<lambda>i j. [255, 255, 255]) \<rparr>,
          idata_encoded_blank_tile := Some [2, 2] \<rparr>)"
    by simp_all
  from t' tiles(2) path blank' have
    4: "WsiDicomImageData_get_decoded_tile example_codec
       (example_sparse_image_data \<lparr> idata_files := [] \<rparr>) (Point 1 0) 0 ''0'' =
     (Inr \<lparr> im_mode = ''RGB'', im_size = Size 1024 1024, im_pixel = (\<lambda>i j. [255, 255, 255]) \<rparr>,
      example_sparse_image_data
        \<lparr> idata_files := [],
          idata_blank_tile :=
            Some \<lparr> im_mode = ''RGB'', im_size = Size 1024 1024,
                   im_pixel = (\<lambda>i j. [255, 255, 255]) \<rparr> \<rparr>)"
    by simp
  from example_sparse_index_init 1 2 3 4 show ?thesis by blast
qed

lemma undeclared_path_index_init:
  "SparseTileIndex_init [undeclared_path_dataset] = Inr undeclared_path_index"
  by (simp add: SparseTileIndex_init_def TileIndex_init_def undeclared_path_dataset_def
      example_dataset_def undeclared_path_index_def read_optical_paths_from_datasets_def
      get_path_identifers_def set_update_def set_add_def size_truediv_def ceil_div_def
      read_frame_count_from_datasets_def read_frame_coordinates_def point_floordiv_def
      read_optical_path_identifier_def SparseTilePlane_init_def plane_setitem_def np_axis_def
      get_focal_planes_def tile_index.defs Let_def numeral_eq_Suc)

text \<open>
  Claim C2 as stated fails for an optical path that a frame names and the datasets do
  not declare. The dataset below declares the optical path \<open>0\<close>, and its only frame,
  for the tile (0, 0), names the optical path \<open>1\<close>. The plane \<open>(0, 1)\<close> exists, the
  tile (1, 0) is inside the tiling and no frame assigns it, and \<open>get_frame_index\<close>
  returns -1; the tile data engine raises \<open>WsiDicomOutOfBoundsError\<close> for it, decoded
  and encoded.
\<close>

theorem sparse_sentinel_undeclared_path:
  "SparseTileIndex_init [undeclared_path_dataset] = Inr undeclared_path_index \<and>
   idata_tiles undeclared_path_image_data = Sparse undeclared_path_index \<and>
   ti_tiled_size undeclared_path_index = Size 2 2 \<and>
   map fst (sparse_planes undeclared_path_index) = [(0, ''1'')] \<and>
   ds_frame_sequence undeclared_path_dataset =
     [\<lparr> RowPositionInTotalImagePixelMatrix = 1,
        ColumnPositionInTotalImagePixelMatrix = 1,
        ZOffsetInSlideCoordinateSystem = 0,
        OpticalPathIdentificationSequence = Some [Some ''1''] \<rparr>] \<and>
   \<not> frame_assigns (ti_tile_size undeclared_path_index) (ti_tiled_size undeclared_path_index)
        undeclared_path_dataset
        \<lparr> RowPositionInTotalImagePixelMatrix = 1,
          ColumnPositionInTotalImagePixelMatrix = 1,
          ZOffsetInSlideCoordinateSystem = 0,
          OpticalPathIdentificationSequence = Some [Some ''1''] \<rparr>
        (Point 1 0) 0 ''1'' \<and>
   SparseTileIndex_get_frame_index undeclared_path_index (Point 1 0) 0 ''1'' = Inr (- 1) \<and>
   WsiDicomImageData_get_decoded_tile example_codec undeclared_path_image_data
       (Point 1 0) 0 ''1'' =
     (Inl WsiDicomOutOfBoundsError, undeclared_path_image_data) \<and>
   WsiDicomImageData_get_encoded_tile example_codec undeclared_path_image_data
       (Point 1 0) 0 ''1'' =
     (Inl WsiDicomOutOfBoundsError, undeclared_path_image_data)"
proof -
  have tiles: "idata_tiles undeclared_path_image_data = Sparse undeclared_path_index"
    by (simp add: undeclared_path_image_data_def)
  have idx: "ti_tiled_size undeclared_path_index = Size 2 2"
    "map fst (sparse_planes undeclared_path_index) = [(0, ''1'')]"
    "SparseTileIndex_get_frame_index undeclared_path_index (Point 1 0) 0 ''1'' = Inr (- 1)"
    by (simp_all add: undeclared_path_index_def SparseTileIndex_get_frame_index_def
        plane_getitem_def np_axis_def)
  have frs: "ds_frame_sequence undeclared_path_dataset =
     [\<lparr> RowPositionInTotalImagePixelMatrix = 1,
        ColumnPositionInTotalImagePixelMatrix = 1,
        ZOffsetInSlideCoordinateSystem = 0,
        OpticalPathIdentificationSequence = Some [Some ''1''] \<rparr>]"
    by (simp add: undeclared_path_dataset_def)
  have na: "\<not> frame_assigns (ti_tile_size undeclared_path_index)
        (ti_tiled_size undeclared_path_index) undeclared_path_dataset
        \<lparr> RowPositionInTotalImagePixelMatrix = 1,
          ColumnPositionInTotalImagePixelMatrix = 1,
          ZOffsetInSlideCoordinateSystem = 0,
          OpticalPathIdentificationSequence = Some [Some ''1''] \<rparr>
        (Point 1 0) 0 ''1''"
    by (simp add: undeclared_path_index_def frame_assigns_def read_frame_coordinates_def
        point_floordiv_def np_axis_def Let_def)
  have valid: "valid_tiles undeclared_path_image_data (Region (Point 1 0) (Size 0 0)) 0 ''1'' =
      Inr False"
    by (simp add: valid_tiles_def plane_region_def tiled_size_def image_size_def tile_size_def
        optical_paths_def focal_planes_def tiles_image_size_def tiles_tile_size_def
        tiles_optical_paths_def tiles_focal_planes_def size_truediv_def ceil_div_def
        size_sub_int_def undeclared_path_image_data_def undeclared_path_index_def)
  have fi: "WsiDicomImageData_get_frame_index undeclared_path_image_data (Point 1 0) 0 ''1'' =
      Inl WsiDicomOutOfBoundsError"
    by (simp add: WsiDicomImageData_get_frame_index_def valid)
  have dec: "WsiDicomImageData_get_decoded_tile example_codec undeclared_path_image_data
       (Point 1 0) 0 ''1'' = (Inl WsiDicomOutOfBoundsError, undeclared_path_image_data)"
    by (simp add: WsiDicomImageData_get_decoded_tile_def fi)
  have enc: "WsiDicomImageData_get_encoded_tile example_codec undeclared_path_image_data
       (Point 1 0) 0 ''1'' = (Inl WsiDicomOutOfBoundsError, undeclared_path_image_data)"
    by (simp add: WsiDicomImageData_get_encoded_tile_def fi)
  from undeclared_path_index_init tiles idx frs na dec enc show ?thesis by blast
qed


end
